theory Spec2Isabelle
  imports Main "HOL-Library.Word" "HOL-Library.Sublist"
begin

unbundle bit_operations_syntax

section \<open>Python values used by the codec\<close>

text \<open>
  The content of a Python \<open>bytes\<close>, \<open>bytearray\<close> or \<open>memoryview\<close> is a list of 8-bit words.
  A Python \<open>str\<close> is a list of characters with code points below 256. The payload of a
  binary element is text or a buffer, and a buffer is a \<open>bytes\<close> or a \<open>memoryview\<close>, the
  declared types; a \<open>memoryview\<close> is a contiguous view of unsigned bytes, as the database
  drivers and \<open>as_wkb\<close> make them. The two kinds of buffer hold the same content and
  differ in the text of their \<open>IndexError\<close>.
\<close>

type_synonym byte = "8 word"

datatype kind = Bytes | Memoryview

datatype pydata = Str string | Buffer kind "byte list"

text \<open>
  Exceptions are values. \<open>binascii.Error\<close> is a subclass of \<open>ValueError\<close> in Python;
  the handlers below say which of the two they catch. \<open>OtherError\<close> is an exception of
  any other class, with the name of the class and its text: what the code of a foreign
  object may raise.
\<close>

datatype py_error =
    ArgumentError string
  | ValueError string
  | BinasciiError string
  | StructError string
  | OverflowError string
  | IndexError string
  | AttributeError
  | OtherError string string

fun error_message :: "py_error \<Rightarrow> string" where
  "error_message (ArgumentError m) = m"
| "error_message (ValueError m) = m"
| "error_message (BinasciiError m) = m"
| "error_message (StructError m) = m"
| "error_message (OverflowError m) = m"
| "error_message (IndexError m) = m"
| "error_message AttributeError = []"
| "error_message (OtherError c m) = m"

fun is_ValueError :: "py_error \<Rightarrow> bool" where
  "is_ValueError (ValueError m) = True"
| "is_ValueError (BinasciiError m) = True"
| "is_ValueError e = False"

subsection \<open>Decimal text of integers (f-strings) and \<open>int()\<close>\<close>

definition digit_char :: "nat \<Rightarrow> char" where
  "digit_char d = char_of (48 + d)"

fun str_nat :: "nat \<Rightarrow> string" where
  "str_nat n = (if n < 10 then [digit_char n] else str_nat (n div 10) @ [digit_char (n mod 10)])"

definition str_int :: "int \<Rightarrow> string" where
  "str_int i = (if i < 0 then CHR ''-'' # str_nat (nat (- i)) else str_nat (nat i))"

definition is_digit :: "char \<Rightarrow> bool" where
  "is_digit c = (48 \<le> (of_char c :: nat) \<and> (of_char c :: nat) \<le> 57)"

definition digit_val :: "char \<Rightarrow> nat" where
  "digit_val c = of_char c - 48"

text \<open>
  The characters that \<open>int()\<close> skips around a literal: of the code points below 256,
  tab, line feed, vertical tab, form feed, carriage return, space, next line (133) and
  no-break space (160). The separators 28 to 31 are not among them, although
  \<open>str.isspace\<close> holds of them.
\<close>

definition py_isspace :: "char \<Rightarrow> bool" where
  "py_isspace c = ((of_char c :: nat) \<in> {9, 10, 11, 12, 13, 32, 133, 160})"

definition py_strip :: "string \<Rightarrow> string" where
  "py_strip s = rev (dropWhile py_isspace (rev (dropWhile py_isspace s)))"

text \<open>
  The digits of a decimal literal as \<open>int()\<close> reads them: at least one digit, single
  underscores allowed between digits. The flag says that the previous character was a
  digit.
\<close>

fun int_digits :: "bool \<Rightarrow> nat \<Rightarrow> string \<Rightarrow> nat option" where
  "int_digits p acc [] = (if p then Some acc else None)"
| "int_digits p acc (c # cs) =
     (if is_digit c then int_digits True (acc * 10 + digit_val c) cs
      else if c = CHR ''_'' \<and> p \<and> cs \<noteq> [] \<and> is_digit (hd cs) then int_digits False acc cs
      else None)"

text \<open>
  The interpreter converts between \<open>int\<close> and decimal text only up to
  \<open>sys.get_int_max_str_digits()\<close> digits, 4300 unless configured otherwise, and raises
  \<open>ValueError\<close> beyond. For \<open>int()\<close> the digits of the literal are counted, leading
  zeros included; the sign, the underscores and the surrounding whitespace are not.
\<close>

definition MAX_STR_DIGITS :: nat where
  "MAX_STR_DIGITS = 4300"

definition int_literal :: "string \<Rightarrow> nat option" where
  "int_literal t =
     (if MAX_STR_DIGITS < length (filter is_digit t) then None else int_digits False 0 t)"

text \<open>
  \<open>int(s)\<close> for a \<open>str\<close>: surrounding whitespace is stripped, one sign is allowed;
  \<open>None\<close> stands for \<open>ValueError\<close>.
\<close>

definition py_int :: "string \<Rightarrow> int option" where
  "py_int s =
     (case py_strip s of
        [] \<Rightarrow> None
      | c # cs \<Rightarrow>
          if c = CHR ''-'' then map_option (\<lambda>n. - int n) (int_literal cs)
          else if c = CHR ''+'' then map_option int (int_literal cs)
          else map_option int (int_literal (c # cs)))"

text \<open>
  An \<open>int\<close> in an f-string, \<open>f"{i}"\<close>: the decimal text, or \<open>ValueError\<close> when the
  absolute value has more digits than the limit.
\<close>

definition digits_limit :: py_error where
  "digits_limit =
     ValueError (''Exceeds the limit (4300 digits) for integer string conversion; ''
                 @ ''use sys.set_int_max_str_digits() to increase the limit'')"

definition within_limit :: "int \<Rightarrow> bool" where
  "within_limit i = (length (str_nat (nat \<bar>i\<bar>)) \<le> MAX_STR_DIGITS)"

definition format_int :: "int \<Rightarrow> py_error + string" where
  "format_int i = (if within_limit i then Inr (str_int i) else Inl digits_limit)"

text \<open>
  An f-string is literal text and integers; it is evaluated from the left, and the first
  integer that is too long raises. \<open>raise ValueError(f"...")\<close> then raises the
  \<open>ValueError\<close> of the f-string instead of the one it was to build. The numbers that the
  constructors and \<open>wkbHeader\<close> write are a byte, a 16-bit field or a length that a guard
  has found below 122, so their f-strings are written without this step; the arguments of
  \<open>read_band\<close> and \<open>_format_e\<close> are the caller's.
\<close>

datatype part = Lit string | Num int

fun fstring :: "part list \<Rightarrow> py_error + string" where
  "fstring [] = Inr []"
| "fstring (Lit s # ps) = (case fstring ps of Inl e \<Rightarrow> Inl e | Inr r \<Rightarrow> Inr (s @ r))"
| "fstring (Num i # ps) =
     (case format_int i of
        Inl e \<Rightarrow> Inl e
      | Inr t \<Rightarrow> (case fstring ps of Inl e \<Rightarrow> Inl e | Inr r \<Rightarrow> Inr (t @ r)))"

definition ValueError_f :: "part list \<Rightarrow> py_error" where
  "ValueError_f ps = (case fstring ps of Inl e \<Rightarrow> e | Inr m \<Rightarrow> ValueError m)"

text \<open>The value of a string of decimal digits, read from the left with an accumulator.\<close>

definition decimal :: "nat \<Rightarrow> string \<Rightarrow> nat" where
  "decimal acc ds = foldl (\<lambda>a c. a * 10 + digit_val c) acc ds"

subsection \<open>Hexadecimal text: \<open>binascii.hexlify\<close> and \<open>binascii.unhexlify\<close>\<close>

definition hex_char :: "nat \<Rightarrow> char" where
  "hex_char d = (if d < 10 then char_of (48 + d) else char_of (87 + d))"

definition hex_val :: "char \<Rightarrow> nat option" where
  "hex_val c =
     (let n = (of_char c :: nat) in
      if 48 \<le> n \<and> n \<le> 57 then Some (n - 48)
      else if 97 \<le> n \<and> n \<le> 102 then Some (n - 87)
      else if 65 \<le> n \<and> n \<le> 70 then Some (n - 55)
      else None)"

fun hexlify :: "byte list \<Rightarrow> string" where
  "hexlify [] = []"
| "hexlify (b # bs) = hex_char (unat b div 16) # hex_char (unat b mod 16) # hexlify bs"

text \<open>The bytes of an even number of hexadecimal digits, two digits to a byte.\<close>

fun unhex_pairs :: "string \<Rightarrow> py_error + byte list" where
  "unhex_pairs [] = Inr []"
| "unhex_pairs [a] = Inr []"
| "unhex_pairs (a # b # cs) =
     (case (hex_val a, hex_val b) of
        (Some h, Some l) \<Rightarrow>
          (case unhex_pairs cs of
             Inl e \<Rightarrow> Inl e
           | Inr bs \<Rightarrow> Inr (word_of_nat (16 * h + l) # bs))
      | _ \<Rightarrow> Inl (BinasciiError ''Non-hexadecimal digit found''))"

text \<open>
  \<open>binascii.unhexlify\<close> of a \<open>str\<close>: a character outside ASCII is a plain \<open>ValueError\<close>,
  an odd length and a character that is no hexadecimal digit are \<open>binascii.Error\<close>.
\<close>

definition unhexlify :: "string \<Rightarrow> py_error + byte list" where
  "unhexlify s =
     (if \<exists>c \<in> set s. 128 \<le> (of_char c :: nat)
        then Inl (ValueError ''string argument should contain only ASCII characters'')
      else if odd (length s) then Inl (BinasciiError ''Odd-length string'')
      else unhex_pairs s)"

text \<open>
  \<open>str.lower\<close> on code points below 256: the capital letters are \<open>A\<close> to \<open>Z\<close> and the
  accented capitals 192 to 222 without the multiplication sign 215; each has its small
  letter 32 places further on.
\<close>

definition lower_char :: "char \<Rightarrow> char" where
  "lower_char c =
     (let n = (of_char c :: nat) in
      if (65 \<le> n \<and> n \<le> 90) \<or> (192 \<le> n \<and> n \<le> 222 \<and> n \<noteq> 215) then char_of (n + 32)
      else c)"

definition py_lower :: "string \<Rightarrow> string" where
  "py_lower s = map lower_char s"

subsection \<open>\<open>struct.pack\<close>, \<open>struct.unpack\<close> and \<open>int.to_bytes\<close>\<close>

fun le_int :: "byte list \<Rightarrow> int" where
  "le_int [] = 0"
| "le_int (b # bs) = uint b + 256 * le_int bs"

fun le_bytes :: "nat \<Rightarrow> int \<Rightarrow> byte list" where
  "le_bytes 0 v = []"
| "le_bytes (Suc n) v = word_of_int v # le_bytes n (v div 256)"

text \<open>The flag \<open>little\<close> is the byte order: formats \<open><\<close> (True) and \<open>></\<close> (False).\<close>

definition unpack_uint :: "bool \<Rightarrow> byte list \<Rightarrow> int" where
  "unpack_uint little bs = (if little then le_int bs else le_int (rev bs))"

definition unpack_sint :: "bool \<Rightarrow> byte list \<Rightarrow> int" where
  "unpack_sint little bs =
     (let u = unpack_uint little bs in
      if 2 ^ (8 * length bs - 1) \<le> u then u - 2 ^ (8 * length bs) else u)"

definition uint_bytes :: "bool \<Rightarrow> int \<Rightarrow> byte list" where
  "uint_bytes little v = (if little then le_bytes 4 v else rev (le_bytes 4 v))"

text \<open>
  \<open>struct.pack("<I", v)\<close> and \<open>struct.pack(">I", v)\<close>. The two ways of being out of
  range have their own texts.
\<close>

definition pack_I :: "bool \<Rightarrow> int \<Rightarrow> py_error + byte list" where
  "pack_I little v =
     (if v < 0 then Inl (StructError ''argument out of range'')
      else if 4294967296 \<le> v
        then Inl (StructError (CHR 0x27 # ''I'' @ CHR 0x27 # '' format requires 0 <= number <= 4294967295''))
      else Inr (uint_bytes little v))"

text \<open>\<open>v.to_bytes(4, "little")\<close> and \<open>v.to_bytes(4, "big")\<close>.\<close>

definition to_bytes4 :: "bool \<Rightarrow> int \<Rightarrow> py_error + byte list" where
  "to_bytes4 little v =
     (if v < 0 then Inl (OverflowError ''can't convert negative int to unsigned'')
      else if 4294967296 \<le> v then Inl (OverflowError ''int too big to convert'')
      else Inr (uint_bytes little v))"

text \<open>A slice \<open>xs[i:j]\<close> with \<open>0 \<le> i\<close> and \<open>0 \<le> j\<close>.\<close>

definition slice :: "'a list \<Rightarrow> nat \<Rightarrow> nat \<Rightarrow> 'a list" where
  "slice xs i j = take (j - i) (drop i xs)"

text \<open>\<open>buf[0]\<close> for a buffer of kind \<open>k\<close> with content \<open>bs\<close>.\<close>

fun index_error :: "kind \<Rightarrow> string" where
  "index_error Bytes = ''index out of range''"
| "index_error Memoryview = ''index out of bounds on dimension 1''"

definition index0 :: "kind \<Rightarrow> byte list \<Rightarrow> py_error + byte" where
  "index0 k bs = (case bs of [] \<Rightarrow> Inl (IndexError (index_error k)) | b # _ \<Rightarrow> Inr b)"

fun split_on :: "char \<Rightarrow> string \<Rightarrow> string list" where
  "split_on c [] = [[]]"
| "split_on c (x # xs) =
     (if x = c then [] # split_on c xs
      else (case split_on c xs of p # ps \<Rightarrow> (x # p) # ps | [] \<Rightarrow> [[x]]))"

section \<open>Spatial elements (\<open>geoalchemy2/elements.py\<close>)\<close>

text \<open>
  \<open>_SpatialElement.__init__\<close> stores three attributes. The flag \<open>extended\<close> is an
  \<open>Optional[bool]\<close>. The payload type is a parameter: text for \<open>WKTElement\<close> and
  \<open>RasterElement\<close>, text or a buffer for \<open>WKBElement\<close>.
\<close>

record 'd SpatialElement =
  srid :: int
  data :: 'd
  extended :: "bool option"

subsection \<open>\<open>WKTElement\<close>\<close>

text \<open>
  The match of \<open>_REMOVE_SRID = (SRID=([0-9]+); ?)?(.*)\<close> at the start of the text, and
  its group 3. Every part of the pattern is optional, so the match always exists; the
  dot does not match a newline, so group 3 stops before the first newline.
\<close>

definition REMOVE_SRID_group3 :: "string \<Rightarrow> string" where
  "REMOVE_SRID_group3 s =
     (let no_nl = takeWhile (\<lambda>c. c \<noteq> CHR 0x0A) in
      if prefix ''SRID='' s then
        (let r = drop 5 s; ds = takeWhile is_digit r; rest = dropWhile is_digit r in
         if ds \<noteq> [] \<and> prefix '';'' rest then
           (let r2 = drop 1 rest in
            if prefix '' '' r2 then no_nl (drop 1 r2) else no_nl r2)
         else no_nl s)
      else no_nl s)"

definition WKTElement_init :: "string \<Rightarrow> int \<Rightarrow> bool option \<Rightarrow> py_error + string SpatialElement" where
  "WKTElement_init dat sr ext =
     (let ext1 = (case ext of None \<Rightarrow> prefix ''SRID='' dat | Some b \<Rightarrow> b) in
      if ext1 \<and> sr = - 1 then
        (let data_s = split_on (CHR '';'') dat in
         if length data_s \<noteq> 2 then Inl (ArgumentError (''invalid EWKT string '' @ dat))
         else
           (case py_int (drop 5 (data_s ! 0)) of
              None \<Rightarrow> Inl (ArgumentError (''invalid EWKT string '' @ dat))
            | Some n \<Rightarrow> Inr \<lparr>srid = n, data = dat, extended = Some ext1\<rparr>))
      else Inr \<lparr>srid = sr, data = dat, extended = Some ext1\<rparr>)"

definition WKT_desc :: "string SpatialElement \<Rightarrow> string" where
  "WKT_desc e = data e"

definition as_wkt :: "string SpatialElement \<Rightarrow> py_error + string SpatialElement" where
  "as_wkt e =
     (if extended e = Some True
        then WKTElement_init (REMOVE_SRID_group3 (data e)) (srid e) (Some False)
      else WKTElement_init (data e) (srid e) (extended e))"

text \<open>
  \<open>as_ewkt\<close> writes the SRID with an f-string, outside any handler, so the
  \<open>ValueError\<close> of an SRID too long to be written leaves the method.
\<close>

definition as_ewkt :: "string SpatialElement \<Rightarrow> py_error + string SpatialElement" where
  "as_ewkt e =
     (if extended e \<noteq> Some True \<and> srid e \<noteq> - 1
        then (case format_int (srid e) of
                Inl err \<Rightarrow> Inl err
              | Inr t \<Rightarrow> WKTElement_init (''SRID='' @ t @ '';'' @ data e) (- 1) (Some True))
      else WKTElement_init (data e) (srid e) (extended e))"

subsection \<open>\<open>WKBElement\<close>\<close>

text \<open>
  The first byte is the byte order (any non-zero value selects little endian), bytes 1 to 4
  the geometry type, whose bit \<open>536870912 = 0x20000000\<close> says that an SRID follows in bytes
  5 to 8. A type word that is not four bytes long is read as 0.
\<close>

definition wkb_type_of :: "bool \<Rightarrow> byte list \<Rightarrow> int" where
  "wkb_type_of little wkb_type = (if length wkb_type = 4 then unpack_uint little wkb_type else 0)"

text \<open>
  The first nine bytes, which \<open>WKBElement.__init__\<close> reads the byte order, the type and the
  SRID from: a \<open>str\<close> is taken as hexadecimal text. The header is a \<open>bytes\<close> when it comes
  from \<open>unhexlify\<close>, and a slice of the payload, hence of its kind, otherwise.
\<close>

definition wkb_header :: "pydata \<Rightarrow> py_error + byte list" where
  "wkb_header dat = (case dat of Str s \<Rightarrow> unhexlify (take 18 s) | Buffer k b \<Rightarrow> Inr (take 9 b))"

definition header_kind :: "pydata \<Rightarrow> kind" where
  "header_kind dat = (case dat of Str s \<Rightarrow> Bytes | Buffer k b \<Rightarrow> k)"

definition WKBElement_read ::
  "kind \<Rightarrow> byte list \<Rightarrow> 'd \<Rightarrow> int \<Rightarrow> bool option \<Rightarrow> py_error + 'd SpatialElement" where
  "WKBElement_read hk header dat sr ext =
     (case index0 hk header of
        Inl e \<Rightarrow> Inl e
      | Inr byte_order \<Rightarrow>
          (let wkb_type = slice header 1 5;
               wkb_srid = drop 5 header;
               little = (byte_order \<noteq> 0);
               wkb_type_int = wkb_type_of little wkb_type;
               ext1 = (case ext of
                         None \<Rightarrow> if wkb_type_int = 0 then Some False
                                 else Some (wkb_type_int AND 536870912 \<noteq> 0)
                       | Some b \<Rightarrow> Some b)
           in if ext1 = Some True \<and> sr = - 1 then
                (if length wkb_srid = 4
                   then Inr \<lparr>srid = unpack_uint little wkb_srid, data = dat, extended = ext1\<rparr>
                 else Inl (StructError ''unpack requires a buffer of 4 bytes''))
              else Inr \<lparr>srid = sr, data = dat, extended = ext1\<rparr>))"

definition WKBElement_init :: "pydata \<Rightarrow> int \<Rightarrow> bool option \<Rightarrow> py_error + pydata SpatialElement" where
  "WKBElement_init dat sr ext =
     (if sr = - 1 \<or> ext = None \<or> ext = Some True then
        (case wkb_header dat of
           Inl e \<Rightarrow> Inl e
         | Inr header \<Rightarrow> WKBElement_read (header_kind dat) header dat sr ext)
      else Inr \<lparr>srid = sr, data = dat, extended = ext\<rparr>)"

definition wkb_to_hex :: "pydata \<Rightarrow> string" where
  "wkb_to_hex d = (case d of Str s \<Rightarrow> py_lower s | Buffer k b \<Rightarrow> py_lower (hexlify b))"

definition WKB_desc :: "pydata SpatialElement \<Rightarrow> string" where
  "WKB_desc e = wkb_to_hex (data e)"

text \<open>
  The byte order and the type word that \<open>as_wkb\<close> and \<open>as_ewkb\<close> read. Both methods
  assemble a binary result in a \<open>bytearray\<close> and return a \<open>memoryview\<close> of it.
\<close>

definition wkb_head :: "pydata \<Rightarrow> py_error + (byte \<times> byte list)" where
  "wkb_head d =
     (case d of
        Str s \<Rightarrow>
          (case unhexlify (take 10 s) of
             Inl e \<Rightarrow> Inl e
           | Inr header \<Rightarrow>
               (case index0 Bytes header of
                  Inl e \<Rightarrow> Inl e
                | Inr byte_order \<Rightarrow> Inr (byte_order, slice header 1 5)))
      | Buffer k b \<Rightarrow>
          (case index0 k b of
             Inl e \<Rightarrow> Inl e
           | Inr byte_order \<Rightarrow> Inr (byte_order, slice b 1 5)))"

definition as_wkb :: "pydata SpatialElement \<Rightarrow> py_error + pydata SpatialElement" where
  "as_wkb e =
     (if extended e = Some True then
        (case wkb_head (data e) of
           Inl err \<Rightarrow> Inl err
         | Inr (byte_order, wkb_type) \<Rightarrow>
             (let little = (byte_order \<noteq> 0);
                  wkb_type_int = wkb_type_of little wkb_type AND 3758096383
              in case data e of
                   Str s \<Rightarrow>
                     (case to_bytes4 little wkb_type_int of
                        Inl err \<Rightarrow> Inl err
                      | Inr tb \<Rightarrow>
                          WKBElement_init (Str (take 2 s @ hexlify tb @ drop 18 s)) (srid e) (Some False))
                 | Buffer k b \<Rightarrow>
                     (case pack_I little wkb_type_int of
                        Inl err \<Rightarrow> Inl err
                      | Inr tb \<Rightarrow>
                          WKBElement_init (Buffer Memoryview (take 1 b @ tb @ drop 9 b))
                            (srid e) (Some False))))
      else WKBElement_init (data e) (srid e) None)"

definition as_ewkb :: "pydata SpatialElement \<Rightarrow> py_error + pydata SpatialElement" where
  "as_ewkb e =
     (if extended e \<noteq> Some True \<and> srid e \<noteq> - 1 then
        (case wkb_head (data e) of
           Inl err \<Rightarrow> Inl err
         | Inr (byte_order, wkb_type) \<Rightarrow>
             (let little = (byte_order \<noteq> 0);
                  wkb_type_int = wkb_type_of little wkb_type OR 536870912
              in case data e of
                   Str s \<Rightarrow>
                     (case to_bytes4 little wkb_type_int of
                        Inl err \<Rightarrow> Inl err
                      | Inr tb \<Rightarrow>
                          (case to_bytes4 little (srid e) of
                             Inl err \<Rightarrow> Inl err
                           | Inr sb \<Rightarrow>
                               WKBElement_init (Str (take 2 s @ hexlify tb @ hexlify sb @ drop 10 s))
                                 (srid e) (Some True)))
                 | Buffer k b \<Rightarrow>
                     (case pack_I little wkb_type_int of
                        Inl err \<Rightarrow> Inl err
                      | Inr tb \<Rightarrow>
                          (case pack_I little (srid e) of
                             Inl err \<Rightarrow> Inl err
                           | Inr sb \<Rightarrow>
                               WKBElement_init (Buffer Memoryview (take 1 b @ tb @ sb @ drop 5 b))
                                 (srid e) (Some True)))))
      else WKBElement_init (data e) (srid e) None)"

subsection \<open>\<open>RasterElement\<close>\<close>

text \<open>
  The part of \<open>RasterElement.__init__\<close> after the input has been turned into bytes:
  \<open>bin_data\<close>, a buffer of kind \<open>k\<close>, is what the header is read from, \<open>stored\<close> what
  the instance keeps. The handler for \<open>IndexError\<close> and \<open>struct.error\<close> turns both into
  \<open>ValueError\<close>.
\<close>

definition raster_parse :: "kind \<Rightarrow> byte list \<Rightarrow> string \<Rightarrow> py_error + string SpatialElement" where
  "raster_parse k bin_data stored =
     (case index0 k bin_data of
        Inl e \<Rightarrow> Inl (ValueError (''Error parsing raster data: '' @ error_message e))
      | Inr byte_order \<Rightarrow>
          if byte_order \<noteq> 0 \<and> byte_order \<noteq> 1
            then Inl (ValueError (''Invalid byte order in raster: '' @ str_nat (unat byte_order)
                                   @ '', must be 0 or 1''))
          else
            (let srid_bytes = slice bin_data 53 57 in
             if length srid_bytes \<noteq> 4
               then Inl (ValueError (''Could not extract SRID bytes from raster data, got ''
                                      @ str_nat (length srid_bytes) @ '' bytes''))
             else Inr \<lparr>srid = unpack_sint (byte_order = 1) srid_bytes, data = stored,
                       extended = Some True\<rparr>))"

definition RasterElement_init :: "pydata \<Rightarrow> py_error + string SpatialElement" where
  "RasterElement_init dat =
     (case dat of
        Str s \<Rightarrow>
          if length s < 61 * 2
            then Inl (ValueError (''Raster hex data too short: '' @ str_nat (length s)
                                   @ '' chars, need at least '' @ str_nat (61 * 2)))
          else
            (case unhexlify (take (61 * 2) s) of
               Inl (BinasciiError m) \<Rightarrow> Inl (ValueError (''Invalid hex data for raster: '' @ m))
             | Inl e \<Rightarrow> Inl e
             | Inr bin_data \<Rightarrow> raster_parse Bytes bin_data s)
      | Buffer k b \<Rightarrow>
          if length b < 61
            then Inl (ValueError (''Raster binary data too short: '' @ str_nat (length b)
                                   @ '' bytes, need at least '' @ str_nat 61))
          else raster_parse k b (hexlify b))"

definition Raster_desc :: "string SpatialElement \<Rightarrow> string" where
  "Raster_desc e = data e"

subsection \<open>Equality of spatial elements\<close>

datatype spatial =
    WKTElement "string SpatialElement"
  | WKBElement "pydata SpatialElement"
  | RasterElement "string SpatialElement"

fun desc :: "spatial \<Rightarrow> string" where
  "desc (WKTElement e) = WKT_desc e"
| "desc (WKBElement e) = WKB_desc e"
| "desc (RasterElement e) = Raster_desc e"

fun srid_of :: "spatial \<Rightarrow> int" where
  "srid_of (WKTElement e) = srid e"
| "srid_of (WKBElement e) = srid e"
| "srid_of (RasterElement e) = srid e"

fun extended_of :: "spatial \<Rightarrow> bool option" where
  "extended_of (WKTElement e) = extended e"
| "extended_of (WKBElement e) = extended e"
| "extended_of (RasterElement e) = extended e"

text \<open>
  The right-hand side of \<open>==\<close> can be any object. The attributes of an element are plain
  values: \<open>None\<close>, a boolean, an integer or text; plain values (bytes among them) are
  compared as Python compares them (\<open>True == 1\<close>).
\<close>

datatype plain = PNone | PBool bool | PInt int | PStr string | PBytes "byte list"

fun plain_eq :: "plain \<Rightarrow> plain \<Rightarrow> bool" where
  "plain_eq PNone PNone = True"
| "plain_eq (PBool a) (PBool b) = (a = b)"
| "plain_eq (PBool a) (PInt i) = ((if a then 1 else 0) = i)"
| "plain_eq (PInt i) (PBool b) = (i = (if b then 1 else 0))"
| "plain_eq (PInt i) (PInt j) = (i = j)"
| "plain_eq (PStr s) (PStr t) = (s = t)"
| "plain_eq (PBytes s) (PBytes t) = (s = t)"
| "plain_eq x y = False"

text \<open>
  The result of a comparison is a \<open>bool\<close>, or, when the code of a foreign object computes
  it, any object: all that \<open>and\<close> and \<open>not\<close> ask of it is its truth value, which its
  \<open>__bool__\<close> may refuse to give by raising.
\<close>

datatype pyres = RBool bool | RObj "py_error + bool"

fun truth :: "pyres \<Rightarrow> py_error + bool" where
  "truth (RBool b) = Inr b"
| "truth (RObj t) = t"

text \<open>
  An attribute value of the object on the right is a plain value or a foreign object. A
  plain value on the left does not know how to compare itself with a foreign object, so
  Python asks the foreign object, whose \<open>__eq__\<close> may return anything or raise: a foreign
  object is what it answers to each plain value.
\<close>

datatype pyval = Plain plain | Foreign "plain \<Rightarrow> py_error + pyres"

fun py_eq :: "plain \<Rightarrow> pyval \<Rightarrow> py_error + pyres" where
  "py_eq a (Plain b) = Inr (RBool (plain_eq a b))"
| "py_eq a (Foreign f) = f a"

text \<open>
  An object is the list of its attributes. Reading an attribute gives its value, or raises
  (a property runs code); reading one that the object lacks raises \<open>AttributeError\<close>.
\<close>

type_synonym pyobj = "(string \<times> (py_error + pyval)) list"

definition getattr :: "pyobj \<Rightarrow> string \<Rightarrow> py_error + pyval" where
  "getattr obj name = (case map_of obj name of None \<Rightarrow> Inl AttributeError | Some r \<Rightarrow> r)"

definition extended_val :: "bool option \<Rightarrow> plain" where
  "extended_val x = (case x of None \<Rightarrow> PNone | Some b \<Rightarrow> PBool b)"

text \<open>A spatial element seen as an object, with the attributes that \<open>__eq__\<close> reads.\<close>

definition as_object :: "spatial \<Rightarrow> pyobj" where
  "as_object b =
     [(''extended'', Inr (Plain (extended_val (extended_of b)))),
      (''srid'', Inr (Plain (PInt (srid_of b)))),
      (''desc'', Inr (Plain (PStr (desc b))))]"

text \<open>One comparison \<open>self.name == other.name\<close>, the value on the left being \<open>v\<close>.\<close>

definition attr_eq :: "plain \<Rightarrow> pyobj \<Rightarrow> string \<Rightarrow> py_error + pyres" where
  "attr_eq v other name = (case getattr other name of Inl e \<Rightarrow> Inl e | Inr ov \<Rightarrow> py_eq v ov)"

text \<open>
  \<open>l and r\<close>: the truth value of \<open>l\<close> is taken; when it is false the result is \<open>l\<close> itself
  and \<open>r\<close> is not evaluated, otherwise the result is \<open>r\<close>.
\<close>

definition py_and :: "py_error + pyres \<Rightarrow> py_error + pyres \<Rightarrow> py_error + pyres" where
  "py_and l r =
     (case l of
        Inl e \<Rightarrow> Inl e
      | Inr v \<Rightarrow> (case truth v of Inl e \<Rightarrow> Inl e | Inr t \<Rightarrow> if t then r else Inr v))"

text \<open>The body of the \<open>try\<close> in \<open>__eq__\<close>: the conjunction is evaluated from the left.\<close>

definition eq_body :: "spatial \<Rightarrow> pyobj \<Rightarrow> py_error + pyres" where
  "eq_body self other =
     py_and (attr_eq (extended_val (extended_of self)) other ''extended'')
       (py_and (attr_eq (PInt (srid_of self)) other ''srid'')
               (attr_eq (PStr (desc self)) other ''desc''))"

text \<open>\<open>__eq__\<close>: the handler catches \<open>AttributeError\<close> and nothing else.\<close>

definition spatial_eq :: "spatial \<Rightarrow> pyobj \<Rightarrow> py_error + pyres" where
  "spatial_eq self other =
     (case eq_body self other of Inl AttributeError \<Rightarrow> Inr (RBool False) | r \<Rightarrow> r)"

text \<open>\<open>__ne__\<close> is \<open>not self.__eq__(other)\<close>.\<close>

definition spatial_ne :: "spatial \<Rightarrow> pyobj \<Rightarrow> py_error + bool" where
  "spatial_ne self other =
     (case spatial_eq self other of
        Inl e \<Rightarrow> Inl e
      | Inr v \<Rightarrow> (case truth v of Inl e \<Rightarrow> Inl e | Inr t \<Rightarrow> Inr (\<not> t)))"

section \<open>Raster decoding (\<open>tests/gallery/test_decipher_raster.py\<close>)\<close>

text \<open>
  The \<open>struct\<close> format characters that the decoder uses, with their sizes in bytes. A
  decoded sample is a boolean, an integer or a float; a float is kept as its IEEE-754 bit
  pattern, since no arithmetic is done on it.
\<close>

datatype fmt = Fmt_bool | Fmt_b | Fmt_B | Fmt_h | Fmt_H | Fmt_i | Fmt_I | Fmt_f | Fmt_d

fun fmt_size :: "fmt \<Rightarrow> nat" where
  "fmt_size Fmt_bool = 1"
| "fmt_size Fmt_b = 1"
| "fmt_size Fmt_B = 1"
| "fmt_size Fmt_h = 2"
| "fmt_size Fmt_H = 2"
| "fmt_size Fmt_i = 4"
| "fmt_size Fmt_I = 4"
| "fmt_size Fmt_f = 4"
| "fmt_size Fmt_d = 8"

datatype sample = SBool bool | SInt int | SFloat32 "32 word" | SFloat64 "64 word"

definition struct_unpack :: "bool \<Rightarrow> fmt \<Rightarrow> byte list \<Rightarrow> py_error + sample" where
  "struct_unpack little f bs =
     (if length bs \<noteq> fmt_size f
        then Inl (StructError (''unpack requires a buffer of '' @ str_nat (fmt_size f) @ '' bytes''))
      else Inr (case f of
                  Fmt_bool \<Rightarrow> SBool (bs \<noteq> [0])
                | Fmt_b \<Rightarrow> SInt (unpack_sint little bs)
                | Fmt_B \<Rightarrow> SInt (unpack_uint little bs)
                | Fmt_h \<Rightarrow> SInt (unpack_sint little bs)
                | Fmt_H \<Rightarrow> SInt (unpack_uint little bs)
                | Fmt_i \<Rightarrow> SInt (unpack_sint little bs)
                | Fmt_I \<Rightarrow> SInt (unpack_uint little bs)
                | Fmt_f \<Rightarrow> SFloat32 (word_of_int (unpack_uint little bs))
                | Fmt_d \<Rightarrow> SFloat64 (word_of_int (unpack_uint little bs))))"

text \<open>The integer and the float of a sample (the header fields are read with them).\<close>

fun sample_int :: "sample \<Rightarrow> int" where
  "sample_int (SInt i) = i"
| "sample_int (SBool b) = (if b then 1 else 0)"
| "sample_int (SFloat32 w) = uint w"
| "sample_int (SFloat64 w) = uint w"

fun sample_double :: "sample \<Rightarrow> 64 word" where
  "sample_double (SFloat64 w) = w"
| "sample_double (SFloat32 w) = ucast w"
| "sample_double (SInt i) = word_of_int i"
| "sample_double (SBool b) = (if b then 1 else 0)"

text \<open>\<open>_format_e\<close>: the byte order of an endianness value, \<open>ValueError\<close> unless it is 0 or 1.\<close>

definition format_e :: "int \<Rightarrow> py_error + bool" where
  "format_e e =
     (if e \<noteq> 0 \<and> e \<noteq> 1
        then Inl (ValueError_f [Lit ''Invalid endianness value: '', Num e, Lit '', must be 0 or 1''])
      else Inr (e = 1))"

definition unpack_e :: "int \<Rightarrow> fmt \<Rightarrow> byte list \<Rightarrow> py_error + sample" where
  "unpack_e e f bs = (case format_e e of Inl err \<Rightarrow> Inl err | Inr little \<Rightarrow> struct_unpack little f bs)"

definition and_then :: "'e + 'a \<Rightarrow> ('a \<Rightarrow> 'e + 'b) \<Rightarrow> 'e + 'b" where
  "and_then r f = (case r of Inl e \<Rightarrow> Inl e | Inr v \<Rightarrow> f v)"

record RasterHeader =
  h_endianness :: int
  h_version :: int
  h_nbands :: nat
  h_scaleX :: "64 word"
  h_scaleY :: "64 word"
  h_ipX :: "64 word"
  h_ipY :: "64 word"
  h_skewX :: "64 word"
  h_skewY :: "64 word"
  h_srid :: int
  h_width :: nat
  h_height :: nat

text \<open>The fields of the header, read in the order of the source.\<close>

definition header_fields :: "byte list \<Rightarrow> int \<Rightarrow> py_error + RasterHeader" where
  "header_fields raw e =
     and_then (unpack_e e Fmt_H (slice raw 1 3)) (\<lambda>version.
     and_then (unpack_e e Fmt_H (slice raw 3 5)) (\<lambda>nbands.
     and_then (unpack_e e Fmt_d (slice raw 5 13)) (\<lambda>scaleX.
     and_then (unpack_e e Fmt_d (slice raw 13 21)) (\<lambda>scaleY.
     and_then (unpack_e e Fmt_d (slice raw 21 29)) (\<lambda>ipX.
     and_then (unpack_e e Fmt_d (slice raw 29 37)) (\<lambda>ipY.
     and_then (unpack_e e Fmt_d (slice raw 37 45)) (\<lambda>skewX.
     and_then (unpack_e e Fmt_d (slice raw 45 53)) (\<lambda>skewY.
     and_then (unpack_e e Fmt_i (slice raw 53 57)) (\<lambda>sr.
     and_then (unpack_e e Fmt_H (slice raw 57 59)) (\<lambda>width.
     and_then (unpack_e e Fmt_H (slice raw 59 61)) (\<lambda>height.
       Inr \<lparr>h_endianness = e, h_version = sample_int version,
            h_nbands = nat (sample_int nbands),
            h_scaleX = sample_double scaleX, h_scaleY = sample_double scaleY,
            h_ipX = sample_double ipX, h_ipY = sample_double ipY,
            h_skewX = sample_double skewX, h_skewY = sample_double skewY,
            h_srid = sample_int sr,
            h_width = nat (sample_int width), h_height = nat (sample_int height)\<rparr>)))))))))))"

definition wkbHeader :: "byte list \<Rightarrow> py_error + RasterHeader" where
  "wkbHeader raw =
     (if length raw < 61
        then Inl (ValueError (''Raster data too short: '' @ str_nat (length raw)
                               @ '' bytes, need at least '' @ str_nat 61))
      else
        (case (case struct_unpack True Fmt_b (slice raw 0 1) of
                 Inl err \<Rightarrow> Inl err
               | Inr e0 \<Rightarrow>
                   (let e = sample_int e0 in
                    if e \<noteq> 0 \<and> e \<noteq> 1
                      then Inl (ValueError (''Invalid endianness value: '' @ str_int e
                                             @ '', must be 0 or 1''))
                    else
                      and_then (header_fields raw e) (\<lambda>h.
                        if h_width h = 0 \<or> h_height h = 0
                          then Inl (ValueError (''Invalid dimensions: width='' @ str_nat (h_width h)
                                                 @ '', height='' @ str_nat (h_height h)))
                        else if h_nbands h = 0
                          then Inl (ValueError ''Raster must have at least one band'')
                        else Inr h)))
         of
           Inl (StructError m) \<Rightarrow> Inl (ValueError (''Failed to parse raster header: '' @ m))
         | r \<Rightarrow> r))"

text \<open>
  \<open>_PTYPE\<close>: pixel type code to struct format, numpy dtype and size in bytes. The code 9
  has no entry.
\<close>

definition PTYPE :: "(int \<times> fmt \<times> string \<times> nat) list" where
  "PTYPE =
     [(0, Fmt_bool, ''?'', 1),
      (1, Fmt_B, ''B'', 1),
      (2, Fmt_B, ''B'', 1),
      (3, Fmt_b, ''b'', 1),
      (4, Fmt_B, ''B'', 1),
      (5, Fmt_h, ''i2'', 2),
      (6, Fmt_H, ''u2'', 2),
      (7, Fmt_i, ''i4'', 4),
      (8, Fmt_I, ''u4'', 4),
      (10, Fmt_f, ''f4'', 4),
      (11, Fmt_d, ''f8'', 8)]"

text \<open>A list comprehension whose elements can raise: the first exception is the result.\<close>

fun sequence_sum :: "('e + 'a) list \<Rightarrow> 'e + 'a list" where
  "sequence_sum [] = Inr []"
| "sequence_sum (x # xs) =
     (case x of
        Inl e \<Rightarrow> Inl e
      | Inr v \<Rightarrow> (case sequence_sum xs of Inl e \<Rightarrow> Inl e | Inr vs \<Rightarrow> Inr (v # vs)))"

text \<open>
  \<open>read_band(data, offset, pixtype, height, width, endianness)\<close>, for an offset, a height
  and a width that are not negative, as the decoder passes them.
\<close>

definition read_band ::
  "byte list \<Rightarrow> nat \<Rightarrow> int \<Rightarrow> nat \<Rightarrow> nat \<Rightarrow> int \<Rightarrow> py_error + sample list list" where
  "read_band dat offset pixtype height width endianness =
     (case map_of PTYPE pixtype of
        None \<Rightarrow> Inl (ValueError_f [Lit ''Invalid pixel type: '', Num pixtype])
      | Some (ptype, dtype, psize) \<Rightarrow>
          (let required_size = offset + 1 + width * height * psize in
           if length dat < required_size
             then Inl (ValueError_f
                    [Lit ''Raster data too short for band: len='', Num (int (length dat)),
                     Lit '', required='', Num (int required_size),
                     Lit '' (offset='', Num (int offset), Lit '', width='', Num (int width),
                     Lit '', height='', Num (int height), Lit '', pixelsize='', Num (int psize),
                     Lit '')''])
           else
             (let pix_data = slice dat (offset + 1) (offset + 1 + width * height * psize) in
              case sequence_sum (map (\<lambda>i.
                     sequence_sum (map (\<lambda>j.
                       unpack_e endianness ptype
                         (slice pix_data ((i * width + j) * psize) ((i * width + j + 1) * psize)))
                       [0..<width]))
                     [0..<height]) of
                Inl (StructError m) \<Rightarrow> Inl (ValueError (''Failed to unpack pixel data: '' @ m))
              | r \<Rightarrow> r)))"

text \<open>
  The loop of \<open>wkbImage\<close> over the bands, with \<open>use_numpy\<close> at its default \<open>False\<close>:
  \<open>k\<close> bands are left, \<open>i\<close> is the index of the next one. The result is the list of
  bands together with the offset reached, that is, the number of bytes consumed.
\<close>

fun wkbImage_loop ::
  "byte list \<Rightarrow> RasterHeader \<Rightarrow> nat \<Rightarrow> nat \<Rightarrow> nat \<Rightarrow> sample list list list
     \<Rightarrow> py_error + (sample list list list \<times> nat)" where
  "wkbImage_loop raw h 0 i offset img = Inr (img, offset)"
| "wkbImage_loop raw h (Suc k) i offset img =
     (if offset + 1 \<ge> length raw
        then Inl (ValueError_f [Lit ''Raster data too short for band '', Num (int (i + 1)),
                                Lit '' header''])
      else
        (case (case unpack_e (h_endianness h) Fmt_b (slice raw offset (offset + 1)) of
                 Inl (StructError m) \<Rightarrow>
                   Inl (ValueError_f [Lit ''Failed to read band '', Num (int (i + 1)),
                                      Lit '' type: '', Lit m])
               | Inl err \<Rightarrow> Inl err
               | Inr bt \<Rightarrow>
                   (let band_type = sample_int bt; pixtype = band_type - 64 in
                    case map_of PTYPE pixtype of
                      None \<Rightarrow>
                        Inl (ValueError_f [Lit ''Invalid pixel type '', Num pixtype,
                                           Lit '' (band type '', Num band_type,
                                           Lit '') for band '', Num (int (i + 1))])
                    | Some (ptype, dtype, psize) \<Rightarrow> Inr (pixtype, psize)))
         of
           Inl err \<Rightarrow> Inl err
         | Inr (pixtype, psize) \<Rightarrow>
             (case read_band raw offset pixtype (h_height h) (h_width h) (h_endianness h) of
                Inl err \<Rightarrow>
                  if is_ValueError err
                    then Inl (ValueError_f [Lit ''Failed to read band '', Num (int (i + 1)),
                                            Lit '': '', Lit (error_message err)])
                  else Inl err
              | Inr band \<Rightarrow>
                  wkbImage_loop raw h k (i + 1)
                    (offset + 1 + h_width h * h_height h * psize) (img @ [band]))))"

text \<open>The bytes that \<open>wkbImage\<close> decodes: a \<open>str\<close> is hexadecimal text.\<close>

definition wkbImage_raw :: "pydata \<Rightarrow> py_error + byte list" where
  "wkbImage_raw raster_data =
     (case raster_data of
        Str s \<Rightarrow>
          (case unhexlify s of
             Inl (BinasciiError m) \<Rightarrow> Inl (ValueError (''Failed to decode raster data: '' @ m))
           | r \<Rightarrow> r)
      | Buffer k b \<Rightarrow> Inr b)"

definition wkbImage_run :: "pydata \<Rightarrow> py_error + (sample list list list \<times> nat)" where
  "wkbImage_run raster_data =
     and_then (wkbImage_raw raster_data) (\<lambda>raw.
     and_then (wkbHeader raw) (\<lambda>h.
       wkbImage_loop raw h (h_nbands h) 0 61 []))"

definition wkbImage :: "pydata \<Rightarrow> py_error + sample list list list" where
  "wkbImage raster_data = and_then (wkbImage_run raster_data) (\<lambda>r. Inr (fst r))"

declare str_nat.simps [simp del]

section \<open>Auxiliary facts\<close>

subsection \<open>Text\<close>

lemma split_on_nonempty: "split_on c s \<noteq> []"
  by (induction s) (auto split: list.splits)

lemma length_split_on: "length (split_on c s) = Suc (count_list s c)"
  by (induction s) (auto split: list.splits simp: split_on_nonempty)

lemma split_on_first: "split_on c s ! 0 = takeWhile (\<lambda>x. x \<noteq> c) s"
  by (induction s) (auto split: list.splits simp: split_on_nonempty)

lemma split_on_none: "c \<notin> set s \<Longrightarrow> split_on c s = [s]"
  by (induction s) auto

lemma split_on_append: "c \<notin> set a \<Longrightarrow> split_on c (a @ c # b) = a # split_on c b"
  by (induction a) auto

lemma is_digit_digit_char: "d < 10 \<Longrightarrow> is_digit (digit_char d)"
  by (simp add: is_digit_def digit_char_def)

lemma digit_val_digit_char: "d < 10 \<Longrightarrow> digit_val (digit_char d) = d"
  by (simp add: digit_val_def digit_char_def)

lemma str_nat_digits: "c \<in> set (str_nat n) \<Longrightarrow> is_digit c"
proof (induction n arbitrary: c rule: str_nat.induct)
  case (1 n)
  show ?case
  proof (cases "n < 10")
    case True
    with "1.prems" show ?thesis
      by (simp add: str_nat.simps [of n] is_digit_digit_char)
  next
    case False
    with "1.prems" "1.IH" show ?thesis
      by (auto simp: str_nat.simps [of n] is_digit_digit_char)
  qed
qed

lemma str_nat_nonempty: "str_nat n \<noteq> []"
  by (subst str_nat.simps) simp

lemma decimal_str_nat: "decimal 0 (str_nat n) = n"
proof (induction n rule: str_nat.induct)
  case (1 n)
  show ?case
  proof (cases "n < 10")
    case True
    then show ?thesis
      by (simp add: str_nat.simps [of n] decimal_def digit_val_digit_char)
  next
    case False
    with "1.IH" show ?thesis
      by (simp add: str_nat.simps [of n] decimal_def digit_val_digit_char)
  qed
qed

lemma int_digits_all_if:
  "\<forall>c \<in> set ds. is_digit c \<Longrightarrow>
   int_digits p acc ds = (if ds = [] then (if p then Some acc else None) else Some (decimal acc ds))"
  by (induction ds arbitrary: p acc) (simp_all add: decimal_def)

lemma int_digits_all:
  "\<forall>c \<in> set ds. is_digit c \<Longrightarrow> ds \<noteq> [] \<Longrightarrow> int_digits p acc ds = Some (decimal acc ds)"
  by (simp add: int_digits_all_if)

lemma digit_not_space: "is_digit c \<Longrightarrow> \<not> py_isspace c"
  by (auto simp: is_digit_def py_isspace_def)

lemma py_strip_id: "s \<noteq> [] \<Longrightarrow> \<not> py_isspace (hd s) \<Longrightarrow> \<not> py_isspace (last s) \<Longrightarrow> py_strip s = s"
proof -
  assume a: "s \<noteq> []" "\<not> py_isspace (hd s)" "\<not> py_isspace (last s)"
  then have "dropWhile py_isspace s = s"
    by (cases s) auto
  moreover from a have "dropWhile py_isspace (rev s) = rev s"
    by (cases "rev s") (auto simp: hd_rev)
  ultimately show ?thesis by (simp add: py_strip_def)
qed

lemma filter_digits: "\<forall>c \<in> set ds. is_digit c \<Longrightarrow> filter is_digit ds = ds"
  by (induction ds) auto

lemma int_literal_digits:
  assumes "ds \<noteq> []" "\<forall>c \<in> set ds. is_digit c"
  shows "int_literal ds = (if MAX_STR_DIGITS < length ds then None else Some (decimal 0 ds))"
  using int_digits_all [OF assms(2) assms(1), of False 0] filter_digits [OF assms(2)]
  by (simp add: int_literal_def)

lemma py_int_digits_if:
  assumes "ds \<noteq> []" "\<forall>c \<in> set ds. is_digit c"
  shows "py_int ds = (if MAX_STR_DIGITS < length ds then None else Some (int (decimal 0 ds)))"
proof -
  from assms have h: "is_digit (hd ds)" "is_digit (last ds)" by auto
  then have s: "py_strip ds = ds"
    using assms(1) by (intro py_strip_id) (auto dest: digit_not_space)
  obtain c cs where ds: "ds = c # cs" using assms(1) by (cases ds) auto
  with h(1) have c: "c \<noteq> CHR ''-''" "c \<noteq> CHR ''+''"
    by (auto simp: is_digit_def)
  show ?thesis
    using int_literal_digits [OF assms] c s
    unfolding ds by (simp add: py_int_def)
qed

lemma py_int_digits:
  assumes "ds \<noteq> []" "\<forall>c \<in> set ds. is_digit c" "length ds \<le> MAX_STR_DIGITS"
  shows "py_int ds = Some (int (decimal 0 ds))"
  using py_int_digits_if [OF assms(1,2)] assms(3) by simp

lemma decimal_bound:
  "\<forall>c \<in> set ds. is_digit c \<Longrightarrow> decimal acc ds < (acc + 1) * 10 ^ length ds"
proof (induction ds arbitrary: acc)
  case Nil
  then show ?case by (simp add: decimal_def)
next
  case (Cons c cs)
  from Cons.prems have "is_digit c" by simp
  then have d: "digit_val c \<le> 9" unfolding is_digit_def digit_val_def by linarith
  have "decimal acc (c # cs) = decimal (acc * 10 + digit_val c) cs"
    by (simp add: decimal_def)
  also have "\<dots> < (acc * 10 + digit_val c + 1) * 10 ^ length cs"
    using Cons by simp
  also have "\<dots> \<le> (acc * 10 + 10) * 10 ^ length cs"
    using d by (intro mult_le_mono1) simp
  also have "\<dots> = (acc + 1) * 10 ^ length (c # cs)" by (simp add: algebra_simps)
  finally show ?case .
qed

lemma length_str_nat: "0 < k \<Longrightarrow> n < 10 ^ k \<Longrightarrow> length (str_nat n) \<le> k"
proof (induction n arbitrary: k rule: str_nat.induct)
  case (1 n)
  show ?case
  proof (cases "n < 10")
    case True
    then show ?thesis using "1.prems" by (simp add: str_nat.simps [of n])
  next
    case False
    then obtain j where k: "k = Suc j" and j: "0 < j"
      using "1.prems" by (cases k; cases "k - 1") auto
    have "n div 10 < 10 ^ j" using "1.prems"(2) unfolding k by (simp add: less_mult_imp_div_less)
    from "1.IH" [OF False j this] False show ?thesis
      by (simp add: str_nat.simps [of n] k)
  qed
qed

lemma length_str_nat_decimal:
  assumes "ds \<noteq> []" "\<forall>c \<in> set ds. is_digit c"
  shows "length (str_nat (decimal 0 ds)) \<le> length ds"
  using length_str_nat [of "length ds" "decimal 0 ds"] decimal_bound [OF assms(2), of 0] assms(1)
  by simp

lemma py_int_str_int:
  assumes "length (str_nat (nat \<bar>i\<bar>)) \<le> MAX_STR_DIGITS"
  shows "py_int (str_int i) = Some i"
proof (cases "i < 0")
  case False
  then have "py_int (str_nat (nat i)) = Some (int (decimal 0 (str_nat (nat i))))"
    using assms by (intro py_int_digits) (auto simp: str_nat_nonempty str_nat_digits)
  with False show ?thesis by (simp add: str_int_def decimal_str_nat)
next
  case True
  let ?ds = "str_nat (nat (- i))"
  have d: "?ds \<noteq> []" "\<forall>c \<in> set ?ds. is_digit c"
    by (auto simp: str_nat_nonempty str_nat_digits)
  have l: "\<not> MAX_STR_DIGITS < length ?ds" using assms True by simp
  have sp: "\<not> py_isspace (CHR ''-'')" by (simp add: py_isspace_def)
  have "\<not> py_isspace (last (CHR ''-'' # ?ds))"
    using d by (auto dest!: digit_not_space)
  then have s: "py_strip (CHR ''-'' # ?ds) = CHR ''-'' # ?ds"
    using sp by (intro py_strip_id) auto
  show ?thesis
    using True int_literal_digits [OF d] l
    by (simp add: str_int_def py_int_def s decimal_str_nat)
qed









lemma semicolon_str_int: "CHR '';'' \<notin> set (str_int i)"
  by (auto simp: str_int_def is_digit_def dest!: str_nat_digits)

lemma takeWhile_digits: "\<forall>c \<in> set ds. is_digit c \<Longrightarrow> \<not> is_digit x \<Longrightarrow> takeWhile is_digit (ds @ x # r) = ds"
  by (induction ds) auto

lemma dropWhile_digits: "\<forall>c \<in> set ds. is_digit c \<Longrightarrow> \<not> is_digit x \<Longrightarrow> dropWhile is_digit (ds @ x # r) = x # r"
  by (induction ds) auto

lemma REMOVE_SRID_group3_ewkt:
  assumes "ds \<noteq> []" "\<forall>c \<in> set ds. is_digit c" "CHR 0x0A \<notin> set wkt"
  shows "REMOVE_SRID_group3 (''SRID='' @ ds @ '';'' @ wkt) = (if prefix '' '' wkt then drop 1 wkt else wkt)"
proof -
  have nd: "\<not> is_digit (CHR '';'')" by (simp add: is_digit_def)
  have nl: "takeWhile (\<lambda>c. c \<noteq> CHR 0x0A) wkt = wkt"
    using assms(3) by (induction wkt) auto
  have nl1: "takeWhile (\<lambda>c. c \<noteq> CHR 0x0A) (drop 1 wkt) = drop 1 wkt"
    using assms(3) nl by (cases wkt) auto
  show ?thesis
    using assms(1) nl nl1
    by (simp add: REMOVE_SRID_group3_def Let_def takeWhile_digits [OF assms(2) nd]
        dropWhile_digits [OF assms(2) nd])
qed

subsection \<open>Hexadecimal text\<close>

lemma hex_val_hex_char: "d < 16 \<Longrightarrow> hex_val (hex_char d) = Some d"
  by (auto simp: hex_val_def hex_char_def Let_def)

lemma hex_char_ascii: "d < 16 \<Longrightarrow> (of_char (hex_char d) :: nat) < 128"
  by (auto simp: hex_char_def)

lemma lower_hex_char: "d < 16 \<Longrightarrow> lower_char (hex_char d) = hex_char d"
  by (auto simp: hex_char_def lower_char_def)

lemma hex_val_range: "hex_val a = Some h \<Longrightarrow> h < 16"
  by (auto simp: hex_val_def Let_def split: if_splits)

lemma hex_val_lower: "hex_val a = Some h \<Longrightarrow> hex_char h = lower_char a"
proof -
  assume a: "hex_val a = Some h"
  have c: "char_of (of_char a :: nat) = a" by simp
  consider "48 \<le> (of_char a :: nat) \<and> (of_char a :: nat) \<le> 57 \<and> h = of_char a - 48"
    | "97 \<le> (of_char a :: nat) \<and> (of_char a :: nat) \<le> 102 \<and> h = of_char a - 87"
    | "65 \<le> (of_char a :: nat) \<and> (of_char a :: nat) \<le> 70 \<and> h = of_char a - 55"
    using a by (auto simp: hex_val_def Let_def split: if_splits)
  then show ?thesis
  proof cases
    case 1
    then have "hex_char h = char_of (of_char a :: nat)" by (auto simp: hex_char_def)
    with 1 show ?thesis by (simp add: lower_char_def)
  next
    case 2
    then have "hex_char h = char_of (of_char a :: nat)" by (auto simp: hex_char_def)
    with 2 show ?thesis by (simp add: lower_char_def)
  next
    case 3
    then have "hex_char h = char_of ((of_char a :: nat) + 32)"
      by (auto simp: hex_char_def intro!: arg_cong [where f = char_of])
    with 3 show ?thesis by (simp add: lower_char_def)
  qed
qed

lemma byte_div_mod: "(word_of_nat (16 * (unat b div 16) + unat b mod 16) :: byte) = b"
  by simp

lemma nibbles_unat: "h < 16 \<Longrightarrow> l < 16 \<Longrightarrow> unat (word_of_nat (16 * h + l) :: byte) = 16 * h + l"
  by (simp add: unat_of_nat del: of_nat_add of_nat_mult)

lemma length_hexlify: "length (hexlify bs) = 2 * length bs"
  by (induction bs) auto

lemma hexlify_append: "hexlify (a @ b) = hexlify a @ hexlify b"
  by (induction a) auto

lemma hexlify_ascii: "c \<in> set (hexlify bs) \<Longrightarrow> (of_char c :: nat) < 128"
proof (induction bs)
  case Nil
  then show ?case by simp
next
  case (Cons b bs)
  have "unat b div 16 < 16" using unsigned_less [of b, where ?'a = nat] by simp
  moreover have "unat b mod 16 < 16" by simp
  ultimately have "(of_char (hex_char (unat b div 16)) :: nat) < 128"
    "(of_char (hex_char (unat b mod 16)) :: nat) < 128"
    by (auto intro: hex_char_ascii)
  then show ?case using Cons by auto
qed

lemma hex_char_digit: "d < 16 \<Longrightarrow> hex_char d \<in> set ''0123456789abcdef''"
proof -
  assume "d < 16"
  then have "d = 0 \<or> d = 1 \<or> d = 2 \<or> d = 3 \<or> d = 4 \<or> d = 5 \<or> d = 6 \<or> d = 7 \<or> d = 8
      \<or> d = 9 \<or> d = 10 \<or> d = 11 \<or> d = 12 \<or> d = 13 \<or> d = 14 \<or> d = 15"
    by arith
  then show ?thesis
    by (elim disjE) (simp_all add: hex_char_def char_of_eq_iff)
qed

lemma hexlify_digits: "set (hexlify bs) \<subseteq> set ''0123456789abcdef''"
proof (induction bs)
  case Nil
  then show ?case by simp
next
  case (Cons b bs)
  have "unat b div 16 < 16" using unsigned_less [of b, where ?'a = nat] by simp
  then have a: "hex_char (unat b div 16) \<in> set ''0123456789abcdef''" by (rule hex_char_digit)
  have "unat b mod 16 < 16" by simp
  then have b: "hex_char (unat b mod 16) \<in> set ''0123456789abcdef''" by (rule hex_char_digit)
  from a b Cons show ?case by simp
qed

lemma py_lower_hexlify: "py_lower (hexlify bs) = hexlify bs"
proof (induction bs)
  case Nil
  then show ?case by (simp add: py_lower_def)
next
  case (Cons b bs)
  have "unat b div 16 < 16" using unsigned_less [of b, where ?'a = nat] by simp
  moreover have "unat b mod 16 < 16" by simp
  ultimately show ?case using Cons by (simp add: py_lower_def lower_hex_char)
qed

lemma unhex_pairs_hexlify: "unhex_pairs (hexlify bs) = Inr bs"
proof (induction bs)
  case Nil
  then show ?case by simp
next
  case (Cons b bs)
  have "unat b div 16 < 16" using unsigned_less [of b, where ?'a = nat] by simp
  moreover have "unat b mod 16 < 16" by simp
  ultimately show ?case using Cons byte_div_mod [of b]
    by (simp add: hex_val_hex_char del: of_nat_add of_nat_mult)
qed

lemma unhexlify_hexlify: "unhexlify (hexlify bs) = Inr bs"
  by (auto simp: unhexlify_def length_hexlify unhex_pairs_hexlify dest!: hexlify_ascii)

lemma unhex_pairs_lower:
  "unhex_pairs s = Inr bs \<Longrightarrow> even (length s) \<Longrightarrow> hexlify bs = py_lower s \<and> length s = 2 * length bs"
proof (induction s arbitrary: bs rule: unhex_pairs.induct)
  case (3 a b cs)
  from "3.prems"(1) obtain h l bs' where
    h: "hex_val a = Some h" and l: "hex_val b = Some l" and r: "unhex_pairs cs = Inr bs'"
    and bs: "bs = word_of_nat (16 * h + l) # bs'"
    by (auto split: option.splits sum.splits)
  have hl: "h < 16" "l < 16" using h l by (auto dest: hex_val_range)
  have ih: "hexlify bs' = py_lower cs \<and> length cs = 2 * length bs'"
    using "3.IH" [OF _ h l r] "3.prems"(2) by simp
  have u: "unat (word_of_nat (16 * h + l) :: byte) = 16 * h + l"
    using hl by (rule nibbles_unat)
  show ?case
    unfolding bs using ih hl hex_val_lower [OF h] hex_val_lower [OF l]
    by (simp add: u py_lower_def del: of_nat_add of_nat_mult)
next
  case 1
  then show ?case by (simp add: py_lower_def)
next
  case (2 v)
  then show ?case by simp
qed

lemma unhexlify_lower:
  "unhexlify s = Inr bs \<Longrightarrow> hexlify bs = py_lower s \<and> length s = 2 * length bs"
  by (auto simp: unhexlify_def split: if_splits dest: unhex_pairs_lower)

lemma unhex_pairs_take:
  "unhex_pairs s = Inr bs \<Longrightarrow> unhex_pairs (take (2 * n) s) = Inr (take n bs)"
proof (induction s arbitrary: bs n rule: unhex_pairs.induct)
  case (3 a b cs)
  from "3.prems"(1) obtain h l bs' where
    h: "hex_val a = Some h" and l: "hex_val b = Some l" and r: "unhex_pairs cs = Inr bs'"
    and bs: "bs = word_of_nat (16 * h + l) # bs'"
    by (auto split: option.splits sum.splits)
  show ?case
  proof (cases n)
    case 0
    then show ?thesis by simp
  next
    case (Suc m)
    have "unhex_pairs (take (2 * m) cs) = Inr (take m bs')"
      using "3.IH" [OF _ h l r] by simp
    then show ?thesis unfolding bs Suc using h l by simp
  qed
next
  case 1
  then show ?case by simp
next
  case (2 v)
  then show ?case by (cases n) auto
qed

lemma unhexlify_take:
  assumes "unhexlify s = Inr bs"
  shows "unhexlify (take (2 * n) s) = Inr (take n bs)"
proof -
  from assms have a: "\<not> (\<exists>c \<in> set s. 128 \<le> (of_char c :: nat))" and e: "even (length s)"
    and p: "unhex_pairs s = Inr bs"
    by (auto simp: unhexlify_def split: if_splits)
  have a': "\<not> (\<exists>c \<in> set (take (2 * n) s). 128 \<le> (of_char c :: nat))"
    using a by (auto dest: in_set_takeD)
  have e': "even (length (take (2 * n) s))"
    using e by (simp add: min_def)
  show ?thesis
    using a' e' unhex_pairs_take [OF p, of n] by (simp add: unhexlify_def)
qed

lemma unhex_pairs_append:
  "unhex_pairs a = Inr x \<Longrightarrow> even (length a) \<Longrightarrow> unhex_pairs (a @ b) = (case unhex_pairs b of Inl e \<Rightarrow> Inl e | Inr y \<Rightarrow> Inr (x @ y))"
proof (induction a arbitrary: x rule: unhex_pairs.induct)
  case (3 c d cs)
  from "3.prems"(1) obtain h l bs' where
    h: "hex_val c = Some h" and l: "hex_val d = Some l" and r: "unhex_pairs cs = Inr bs'"
    and bs: "x = word_of_nat (16 * h + l) # bs'"
    by (auto split: option.splits sum.splits)
  have "unhex_pairs (cs @ b) = (case unhex_pairs b of Inl e \<Rightarrow> Inl e | Inr y \<Rightarrow> Inr (bs' @ y))"
    using "3.IH" [OF _ h l r] "3.prems"(2) by simp
  then show ?case unfolding bs using h l by (simp split: sum.splits)
next
  case 1
  then show ?case by (simp split: sum.splits)
next
  case (2 v)
  then show ?case by simp
qed

lemma unhexlify_append:
  assumes "unhexlify a = Inr x" "unhexlify b = Inr y"
  shows "unhexlify (a @ b) = Inr (x @ y)"
proof -
  from assms(1) have a: "\<not> (\<exists>c \<in> set a. 128 \<le> (of_char c :: nat))" "even (length a)"
    "unhex_pairs a = Inr x"
    by (auto simp: unhexlify_def split: if_splits)
  from assms(2) have b: "\<not> (\<exists>c \<in> set b. 128 \<le> (of_char c :: nat))" "even (length b)"
    "unhex_pairs b = Inr y"
    by (auto simp: unhexlify_def split: if_splits)
  show ?thesis
    using a(1,2) b unhex_pairs_append [OF a(3) a(2), of b]
    by (auto simp: unhexlify_def)
qed

subsection \<open>Byte packing\<close>

lemma length_le_bytes: "length (le_bytes n v) = n"
  by (induction n arbitrary: v) auto

lemma le_int_nonneg: "0 \<le> le_int bs"
  by (induction bs) auto

lemma le_int_bound: "le_int bs < 256 ^ length bs"
proof (induction bs)
  case Nil
  then show ?case by simp
next
  case (Cons b bs)
  have "uint b < 256" using uint_lt2p [of b] by simp
  with Cons show ?case by simp
qed

lemma byte_of_sum: "(word_of_int (uint b + 256 * x) :: byte) = b"
proof -
  have "uint (word_of_int (uint b + 256 * x) :: byte) = uint b"
    using uint_lt2p [of b] by (simp add: uint_word_of_int del: of_int_add of_int_mult)
  then show ?thesis by (rule word_uint_eqI)
qed

lemma le_bytes_le_int: "length bs = n \<Longrightarrow> le_bytes n (le_int bs) = bs"
proof (induction bs arbitrary: n)
  case Nil
  then show ?case by simp
next
  case (Cons b bs)
  then obtain m where n: "n = Suc m" "length bs = m" by (cases n) auto
  have d: "(uint b + 256 * le_int bs) div 256 = le_int bs"
    using uint_lt2p [of b] by simp
  show ?case using Cons.IH [OF n(2)] by (simp add: n byte_of_sum d del: of_int_add of_int_mult)
qed

lemma le_int_le_bytes: "0 \<le> v \<Longrightarrow> v < 256 ^ n \<Longrightarrow> le_int (le_bytes n v) = v"
proof (induction n arbitrary: v)
  case 0
  then show ?case by simp
next
  case (Suc n)
  have "v = 256 * (v div 256) + v mod 256" by simp
  moreover have "0 \<le> v mod 256" by simp
  ultimately have "256 * (v div 256) \<le> v" by linarith
  moreover have "v < 256 * 256 ^ n" using Suc.prems by simp
  ultimately have "v div 256 < 256 ^ n" by linarith
  moreover have "0 \<le> v div 256" using Suc.prems by simp
  ultimately have ih: "le_int (le_bytes n (v div 256)) = v div 256" by (rule Suc.IH [rotated])
  have "uint (word_of_int v :: byte) = v mod 256"
    by (simp add: uint_word_of_int take_bit_eq_mod)
  then show ?case using ih by simp
qed

lemma unpack_uint_uint_bytes:
  "0 \<le> v \<Longrightarrow> v < 4294967296 \<Longrightarrow> unpack_uint little (uint_bytes little v) = v"
  using le_int_le_bytes [of v 4] by (simp add: unpack_uint_def uint_bytes_def)

lemma uint_bytes_unpack_uint:
  "length bs = 4 \<Longrightarrow> uint_bytes little (unpack_uint little bs) = bs"
  using le_bytes_le_int [of bs 4] le_bytes_le_int [of "rev bs" 4]
  by (auto simp: unpack_uint_def uint_bytes_def)

lemma unpack_uint_range: "length bs = 4 \<Longrightarrow> 0 \<le> unpack_uint little bs \<and> unpack_uint little bs < 4294967296"
  using le_int_bound [of bs] le_int_bound [of "rev bs"] le_int_nonneg [of bs] le_int_nonneg [of "rev bs"]
  by (auto simp: unpack_uint_def)

lemma length_uint_bytes: "length (uint_bytes little v) = 4"
  by (simp add: uint_bytes_def length_le_bytes)

subsection \<open>The SRID bit of the type word\<close>

lemma w_not: "(3758096383 :: 32 word) = NOT (2 ^ 29)" by simp
lemma w_bit: "(536870912 :: 32 word) = 2 ^ 29" by simp

lemma w_and_bit: "k < 32 \<Longrightarrow> (w :: 32 word) AND 2 ^ k = 0 \<longleftrightarrow> \<not> bit w k"
proof
  assume k: "k < 32" and "w AND 2 ^ k = 0"
  then have "\<not> bit (w AND 2 ^ k) k" by simp
  with k show "\<not> bit w k" by (simp add: bit_simps)
next
  assume "k < 32" "\<not> bit w k"
  then show "w AND 2 ^ k = 0"
    by (intro bit_eqI) (auto simp: bit_simps)
qed

lemma w_set_clear_k: "k < 32 \<Longrightarrow> (w :: 32 word) AND 2 ^ k = 0 \<Longrightarrow> (w OR 2 ^ k) AND NOT (2 ^ k) = w"
  unfolding w_and_bit
  by (intro bit_eqI) (auto simp: bit_simps)

lemma w_clear_set_k: "k < 32 \<Longrightarrow> (w :: 32 word) AND 2 ^ k \<noteq> 0 \<Longrightarrow> (w AND NOT (2 ^ k)) OR 2 ^ k = w"
  unfolding w_and_bit
  by (intro bit_eqI) (auto simp: bit_simps)

lemma w_clear_bit_k: "k < 32 \<Longrightarrow> ((w :: 32 word) AND NOT (2 ^ k)) AND 2 ^ k = 0"
  by (intro bit_eqI) (auto simp: bit_simps)

lemma w_set_bit_k: "k < 32 \<Longrightarrow> ((w :: 32 word) OR 2 ^ k) AND 2 ^ k \<noteq> 0"
  unfolding w_and_bit by (simp add: bit_simps)

lemma w_set_clear:
  assumes "(w :: 32 word) AND 536870912 = 0"
  shows "(w OR 536870912) AND 3758096383 = w"
proof -
  have "w AND 2 ^ 29 = 0" using assms unfolding w_bit .
  then have "(w OR 2 ^ 29) AND NOT (2 ^ 29) = w" by (intro w_set_clear_k) simp_all
  then show ?thesis unfolding w_bit w_not .
qed

lemma w_clear_set:
  assumes "(w :: 32 word) AND 536870912 \<noteq> 0"
  shows "(w AND 3758096383) OR 536870912 = w"
proof -
  have "w AND 2 ^ 29 \<noteq> 0" using assms unfolding w_bit .
  then have "(w AND NOT (2 ^ 29)) OR 2 ^ 29 = w" by (intro w_clear_set_k) simp_all
  then show ?thesis unfolding w_bit w_not .
qed

lemma w_clear_bit: "((w :: 32 word) AND 3758096383) AND 536870912 = 0"
  unfolding w_bit w_not by (rule w_clear_bit_k) simp

lemma w_set_bit: "((w :: 32 word) OR 536870912) AND 536870912 \<noteq> 0"
  unfolding w_bit by (rule w_set_bit_k) simp

lemma int_as_word: "0 \<le> (t::int) \<Longrightarrow> t < 4294967296 \<Longrightarrow> uint (word_of_int t :: 32 word) = t"
  by (simp add: uint_word_of_int take_bit_int_eq_self)

lemma u1: "uint (536870912 :: 32 word) = 536870912" by simp
lemma u2: "uint (3758096383 :: 32 word) = 3758096383" by simp

lemma set_clear:
  assumes "0 \<le> (t::int)" "t < 4294967296" "t AND 536870912 = 0"
  shows "(t OR 536870912) AND 3758096383 = t"
proof -
  define w :: "32 word" where "w = word_of_int t"
  have t: "t = uint w" using assms(1,2) by (simp add: w_def int_as_word)
  have "uint (w AND 536870912) = 0" using assms(3) by (simp add: t uint_and u1)
  then have "w AND 536870912 = 0" by (simp add: uint_0_iff)
  then have "(w OR 536870912) AND 3758096383 = w" by (rule w_set_clear)
  then have "uint ((w OR 536870912) AND 3758096383) = uint w" by simp
  then show ?thesis by (simp add: t uint_and uint_or u1 u2)
qed

lemma clear_set:
  assumes "0 \<le> (t::int)" "t < 4294967296" "t AND 536870912 \<noteq> 0"
  shows "(t AND 3758096383) OR 536870912 = t"
proof -
  define w :: "32 word" where "w = word_of_int t"
  have t: "t = uint w" using assms(1,2) by (simp add: w_def int_as_word)
  have "uint (w AND 536870912) \<noteq> 0" using assms(3) by (simp add: t uint_and u1)
  then have "w AND 536870912 \<noteq> 0" by (simp add: uint_0_iff)
  then have "(w AND 3758096383) OR 536870912 = w" by (rule w_clear_set)
  then have "uint ((w AND 3758096383) OR 536870912) = uint w" by simp
  then show ?thesis by (simp add: t uint_and uint_or u1 u2)
qed

lemma or_bound:
  assumes "0 \<le> (t::int)" "t < 4294967296"
  shows "0 \<le> t OR 536870912 \<and> t OR 536870912 < 4294967296 \<and> (t OR 536870912) AND 536870912 \<noteq> 0
    \<and> t OR 536870912 \<noteq> 0"
proof -
  define w :: "32 word" where "w = word_of_int t"
  have t: "t = uint w" using assms(1,2) by (simp add: w_def int_as_word)
  have e: "t OR 536870912 = uint (w OR 536870912)" by (simp add: t uint_or u1)
  have e2: "(t OR 536870912) AND 536870912 = uint ((w OR 536870912) AND 536870912)"
    unfolding e by (simp only: uint_and u1)
  have lt: "uint (w OR 536870912) < 4294967296"
    using uint_lt2p [of "w OR 536870912"] by simp
  have nz: "uint ((w OR 536870912) AND 536870912) \<noteq> 0"
    using w_set_bit [of w] unfolding uint_0_iff .
  have c1: "0 \<le> t OR 536870912" unfolding e by simp
  have c2: "t OR 536870912 < 4294967296" unfolding e by (rule lt)
  have c3: "(t OR 536870912) AND 536870912 \<noteq> 0" unfolding e2 by (rule nz)
  have c4: "t OR 536870912 \<noteq> 0"
  proof
    assume z: "t OR 536870912 = 0"
    have "(t OR 536870912) AND 536870912 = 0" unfolding z by simp
    with c3 show False by simp
  qed
  from c1 c2 c3 c4 show ?thesis by simp
qed

lemma and_bound:
  assumes "0 \<le> (t::int)" "t < 4294967296"
  shows "0 \<le> t AND 3758096383 \<and> t AND 3758096383 < 4294967296 \<and> (t AND 3758096383) AND 536870912 = 0"
proof -
  define w :: "32 word" where "w = word_of_int t"
  have t: "t = uint w" using assms(1,2) by (simp add: w_def int_as_word)
  have e: "t AND 3758096383 = uint (w AND 3758096383)" by (simp add: t uint_and u2)
  have e2: "(t AND 3758096383) AND 536870912 = uint ((w AND 3758096383) AND 536870912)"
    unfolding e by (simp only: uint_and u1)
  have lt: "uint (w AND 3758096383) < 4294967296"
    using uint_lt2p [of "w AND 3758096383"] by simp
  have z: "uint ((w AND 3758096383) AND 536870912) = 0"
    using w_clear_bit [of w] unfolding uint_0_iff .
  have c1: "0 \<le> t AND 3758096383" unfolding e by simp
  have c2: "t AND 3758096383 < 4294967296" unfolding e by (rule lt)
  have c3: "(t AND 3758096383) AND 536870912 = 0" unfolding e2 by (rule z)
  from c1 c2 c3 show ?thesis by simp
qed

section \<open>Text geometries\<close>

text \<open>
  C7. A \<open>WKTElement\<close> flagged as extended (\<open>extended=True\<close>, or no flag and a text that
  starts with \<open>SRID=\<close>) and built without an explicit SRID reads the SRID from the
  prefix. When the text does not split into exactly two parts on the semicolon (it has no
  semicolon, or more than one), or when what follows the first five characters of the first
  part is not an integer for \<open>int()\<close>, construction fails with \<open>ArgumentError\<close>; otherwise
  the SRID is that integer.
\<close>

theorem WKTElement_extended_prefix:
  assumes "ext = Some True \<or> (ext = None \<and> prefix ''SRID='' dat)"
  shows "(count_list dat (CHR '';'') \<noteq> 1 \<longrightarrow>
            WKTElement_init dat (- 1) ext = Inl (ArgumentError (''invalid EWKT string '' @ dat)))
       \<and> (count_list dat (CHR '';'') = 1
            \<and> py_int (drop 5 (takeWhile (\<lambda>c. c \<noteq> CHR '';'') dat)) = None \<longrightarrow>
            WKTElement_init dat (- 1) ext = Inl (ArgumentError (''invalid EWKT string '' @ dat)))
       \<and> (\<forall>n. count_list dat (CHR '';'') = 1
            \<and> py_int (drop 5 (takeWhile (\<lambda>c. c \<noteq> CHR '';'') dat)) = Some n \<longrightarrow>
            WKTElement_init dat (- 1) ext = Inr \<lparr>srid = n, data = dat, extended = Some True\<rparr>)"
proof -
  from assms have flag: "(case ext of None \<Rightarrow> prefix ''SRID='' dat | Some b \<Rightarrow> b) = True"
    by auto
  show ?thesis
    unfolding WKTElement_init_def flag Let_def
    by (simp add: length_split_on split_on_first)
qed

text \<open>
  The three cases of C7 on concrete texts; and a separator (code point 28) in front of
  the digits, which \<open>int()\<close> does not skip.
\<close>

theorem WKTElement_extended_prefix_witness:
  "WKTElement_init ''SRID=4326POINT(1 1)'' (- 1) (Some True)
     = Inl (ArgumentError ''invalid EWKT string SRID=4326POINT(1 1)'')
   \<and> WKTElement_init ''SRID=43x6;POINT(1 1)'' (- 1) None
     = Inl (ArgumentError ''invalid EWKT string SRID=43x6;POINT(1 1)'')
   \<and> WKTElement_init ''SRID=4326;POINT(1 1)'' (- 1) None
     = Inr \<lparr>srid = 4326, data = ''SRID=4326;POINT(1 1)'', extended = Some True\<rparr>
   \<and> WKTElement_init (''SRID='' @ CHR 0x1C # ''4326;POINT(1 1)'') (- 1) None
     = Inl (ArgumentError (''invalid EWKT string SRID='' @ CHR 0x1C # ''4326;POINT(1 1)''))
   \<and> WKTElement_init ''SRID= 4_326 ;POINT(1 1)'' (- 1) None
     = Inr \<lparr>srid = 4326, data = ''SRID= 4_326 ;POINT(1 1)'', extended = Some True\<rparr>"
proof -
  note ev = py_int_def int_literal_def MAX_STR_DIGITS_def py_strip_def py_isspace_def
    is_digit_def digit_val_def
  have a: "WKTElement_init ''SRID=4326POINT(1 1)'' (- 1) (Some True)
     = Inl (ArgumentError ''invalid EWKT string SRID=4326POINT(1 1)'')"
    using WKTElement_extended_prefix [of "Some True" "''SRID=4326POINT(1 1)''"] by simp
  have b: "WKTElement_init ''SRID=43x6;POINT(1 1)'' (- 1) None
     = Inl (ArgumentError ''invalid EWKT string SRID=43x6;POINT(1 1)'')"
    using WKTElement_extended_prefix [of None "''SRID=43x6;POINT(1 1)''"]
    by (simp add: ev)
  have c: "WKTElement_init ''SRID=4326;POINT(1 1)'' (- 1) None
     = Inr \<lparr>srid = 4326, data = ''SRID=4326;POINT(1 1)'', extended = Some True\<rparr>"
    using WKTElement_extended_prefix [of None "''SRID=4326;POINT(1 1)''"]
    by (simp add: ev)
  have d: "WKTElement_init (''SRID='' @ CHR 0x1C # ''4326;POINT(1 1)'') (- 1) None
     = Inl (ArgumentError (''invalid EWKT string SRID='' @ CHR 0x1C # ''4326;POINT(1 1)''))"
    using WKTElement_extended_prefix [of None "''SRID='' @ CHR 0x1C # ''4326;POINT(1 1)''"]
    by (simp add: ev)
  have e: "WKTElement_init ''SRID= 4_326 ;POINT(1 1)'' (- 1) None
     = Inr \<lparr>srid = 4326, data = ''SRID= 4_326 ;POINT(1 1)'', extended = Some True\<rparr>"
    using WKTElement_extended_prefix [of None "''SRID= 4_326 ;POINT(1 1)''"]
    by (simp add: ev)
  from a b c d e show ?thesis by simp
qed

text \<open>
  C6, as amended. For a text \<open>SRID=<n>;<wkt>\<close> where \<open><n>\<close> is a non-empty string of
  at most 4300 decimal digits and \<open><wkt>\<close> has no semicolon and no newline, construction
  without an explicit SRID gives \<open>srid = n\<close>; \<open>as_wkt\<close> gives the plain text \<open><wkt>\<close>
  without one leading space, if it has one, and \<open>as_ewkt\<close> of that gives \<open>SRID=n;\<close>
  followed by the same body. When \<open><wkt>\<close> does not start with a space the body is exactly
  \<open><wkt>\<close>. With more than 4300 digits \<open>int()\<close> refuses the prefix and construction fails
  with \<open>ArgumentError\<close>.
\<close>

theorem ewkt_round_trip:
  assumes "ds \<noteq> []" and "\<forall>c \<in> set ds. is_digit c"
    and "CHR '';'' \<notin> set wkt" and "CHR 0x0A \<notin> set wkt"
    and "n = int (decimal 0 ds)"
    and "body = (if prefix '' '' wkt then drop 1 wkt else wkt)"
  shows "(length ds \<le> 4300 \<longrightarrow>
           py_int ds = Some n
         \<and> WKTElement_init (''SRID='' @ ds @ '';'' @ wkt) (- 1) None
             = Inr \<lparr>srid = n, data = ''SRID='' @ ds @ '';'' @ wkt, extended = Some True\<rparr>
         \<and> as_wkt \<lparr>srid = n, data = ''SRID='' @ ds @ '';'' @ wkt, extended = Some True\<rparr>
             = Inr \<lparr>srid = n, data = body, extended = Some False\<rparr>
         \<and> as_ewkt \<lparr>srid = n, data = body, extended = Some False\<rparr>
             = Inr \<lparr>srid = n, data = ''SRID='' @ str_int n @ '';'' @ body, extended = Some True\<rparr>)
       \<and> (4300 < length ds \<longrightarrow>
           py_int ds = None
         \<and> WKTElement_init (''SRID='' @ ds @ '';'' @ wkt) (- 1) None
             = Inl (ArgumentError (''invalid EWKT string '' @ ''SRID='' @ ds @ '';'' @ wkt)))"
proof (intro conjI impI)
  have semi: "CHR '';'' \<notin> set (''SRID='' @ ds)"
    using assms(2) by (auto simp: is_digit_def)
  have sp: "split_on (CHR '';'') (''SRID='' @ ds @ '';'' @ wkt) = [''SRID='' @ ds, wkt]"
    using split_on_append [OF semi, of wkt] split_on_none [OF assms(3)] by simp
  {
    assume big: "4300 < length ds"
    then show none: "py_int ds = None"
      using py_int_digits_if [OF assms(1,2)] by (simp add: MAX_STR_DIGITS_def)
    show "WKTElement_init (''SRID='' @ ds @ '';'' @ wkt) (- 1) None
             = Inl (ArgumentError (''invalid EWKT string '' @ ''SRID='' @ ds @ '';'' @ wkt))"
      unfolding WKTElement_init_def Let_def sp using none by simp
  }
  assume small: "length ds \<le> 4300"
  show p: "py_int ds = Some n"
    using py_int_digits [OF assms(1,2)] small assms(5) by (simp add: MAX_STR_DIGITS_def)
  have n0: "0 \<le> n" using assms(5) by simp
  show "WKTElement_init (''SRID='' @ ds @ '';'' @ wkt) (- 1) None
           = Inr \<lparr>srid = n, data = ''SRID='' @ ds @ '';'' @ wkt, extended = Some True\<rparr>"
    unfolding WKTElement_init_def Let_def sp using p by simp
  show "as_wkt \<lparr>srid = n, data = ''SRID='' @ ds @ '';'' @ wkt, extended = Some True\<rparr>
           = Inr \<lparr>srid = n, data = body, extended = Some False\<rparr>"
    using REMOVE_SRID_group3_ewkt [OF assms(1,2,4)] assms(6)
    by (simp add: as_wkt_def WKTElement_init_def)
  have bsemi: "CHR '';'' \<notin> set body"
    using assms(3,6) by (auto dest: in_set_dropD)
  have semi2: "CHR '';'' \<notin> set (''SRID='' @ str_int n)"
    using semicolon_str_int [of n] by simp
  have sp2: "split_on (CHR '';'') (''SRID='' @ str_int n @ '';'' @ body) = [''SRID='' @ str_int n, body]"
    using split_on_append [OF semi2, of body] split_on_none [OF bsemi] by simp
  have n1: "n \<noteq> - 1" using n0 by simp
  have len: "length (str_nat (nat \<bar>n\<bar>)) \<le> MAX_STR_DIGITS"
    using length_str_nat_decimal [OF assms(1,2)] small assms(5) by (simp add: MAX_STR_DIGITS_def)
  then have f: "format_int n = Inr (str_int n)" by (simp add: format_int_def within_limit_def)
  show "as_ewkt \<lparr>srid = n, data = body, extended = Some False\<rparr>
           = Inr \<lparr>srid = n, data = ''SRID='' @ str_int n @ '';'' @ body, extended = Some True\<rparr>"
    unfolding as_ewkt_def WKTElement_init_def Let_def using n1 sp2 f
    by (simp add: py_int_str_int [OF len])
qed

text \<open>
  The round trip of C6 on \<open>SRID=4326;POINT(1 1)\<close>, and the failure on a prefix of 4301
  digits.
\<close>

theorem ewkt_round_trip_witness:
  "as_ewkt \<lparr>srid = 4326, data = ''POINT(1 1)'', extended = Some False\<rparr>
     = Inr \<lparr>srid = 4326, data = ''SRID=4326;POINT(1 1)'', extended = Some True\<rparr>
   \<and> as_wkt \<lparr>srid = 4326, data = ''SRID=4326;POINT(1 1)'', extended = Some True\<rparr>
     = Inr \<lparr>srid = 4326, data = ''POINT(1 1)'', extended = Some False\<rparr>
   \<and> WKTElement_init ''SRID=4326;POINT(1 1)'' (- 1) None
     = Inr \<lparr>srid = 4326, data = ''SRID=4326;POINT(1 1)'', extended = Some True\<rparr>
   \<and> py_int ''4326'' = Some 4326
   \<and> WKTElement_init (''SRID='' @ replicate 4301 (CHR ''1'') @ '';POINT(1 1)'') (- 1) None
     = Inl (ArgumentError (''invalid EWKT string SRID='' @ replicate 4301 (CHR ''1'') @ '';POINT(1 1)''))"
proof -
  have d: "int (decimal 0 ''4326'') = 4326"
    by (simp add: decimal_def digit_val_def)
  have s: "str_int 4326 = ''4326''"
    by (simp add: str_int_def str_nat.simps digit_char_def char_of_eq_iff)
  have a: "py_int ''4326'' = Some 4326
         \<and> WKTElement_init ''SRID=4326;POINT(1 1)'' (- 1) None
             = Inr \<lparr>srid = 4326, data = ''SRID=4326;POINT(1 1)'', extended = Some True\<rparr>
         \<and> as_wkt \<lparr>srid = 4326, data = ''SRID=4326;POINT(1 1)'', extended = Some True\<rparr>
             = Inr \<lparr>srid = 4326, data = ''POINT(1 1)'', extended = Some False\<rparr>
         \<and> as_ewkt \<lparr>srid = 4326, data = ''POINT(1 1)'', extended = Some False\<rparr>
             = Inr \<lparr>srid = 4326, data = ''SRID=4326;POINT(1 1)'', extended = Some True\<rparr>"
    using ewkt_round_trip [of "''4326''" "''POINT(1 1)''" 4326 "''POINT(1 1)''", THEN conjunct1] d s
    by (simp add: is_digit_def)
  have b: "WKTElement_init (''SRID='' @ replicate 4301 (CHR ''1'') @ '';POINT(1 1)'') (- 1) None
     = Inl (ArgumentError (''invalid EWKT string SRID='' @ replicate 4301 (CHR ''1'') @ '';POINT(1 1)''))"
    using ewkt_round_trip [of "replicate 4301 (CHR ''1'')" "''POINT(1 1)''"
        "int (decimal 0 (replicate 4301 (CHR ''1'')))" "''POINT(1 1)''", THEN conjunct2]
    by (simp add: is_digit_def)
  from a b show ?thesis by simp
qed

text \<open>
  C6 as stated fails when the body starts with a space: the pattern \<open>_REMOVE_SRID\<close>
  takes one space after the semicolon into the prefix, so the body \<open> POINT(1 1)\<close> comes
  back as \<open>POINT(1 1)\<close>.
\<close>

theorem ewkt_round_trip_counterexample:
  "WKTElement_init ''SRID=4326; POINT(1 1)'' (- 1) None
     = Inr \<lparr>srid = 4326, data = ''SRID=4326; POINT(1 1)'', extended = Some True\<rparr>
   \<and> as_wkt \<lparr>srid = 4326, data = ''SRID=4326; POINT(1 1)'', extended = Some True\<rparr>
     = Inr \<lparr>srid = 4326, data = ''POINT(1 1)'', extended = Some False\<rparr>
   \<and> as_ewkt \<lparr>srid = 4326, data = ''POINT(1 1)'', extended = Some False\<rparr>
     = Inr \<lparr>srid = 4326, data = ''SRID=4326;POINT(1 1)'', extended = Some True\<rparr>
   \<and> ''SRID=4326;POINT(1 1)'' \<noteq> ''SRID=4326;'' @ '' POINT(1 1)''"
  by (simp add: WKTElement_init_def as_wkt_def as_ewkt_def REMOVE_SRID_group3_def Let_def
      py_int_def int_literal_def MAX_STR_DIGITS_def format_int_def within_limit_def
      py_strip_def py_isspace_def is_digit_def digit_val_def str_int_def str_nat.simps
      digit_char_def char_of_eq_iff)

section \<open>Equality\<close>

lemma spatial_eq_missing:
  "eq_body a x = Inl AttributeError \<Longrightarrow>
   spatial_eq a x = Inr (RBool False) \<and> spatial_ne a x = Inr True"
  by (simp add: spatial_eq_def spatial_ne_def)

lemma spatial_eq_falsy:
  "eq_body a x = Inr r \<Longrightarrow> truth r = Inr False \<Longrightarrow>
   spatial_eq a x = Inr r \<and> spatial_ne a x = Inr True"
  by (simp add: spatial_eq_def spatial_ne_def)

lemma spatial_eq_raises:
  "eq_body a x = Inl e \<Longrightarrow> e \<noteq> AttributeError \<Longrightarrow>
   spatial_eq a x = Inl e \<and> spatial_ne a x = Inl e"
  by (cases e) (simp_all add: spatial_eq_def spatial_ne_def)

lemma attr_eq_missing:
  "getattr x name = Inl AttributeError \<Longrightarrow> attr_eq v x name = Inl AttributeError"
  by (simp add: attr_eq_def)

lemma eq_plain_object:
  assumes "\<forall>n \<in> set [''extended'', ''srid'', ''desc''].
             getattr x n = Inl AttributeError \<or> (\<exists>v. getattr x n = Inr (Plain v))"
    and "\<exists>n \<in> set [''extended'', ''srid'', ''desc'']. getattr x n = Inl AttributeError"
  shows "spatial_eq a x = Inr (RBool False) \<and> spatial_ne a x = Inr True"
proof -
  from assms(1) have
    e: "getattr x ''extended'' = Inl AttributeError \<or> (\<exists>v. getattr x ''extended'' = Inr (Plain v))"
    and s: "getattr x ''srid'' = Inl AttributeError \<or> (\<exists>v. getattr x ''srid'' = Inr (Plain v))"
    and d: "getattr x ''desc'' = Inl AttributeError \<or> (\<exists>v. getattr x ''desc'' = Inr (Plain v))"
    by simp_all
  from assms(2) have m: "getattr x ''extended'' = Inl AttributeError
      \<or> getattr x ''srid'' = Inl AttributeError \<or> getattr x ''desc'' = Inl AttributeError"
    by simp
  from e s d m show ?thesis
    by (auto simp: spatial_eq_def spatial_ne_def eq_body_def py_and_def attr_eq_def)
qed

text \<open>
  C10, as amended. \<open>a == x\<close> is \<open>False\<close> and \<open>a != x\<close> is \<open>True\<close>
  \<^item> when \<open>x\<close> lacks \<open>extended\<close>;
  \<^item> when \<open>x\<close> lacks \<open>srid\<close> and the comparison of the \<open>extended\<close> attributes gives a
    result with a truth value;
  \<^item> when \<open>x\<close> lacks \<open>desc\<close>, the comparison of the \<open>extended\<close> attributes gives a true
    result and that of the \<open>srid\<close> attributes a result with a truth value;
  except that a comparison with a false result ends the conjunction, and then \<open>a == x\<close>
  is that result, which is \<open>False\<close> unless a foreign \<open>__eq__\<close> returned another false
  object. An exception other than \<open>AttributeError\<close>, raised when \<open>extended\<close> is read or
  compared or when the truth value of that comparison is taken, leaves both \<open>==\<close> and
  \<open>!=\<close>; \<open>AttributeError\<close> never leaves \<open>==\<close>. In particular, when each of the three
  attributes is either missing or a plain value (\<open>None\<close>, a boolean, an integer, text or
  bytes) and at least one is missing, \<open>a == x\<close> is \<open>False\<close> and \<open>a != x\<close> is \<open>True\<close>.
\<close>

theorem eq_foreign_object:
  "(getattr x ''extended'' = Inl AttributeError \<longrightarrow>
      spatial_eq a x = Inr (RBool False) \<and> spatial_ne a x = Inr True)
   \<and> (\<forall>r1 t1.
        attr_eq (extended_val (extended_of a)) x ''extended'' = Inr r1 \<and> truth r1 = Inr t1
        \<and> getattr x ''srid'' = Inl AttributeError \<longrightarrow>
      spatial_eq a x = Inr (if t1 then RBool False else r1) \<and> spatial_ne a x = Inr True)
   \<and> (\<forall>r1 r2 t2.
        attr_eq (extended_val (extended_of a)) x ''extended'' = Inr r1 \<and> truth r1 = Inr True
        \<and> attr_eq (PInt (srid_of a)) x ''srid'' = Inr r2 \<and> truth r2 = Inr t2
        \<and> getattr x ''desc'' = Inl AttributeError \<longrightarrow>
      spatial_eq a x = Inr (if t2 then RBool False else r2) \<and> spatial_ne a x = Inr True)
   \<and> (\<forall>e. e \<noteq> AttributeError
        \<and> (attr_eq (extended_val (extended_of a)) x ''extended'' = Inl e
           \<or> (\<exists>r1. attr_eq (extended_val (extended_of a)) x ''extended'' = Inr r1
                   \<and> truth r1 = Inl e)) \<longrightarrow>
      spatial_eq a x = Inl e \<and> spatial_ne a x = Inl e)
   \<and> ((\<forall>n \<in> set [''extended'', ''srid'', ''desc''].
          getattr x n = Inl AttributeError \<or> (\<exists>v. getattr x n = Inr (Plain v)))
        \<and> (\<exists>n \<in> set [''extended'', ''srid'', ''desc'']. getattr x n = Inl AttributeError) \<longrightarrow>
      spatial_eq a x = Inr (RBool False) \<and> spatial_ne a x = Inr True)
   \<and> spatial_eq a x \<noteq> Inl AttributeError"
proof (intro conjI allI impI)
  assume h: "(\<forall>n \<in> set [''extended'', ''srid'', ''desc''].
          getattr x n = Inl AttributeError \<or> (\<exists>v. getattr x n = Inr (Plain v)))
        \<and> (\<exists>n \<in> set [''extended'', ''srid'', ''desc'']. getattr x n = Inl AttributeError)"
  then have "spatial_eq a x = Inr (RBool False) \<and> spatial_ne a x = Inr True"
    by (intro eq_plain_object) simp_all
  then show "spatial_eq a x = Inr (RBool False)" and "spatial_ne a x = Inr True"
    by simp_all
next
  assume "getattr x ''extended'' = Inl AttributeError"
  then have "eq_body a x = Inl AttributeError"
    by (simp add: eq_body_def py_and_def attr_eq_missing)
  then show "spatial_eq a x = Inr (RBool False)" and "spatial_ne a x = Inr True"
    by (simp_all add: spatial_eq_missing)
next
  fix r1 t1
  assume h: "attr_eq (extended_val (extended_of a)) x ''extended'' = Inr r1 \<and> truth r1 = Inr t1
        \<and> getattr x ''srid'' = Inl AttributeError"
  have "spatial_eq a x = Inr (if t1 then RBool False else r1) \<and> spatial_ne a x = Inr True"
  proof (cases t1)
    case True
    with h have "eq_body a x = Inl AttributeError"
      by (simp add: eq_body_def py_and_def attr_eq_missing)
    then show ?thesis
      using True by (simp add: spatial_eq_missing)
  next
    case False
    with h have "eq_body a x = Inr r1" "truth r1 = Inr False"
      by (simp_all add: eq_body_def py_and_def)
    then show ?thesis
      using False by (simp add: spatial_eq_falsy)
  qed
  then show "spatial_eq a x = Inr (if t1 then RBool False else r1)" and "spatial_ne a x = Inr True"
    by simp_all
next
  fix r1 r2 t2
  assume h: "attr_eq (extended_val (extended_of a)) x ''extended'' = Inr r1 \<and> truth r1 = Inr True
        \<and> attr_eq (PInt (srid_of a)) x ''srid'' = Inr r2 \<and> truth r2 = Inr t2
        \<and> getattr x ''desc'' = Inl AttributeError"
  have "spatial_eq a x = Inr (if t2 then RBool False else r2) \<and> spatial_ne a x = Inr True"
  proof (cases t2)
    case True
    with h have "eq_body a x = Inl AttributeError"
      by (simp add: eq_body_def py_and_def attr_eq_missing)
    then show ?thesis
      using True by (simp add: spatial_eq_missing)
  next
    case False
    with h have "eq_body a x = Inr r2" "truth r2 = Inr False"
      by (simp_all add: eq_body_def py_and_def)
    then show ?thesis
      using False by (simp add: spatial_eq_falsy)
  qed
  then show "spatial_eq a x = Inr (if t2 then RBool False else r2)" and "spatial_ne a x = Inr True"
    by simp_all
next
  fix e
  assume h: "e \<noteq> AttributeError
        \<and> (attr_eq (extended_val (extended_of a)) x ''extended'' = Inl e
           \<or> (\<exists>r1. attr_eq (extended_val (extended_of a)) x ''extended'' = Inr r1
                   \<and> truth r1 = Inl e))"
  then have "eq_body a x = Inl e"
    by (auto simp: eq_body_def py_and_def)
  with h show "spatial_eq a x = Inl e" and "spatial_ne a x = Inl e"
    by (simp_all add: spatial_eq_raises)
next
  show "spatial_eq a x \<noteq> Inl AttributeError"
    by (cases "eq_body a x") (auto simp: spatial_eq_def split: py_error.splits)
qed

text \<open>
  C10 as stated fails on an object whose \<open>extended\<close> attribute compares by raising and
  which has no \<open>srid\<close> and no \<open>desc\<close>. Such a value is \<open>decimal.Decimal("sNaN")\<close>: comparing
  it with a boolean or an integer raises \<open>decimal.InvalidOperation\<close>, comparing it with
  \<open>None\<close> or with text is \<open>False\<close>. Against the element \<open>WKTElement("POINT(1 1)", 4326)\<close>,
  whose \<open>extended\<close> is \<open>False\<close>, \<open>==\<close> and \<open>!=\<close> raise instead of answering.
\<close>

theorem eq_foreign_object_counterexample:
  "WKTElement_init ''POINT(1 1)'' 4326 None
     = Inr \<lparr>srid = 4326, data = ''POINT(1 1)'', extended = Some False\<rparr>
   \<and> map_of [(''extended'',
            Inr (Foreign (\<lambda>v. case v of
                   PBool b \<Rightarrow> Inl (OtherError ''decimal.InvalidOperation'' ''[<class 'decimal.InvalidOperation'>]'')
                 | PInt i \<Rightarrow> Inl (OtherError ''decimal.InvalidOperation'' ''[<class 'decimal.InvalidOperation'>]'')
                 | _ \<Rightarrow> Inr (RBool False))))] ''srid'' = None
   \<and> spatial_eq (WKTElement \<lparr>srid = 4326, data = ''POINT(1 1)'', extended = Some False\<rparr>)
       [(''extended'',
         Inr (Foreign (\<lambda>v. case v of
                PBool b \<Rightarrow> Inl (OtherError ''decimal.InvalidOperation'' ''[<class 'decimal.InvalidOperation'>]'')
              | PInt i \<Rightarrow> Inl (OtherError ''decimal.InvalidOperation'' ''[<class 'decimal.InvalidOperation'>]'')
              | _ \<Rightarrow> Inr (RBool False))))]
     = Inl (OtherError ''decimal.InvalidOperation'' ''[<class 'decimal.InvalidOperation'>]'')
   \<and> spatial_ne (WKTElement \<lparr>srid = 4326, data = ''POINT(1 1)'', extended = Some False\<rparr>)
       [(''extended'',
         Inr (Foreign (\<lambda>v. case v of
                PBool b \<Rightarrow> Inl (OtherError ''decimal.InvalidOperation'' ''[<class 'decimal.InvalidOperation'>]'')
              | PInt i \<Rightarrow> Inl (OtherError ''decimal.InvalidOperation'' ''[<class 'decimal.InvalidOperation'>]'')
              | _ \<Rightarrow> Inr (RBool False))))]
     = Inl (OtherError ''decimal.InvalidOperation'' ''[<class 'decimal.InvalidOperation'>]'')"
  by (simp add: WKTElement_init_def spatial_eq_def spatial_ne_def eq_body_def py_and_def
      attr_eq_def getattr_def extended_val_def)

text \<open>
  C10 on objects with plain attributes: one without attributes, one with the \<open>extended\<close>
  of the element only, one with a different \<open>extended\<close> only, one with the \<open>extended\<close>
  and \<open>srid\<close> of the element and no \<open>desc\<close>, and one with no \<open>srid\<close>; and on an object
  whose \<open>extended\<close> is a property that raises.
\<close>

theorem eq_foreign_object_witness:
  "spatial_eq (WKTElement \<lparr>srid = 4326, data = ''POINT(1 1)'', extended = Some False\<rparr>) []
     = Inr (RBool False)
   \<and> spatial_ne (WKTElement \<lparr>srid = 4326, data = ''POINT(1 1)'', extended = Some False\<rparr>) []
     = Inr True
   \<and> spatial_eq (WKTElement \<lparr>srid = 4326, data = ''POINT(1 1)'', extended = Some False\<rparr>)
       [(''extended'', Inr (Plain (PBool False)))] = Inr (RBool False)
   \<and> spatial_ne (WKTElement \<lparr>srid = 4326, data = ''POINT(1 1)'', extended = Some False\<rparr>)
       [(''extended'', Inr (Plain (PBool False)))] = Inr True
   \<and> spatial_eq (WKTElement \<lparr>srid = 4326, data = ''POINT(1 1)'', extended = Some False\<rparr>)
       [(''extended'', Inr (Plain PNone))] = Inr (RBool False)
   \<and> spatial_ne (WKTElement \<lparr>srid = 4326, data = ''POINT(1 1)'', extended = Some False\<rparr>)
       [(''extended'', Inr (Plain PNone))] = Inr True
   \<and> spatial_eq (WKTElement \<lparr>srid = 4326, data = ''POINT(1 1)'', extended = Some False\<rparr>)
       [(''extended'', Inr (Plain (PBool False))), (''srid'', Inr (Plain (PInt 4326)))]
     = Inr (RBool False)
   \<and> spatial_ne (WKTElement \<lparr>srid = 4326, data = ''POINT(1 1)'', extended = Some False\<rparr>)
       [(''extended'', Inr (Plain (PBool False))), (''srid'', Inr (Plain (PInt 4326)))]
     = Inr True
   \<and> spatial_eq (WKTElement \<lparr>srid = 4326, data = ''POINT(1 1)'', extended = Some False\<rparr>)
       [(''extended'', Inl (OtherError ''RuntimeError'' ''boom''))]
     = Inl (OtherError ''RuntimeError'' ''boom'')
   \<and> spatial_eq (WKTElement \<lparr>srid = 4326, data = ''POINT(1 1)'', extended = Some False\<rparr>)
       [(''extended'', Inr (Plain (PBool False))), (''desc'', Inr (Plain (PStr ''POINT(1 1)'')))]
     = Inr (RBool False)
   \<and> spatial_ne (WKTElement \<lparr>srid = 4326, data = ''POINT(1 1)'', extended = Some False\<rparr>)
       [(''extended'', Inr (Plain (PBool False))), (''desc'', Inr (Plain (PStr ''POINT(1 1)'')))]
     = Inr True"
proof -
  let ?a = "WKTElement \<lparr>srid = 4326, data = ''POINT(1 1)'', extended = Some False\<rparr>"
  note ev = getattr_def attr_eq_def extended_val_def
  note t = eq_foreign_object [where a = ?a]
  have c1: "spatial_eq ?a [] = Inr (RBool False) \<and> spatial_ne ?a [] = Inr True"
    using t [where x = "[]", THEN conjunct1] by (simp add: ev)
  have c2: "spatial_eq ?a [(''extended'', Inr (Plain (PBool False)))] = Inr (RBool False)
      \<and> spatial_ne ?a [(''extended'', Inr (Plain (PBool False)))] = Inr True"
    using t [where x = "[(''extended'', Inr (Plain (PBool False)))]",
        THEN conjunct2, THEN conjunct1, rule_format, of "RBool True" True]
    by (simp add: ev)
  have c3: "spatial_eq ?a [(''extended'', Inr (Plain PNone))] = Inr (RBool False)
      \<and> spatial_ne ?a [(''extended'', Inr (Plain PNone))] = Inr True"
    using t [where x = "[(''extended'', Inr (Plain PNone))]",
        THEN conjunct2, THEN conjunct1, rule_format, of "RBool False" False]
    by (simp add: ev)
  have c4: "spatial_eq ?a [(''extended'', Inr (Plain (PBool False))), (''srid'', Inr (Plain (PInt 4326)))]
        = Inr (RBool False)
      \<and> spatial_ne ?a [(''extended'', Inr (Plain (PBool False))), (''srid'', Inr (Plain (PInt 4326)))]
        = Inr True"
    using t [where x = "[(''extended'', Inr (Plain (PBool False))), (''srid'', Inr (Plain (PInt 4326)))]",
        THEN conjunct2, THEN conjunct2, THEN conjunct1, rule_format, of "RBool True" "RBool True" True]
    by (simp add: ev)
  have c5: "spatial_eq ?a [(''extended'', Inl (OtherError ''RuntimeError'' ''boom''))]
        = Inl (OtherError ''RuntimeError'' ''boom'')"
    using t [where x = "[(''extended'', Inl (OtherError ''RuntimeError'' ''boom''))]",
        THEN conjunct2, THEN conjunct2, THEN conjunct2, THEN conjunct1, rule_format,
        of "OtherError ''RuntimeError'' ''boom''"]
    by (simp add: ev)
  have c6: "spatial_eq ?a
        [(''extended'', Inr (Plain (PBool False))), (''desc'', Inr (Plain (PStr ''POINT(1 1)'')))]
        = Inr (RBool False)
      \<and> spatial_ne ?a
        [(''extended'', Inr (Plain (PBool False))), (''desc'', Inr (Plain (PStr ''POINT(1 1)'')))]
        = Inr True"
    using t [where x = "[(''extended'', Inr (Plain (PBool False))),
          (''desc'', Inr (Plain (PStr ''POINT(1 1)'')))]",
        THEN conjunct2, THEN conjunct2, THEN conjunct2, THEN conjunct2, THEN conjunct1]
    by (simp add: ev)
  from c1 c2 c3 c4 c5 c6 show ?thesis by simp
qed

lemma plain_eq_extended_val: "plain_eq (extended_val x) (extended_val y) = (x = y)"
  by (cases x; cases y) (auto simp: extended_val_def)

lemma spatial_eq_elements:
  "spatial_eq a (as_object b)
     = Inr (RBool (extended_of a = extended_of b \<and> srid_of a = srid_of b \<and> desc a = desc b))"
  by (simp add: spatial_eq_def eq_body_def py_and_def attr_eq_def getattr_def as_object_def
      plain_eq_extended_val)

lemma spatial_ne_elements:
  "spatial_ne a (as_object b)
     = Inr (\<not> (extended_of a = extended_of b \<and> srid_of a = srid_of b \<and> desc a = desc b))"
  by (simp add: spatial_ne_def spatial_eq_elements)

lemma wkb_header_hex:
  assumes "unhexlify h = Inr bs"
  shows "wkb_header (Str h) = wkb_header (Buffer k bs)"
  using unhexlify_take [OF assms, of 9] by (simp add: wkb_header_def)

lemma WKBElement_read_data:
  "WKBElement_read hk header d' s x
     = (case WKBElement_read hk header d s x of
          Inl e \<Rightarrow> Inl e
        | Inr ea \<Rightarrow> Inr (ea\<lparr>data := d'\<rparr>))"
  by (simp add: WKBElement_read_def Let_def split: sum.splits)

lemma WKBElement_read_kind:
  "WKBElement_read hk header d s x = Inr ea \<Longrightarrow> WKBElement_read hk' header d s x = Inr ea"
  by (cases header) (simp_all add: WKBElement_read_def index0_def)

lemma WKBElement_init_data:
  "WKBElement_init d s x = Inr ea \<Longrightarrow> data ea = d"
  by (auto simp: WKBElement_init_def WKBElement_read_def Let_def split: sum.splits if_splits)

lemma WKBElement_init_hex:
  assumes "unhexlify h = Inr bs" and "WKBElement_init (Buffer k bs) s x = Inr ea"
  shows "WKBElement_init (Str h) s x = Inr (ea\<lparr>data := Str h\<rparr>)"
proof (cases "s = - 1 \<or> x = None \<or> x = Some True")
  case True
  have hb: "wkb_header (Buffer k bs) = Inr (take 9 bs)" by (simp add: wkb_header_def)
  have hs: "wkb_header (Str h) = Inr (take 9 bs)"
    using wkb_header_hex [OF assms(1), of k] hb by simp
  from assms(2) True have "WKBElement_read k (take 9 bs) (Buffer k bs) s x = Inr ea"
    by (simp add: WKBElement_init_def hb header_kind_def)
  then have "WKBElement_read Bytes (take 9 bs) (Buffer k bs) s x = Inr ea"
    by (rule WKBElement_read_kind)
  then have "WKBElement_read Bytes (take 9 bs) (Str h) s x = Inr (ea\<lparr>data := Str h\<rparr>)"
    by (simp add: WKBElement_read_data [of Bytes "take 9 bs" "Str h" s x "Buffer k bs"])
  with True show ?thesis
    by (simp add: WKBElement_init_def hs header_kind_def)
next
  case False
  with assms(2) show ?thesis
    by (auto simp: WKBElement_init_def)
qed

text \<open>
  C4. Two spatial elements are equal exactly when their \<open>extended\<close> flags, their SRIDs and
  their descriptions are equal, and \<open>!=\<close> is the negation. The description of a text
  element and of a raster element is its payload, that of a binary element the lowercase
  hexadecimal text of its payload. When \<open>h\<close> is hexadecimal text of the bytes \<open>bs\<close>, in any
  letter case, and \<open>WKBElement\<close> is built from \<open>bs\<close>, then it is built from \<open>h\<close> with the same
  arguments too, with the same SRID and flag; both have the description \<open>hexlify bs\<close>,
  which is \<open>h\<close> in lowercase, two digits \<open>0\<close> to \<open>9\<close>, \<open>a\<close> to \<open>f\<close> for each byte, and
  which reads back as \<open>bs\<close>; and the two elements are equal in both directions.
\<close>

theorem spatial_eq_iff:
  "spatial_eq a (as_object b)
     = Inr (RBool (extended_of a = extended_of b \<and> srid_of a = srid_of b \<and> desc a = desc b))
   \<and> spatial_ne a (as_object b)
     = Inr (\<not> (extended_of a = extended_of b \<and> srid_of a = srid_of b \<and> desc a = desc b))
   \<and> desc (WKTElement t) = data t
   \<and> desc (RasterElement t) = data t
   \<and> desc (WKBElement \<lparr>srid = s', data = Str h', extended = x'\<rparr>) = py_lower h'
   \<and> desc (WKBElement \<lparr>srid = s', data = Buffer k bs', extended = x'\<rparr>) = hexlify bs'
   \<and> (\<forall>h bs s x ea.
        unhexlify h = Inr bs \<and> WKBElement_init (Buffer k bs) s x = Inr ea \<longrightarrow>
          WKBElement_init (Str h) s x = Inr (ea\<lparr>data := Str h\<rparr>)
          \<and> desc (WKBElement ea) = hexlify bs
          \<and> desc (WKBElement (ea\<lparr>data := Str h\<rparr>)) = hexlify bs
          \<and> hexlify bs = py_lower h
          \<and> length (hexlify bs) = 2 * length bs
          \<and> set (hexlify bs) \<subseteq> set ''0123456789abcdef''
          \<and> unhexlify (hexlify bs) = Inr bs
          \<and> spatial_eq (WKBElement ea) (as_object (WKBElement (ea\<lparr>data := Str h\<rparr>)))
              = Inr (RBool True)
          \<and> spatial_eq (WKBElement (ea\<lparr>data := Str h\<rparr>)) (as_object (WKBElement ea))
              = Inr (RBool True))"
proof (intro conjI allI impI)
  show "spatial_eq a (as_object b)
     = Inr (RBool (extended_of a = extended_of b \<and> srid_of a = srid_of b \<and> desc a = desc b))"
    by (rule spatial_eq_elements)
  show "spatial_ne a (as_object b)
     = Inr (\<not> (extended_of a = extended_of b \<and> srid_of a = srid_of b \<and> desc a = desc b))"
    by (rule spatial_ne_elements)
  show "desc (WKTElement t) = data t" by (simp add: WKT_desc_def)
  show "desc (RasterElement t) = data t" by (simp add: Raster_desc_def)
  show "desc (WKBElement \<lparr>srid = s', data = Str h', extended = x'\<rparr>) = py_lower h'"
    by (simp add: WKB_desc_def wkb_to_hex_def)
  show "desc (WKBElement \<lparr>srid = s', data = Buffer k bs', extended = x'\<rparr>) = hexlify bs'"
    by (simp add: WKB_desc_def wkb_to_hex_def py_lower_hexlify)
next
  fix h bs s x ea
  assume a: "unhexlify h = Inr bs \<and> WKBElement_init (Buffer k bs) s x = Inr ea"
  then have u: "unhexlify h = Inr bs" and i: "WKBElement_init (Buffer k bs) s x = Inr ea"
    by simp_all
  show "WKBElement_init (Str h) s x = Inr (ea\<lparr>data := Str h\<rparr>)"
    using u i by (rule WKBElement_init_hex)
  have d: "data ea = Buffer k bs"
    using i by (rule WKBElement_init_data)
  show d1: "desc (WKBElement ea) = hexlify bs"
    using d by (simp add: WKB_desc_def wkb_to_hex_def py_lower_hexlify)
  show d2: "desc (WKBElement (ea\<lparr>data := Str h\<rparr>)) = hexlify bs"
    using unhexlify_lower [OF u] by (simp add: WKB_desc_def wkb_to_hex_def)
  show "hexlify bs = py_lower h"
    using unhexlify_lower [OF u] by simp
  show "length (hexlify bs) = 2 * length bs"
    by (rule length_hexlify)
  show "set (hexlify bs) \<subseteq> set ''0123456789abcdef''"
    by (rule hexlify_digits)
  show "unhexlify (hexlify bs) = Inr bs"
    by (rule unhexlify_hexlify)
  show "spatial_eq (WKBElement ea) (as_object (WKBElement (ea\<lparr>data := Str h\<rparr>))) = Inr (RBool True)"
    and "spatial_eq (WKBElement (ea\<lparr>data := Str h\<rparr>)) (as_object (WKBElement ea)) = Inr (RBool True)"
    unfolding spatial_eq_elements d1 d2 by simp_all
qed

text \<open>
  C4 on an EWKB point header in bytes and in hexadecimal text with capital letters, with
  the description that both have.
\<close>

theorem spatial_eq_iff_witness:
  "WKBElement_init (Buffer Bytes [1, 1, 0, 0, 32, 230, 16, 0, 0, 10]) (- 1) None
     = Inr \<lparr>srid = 4326, data = Buffer Bytes [1, 1, 0, 0, 32, 230, 16, 0, 0, 10], extended = Some True\<rparr>
   \<and> WKBElement_init (Str ''0101000020E61000000A'') (- 1) None
     = Inr \<lparr>srid = 4326, data = Str ''0101000020E61000000A'', extended = Some True\<rparr>
   \<and> desc (WKBElement \<lparr>srid = 4326, data = Buffer Bytes [1, 1, 0, 0, 32, 230, 16, 0, 0, 10], extended = Some True\<rparr>)
     = ''0101000020e61000000a''
   \<and> desc (WKBElement \<lparr>srid = 4326, data = Str ''0101000020E61000000A'', extended = Some True\<rparr>)
     = ''0101000020e61000000a''
   \<and> spatial_eq
       (WKBElement \<lparr>srid = 4326, data = Buffer Bytes [1, 1, 0, 0, 32, 230, 16, 0, 0, 10], extended = Some True\<rparr>)
       (as_object
         (WKBElement \<lparr>srid = 4326, data = Str ''0101000020E61000000A'', extended = Some True\<rparr>))
     = Inr (RBool True)"
proof -
  have u: "unhexlify ''0101000020E61000000A'' = Inr [1, 1, 0, 0, 32, 230, 16, 0, 0, 10]"
    by (simp add: unhexlify_def hex_val_def)
  have i: "WKBElement_init (Buffer Bytes [1, 1, 0, 0, 32, 230, 16, 0, 0, 10]) (- 1) None
     = Inr \<lparr>srid = 4326, data = Buffer Bytes [1, 1, 0, 0, 32, 230, 16, 0, 0, 10], extended = Some True\<rparr>"
    by (simp add: WKBElement_init_def wkb_header_def WKBElement_read_def index0_def slice_def
        wkb_type_of_def unpack_uint_def Let_def)
  have hx: "hexlify [1, 1, 0, 0, 32, 230, 16, 0, 0, 10] = ''0101000020e61000000a''"
    by (simp add: hex_char_def char_of_eq_iff)
  from spatial_eq_iff [THEN conjunct2, THEN conjunct2, THEN conjunct2, THEN conjunct2,
      THEN conjunct2, THEN conjunct2, rule_format, OF conjI, OF u i] i hx
  show ?thesis by simp
qed

section \<open>Raster elements\<close>

lemma str_nat_61: "str_nat 61 = ''61''"
  by (simp add: str_nat.simps digit_char_def char_of_eq_iff)

lemma str_nat_122: "str_nat (61 * 2) = ''122''"
  by (simp add: str_nat.simps digit_char_def char_of_eq_iff)

lemma slice4:
  assumes "i + 4 \<le> length xs"
  shows "slice xs i (i + 4) = [xs ! i, xs ! (i + 1), xs ! (i + 2), xs ! (i + 3)]"
proof -
  have d0: "drop i xs = xs ! i # drop (Suc i) xs"
    using assms by (intro Cons_nth_drop_Suc [symmetric]) simp
  have d1: "drop (Suc i) xs = xs ! (i + 1) # drop (Suc (Suc i)) xs"
    using assms Cons_nth_drop_Suc [of "Suc i" xs] by simp
  have d2: "drop (Suc (Suc i)) xs = xs ! (i + 2) # drop (Suc (Suc (Suc i))) xs"
    using assms Cons_nth_drop_Suc [of "Suc (Suc i)" xs] by simp
  have d3: "drop (Suc (Suc (Suc i))) xs = xs ! (i + 3) # drop (Suc (Suc (Suc (Suc i)))) xs"
    using assms Cons_nth_drop_Suc [of "Suc (Suc (Suc i))" xs] by (simp add: numeral_3_eq_3)
  have "take 4 (drop i xs) = [xs ! i, xs ! (i + 1), xs ! (i + 2), xs ! (i + 3)]"
    unfolding d0 d1 d2 d3 by (simp add: numeral_Bit0)
  then show ?thesis by (simp add: slice_def)
qed

lemma sint_general:
  fixes u M :: int
  assumes "0 \<le> u" "u < 2 * M"
  shows "(u + M) mod (2 * M) - M = (if M \<le> u then u - 2 * M else u)"
proof (cases "M \<le> u")
  case True
  have "(u + M) mod (2 * M) = (u - M + 2 * M) mod (2 * M)" by (simp add: algebra_simps)
  also have "\<dots> = (u - M) mod (2 * M)" by (simp only: mod_add_self2)
  also have "\<dots> = u - M" using True assms by (intro mod_pos_pos_trivial) auto
  finally show ?thesis using True by simp
next
  case False
  then have "(u + M) mod (2 * M) = u + M"
    using assms by (intro mod_pos_pos_trivial) auto
  then show ?thesis using False by simp
qed

lemma sint32_of_uint:
  assumes "0 \<le> u" "u < 4294967296"
  shows "sint (word_of_int u :: 32 word) = (if 2147483648 \<le> u then u - 4294967296 else u)"
proof -
  have a: "(2::int) ^ (LENGTH(32) - 1) = 2147483648" by simp
  have b: "(2::int) ^ LENGTH(32) = 2 * 2147483648" by simp
  have c: "u < 2 * 2147483648" using assms(2) by simp
  have "sint (word_of_int u :: 32 word) = (u + 2147483648) mod (2 * 2147483648) - 2147483648"
    unfolding int_word_sint a b ..
  also have "\<dots> = (if 2147483648 \<le> u then u - 2 * 2147483648 else u)"
    using assms(1) c by (rule sint_general)
  finally show ?thesis by simp
qed

lemma unpack_sint4:
  "unpack_sint little [a, b, c, d]
     = sint (word_of_int (if little
          then uint a + 256 * uint b + 65536 * uint c + 16777216 * uint d
          else uint d + 256 * uint c + 65536 * uint b + 16777216 * uint a) :: 32 word)"
proof -
  let ?u = "unpack_uint little [a, b, c, d]"
  have r: "0 \<le> ?u \<and> ?u < 4294967296" by (rule unpack_uint_range) simp
  have e: "?u = (if little
          then uint a + 256 * uint b + 65536 * uint c + 16777216 * uint d
          else uint d + 256 * uint c + 65536 * uint b + 16777216 * uint a)"
    by (simp add: unpack_uint_def)
  have "unpack_sint little [a, b, c, d] = (if 2147483648 \<le> ?u then ?u - 4294967296 else ?u)"
    by (simp add: unpack_sint_def Let_def)
  also have "\<dots> = sint (word_of_int ?u :: 32 word)"
    using r by (simp add: sint32_of_uint)
  finally show ?thesis unfolding e .
qed

lemma raster_parse_Inr:
  assumes "raster_parse k bin stored = Inr e"
  shows "bin \<noteq> [] \<and> (bin ! 0 = 0 \<or> bin ! 0 = 1) \<and> 57 \<le> length bin
       \<and> e = \<lparr>srid = unpack_sint (bin ! 0 = 1) (slice bin 53 57), data = stored, extended = Some True\<rparr>"
proof -
  from assms obtain b where b: "index0 k bin = Inr b"
    by (auto simp: raster_parse_def split: sum.splits)
  then have bin: "bin \<noteq> []" "b = bin ! 0"
    by (auto simp: index0_def split: list.splits)
  from assms b have o: "b = 0 \<or> b = 1"
    by (auto simp: raster_parse_def split: if_splits)
  from assms b o have l: "length (slice bin 53 57) = 4"
    by (auto simp: raster_parse_def Let_def split: if_splits)
  then have l57: "57 \<le> length bin" by (simp add: slice_def)
  from assms b o l have "e = \<lparr>srid = unpack_sint (b = 1) (slice bin 53 57), data = stored, extended = Some True\<rparr>"
    by (auto simp: raster_parse_def Let_def split: if_splits)
  with bin o l57 show ?thesis by simp
qed

text \<open>
  C3, as amended. A \<open>RasterElement\<close> that is constructed has \<open>extended = True\<close>; its header
  (the input bytes, or the bytes that the first 122 characters of a text input decode to)
  has at least 61 bytes and byte order 0 or 1, and \<open>srid\<close> is the signed 32-bit integer of
  the bytes 53 to 56 in that byte order. For a binary input \<open>data\<close> is the lowercase
  hexadecimal text of the input; for a text input \<open>data\<close> is the input itself, unchanged.
\<close>

theorem RasterElement_attributes:
  assumes "RasterElement_init d = Inr e"
  shows "extended e = Some True
       \<and> (\<exists>bin. (case d of Str s \<Rightarrow> unhexlify (take 122 s) | Buffer k b \<Rightarrow> Inr b) = Inr bin
            \<and> 61 \<le> length bin
            \<and> (bin ! 0 = 0 \<or> bin ! 0 = 1)
            \<and> srid e = sint (word_of_int
                 (if bin ! 0 = 1
                    then uint (bin ! 53) + 256 * uint (bin ! 54) + 65536 * uint (bin ! 55)
                         + 16777216 * uint (bin ! 56)
                  else uint (bin ! 56) + 256 * uint (bin ! 55) + 65536 * uint (bin ! 54)
                         + 16777216 * uint (bin ! 53)) :: 32 word))
       \<and> (case d of
            Str s \<Rightarrow> data e = s \<and> 122 \<le> length s
          | Buffer k b \<Rightarrow> data e = hexlify b \<and> py_lower (data e) = data e \<and> unhexlify (data e) = Inr b)"
proof (cases d)
  case (Str s)
  from assms Str have len: "122 \<le> length s"
    by (auto simp: RasterElement_init_def split: if_splits)
  with assms Str obtain bin where u: "unhexlify (take 122 s) = Inr bin"
    and p: "raster_parse Bytes bin s = Inr e"
    by (auto simp: RasterElement_init_def split: if_splits sum.splits py_error.splits)
  have lb: "length bin = 61"
    using unhexlify_lower [OF u] len by simp
  note r = raster_parse_Inr [OF p]
  have sl: "slice bin 53 57 = [bin ! 53, bin ! 54, bin ! 55, bin ! 56]"
    using slice4 [of 53 bin] lb by simp
  have "srid e = unpack_sint (bin ! 0 = 1) [bin ! 53, bin ! 54, bin ! 55, bin ! 56]"
    using r sl by simp
  then show ?thesis
    using r u lb len Str by (auto simp: unpack_sint4)
next
  case (Buffer k b)
  from assms Buffer have len: "61 \<le> length b" and p: "raster_parse k b (hexlify b) = Inr e"
    by (auto simp: RasterElement_init_def split: if_splits)
  note r = raster_parse_Inr [OF p]
  have sl: "slice b 53 57 = [b ! 53, b ! 54, b ! 55, b ! 56]"
    using slice4 [of 53 b] len by simp
  have "srid e = unpack_sint (b ! 0 = 1) [b ! 53, b ! 54, b ! 55, b ! 56]"
    using r sl by simp
  then show ?thesis
    using r len Buffer by (auto simp: unpack_sint4 py_lower_hexlify unhexlify_hexlify)
qed

text \<open>
  C3 on a little-endian header with SRID 4326, width 5 and height 6, given as bytes.
\<close>

theorem RasterElement_attributes_witness:
  "RasterElement_init (Buffer Bytes [1, 0, 0, 1, 0, 0, 0, 0, 0, 0, 0, 0, 0, 0, 0, 0, 0, 0, 0, 0, 0, 0, 0, 0,
        0, 0, 0, 0, 0, 0, 0, 0, 0, 0, 0, 0, 0, 0, 0, 0, 0, 0, 0, 0, 0, 0, 0, 0,
        0, 0, 0, 0, 0, 230, 16, 0, 0, 5, 0, 6, 0])
     = Inr \<lparr>srid = 4326, data = ''0100000100000000000000000000000000000000000000000000000000000000000000000000000000000000000000000000000000e610000005000600'', extended = Some True\<rparr>
   \<and> sint (word_of_int (uint (230 :: byte) + 256 * uint (16 :: byte) + 65536 * uint (0 :: byte)
            + 16777216 * uint (0 :: byte)) :: 32 word) = 4326
   \<and> unhexlify ''0100000100000000000000000000000000000000000000000000000000000000000000000000000000000000000000000000000000e610000005000600'' = Inr [1, 0, 0, 1, 0, 0, 0, 0, 0, 0, 0, 0, 0, 0, 0, 0, 0, 0, 0, 0, 0, 0, 0, 0,
         0, 0, 0, 0, 0, 0, 0, 0, 0, 0, 0, 0, 0, 0, 0, 0, 0, 0, 0, 0, 0, 0, 0, 0,
         0, 0, 0, 0, 0, 230, 16, 0, 0, 5, 0, 6, 0]"
proof -
  have i: "RasterElement_init (Buffer Bytes [1, 0, 0, 1, 0, 0, 0, 0, 0, 0, 0, 0, 0, 0, 0, 0, 0, 0, 0, 0, 0, 0, 0, 0,
        0, 0, 0, 0, 0, 0, 0, 0, 0, 0, 0, 0, 0, 0, 0, 0, 0, 0, 0, 0, 0, 0, 0, 0,
        0, 0, 0, 0, 0, 230, 16, 0, 0, 5, 0, 6, 0])
     = Inr \<lparr>srid = 4326, data = ''0100000100000000000000000000000000000000000000000000000000000000000000000000000000000000000000000000000000e610000005000600'', extended = Some True\<rparr>"
    by (simp add: RasterElement_init_def raster_parse_def index0_def slice_def Let_def
        unpack_sint_def unpack_uint_def hex_char_def char_of_eq_iff)
  from RasterElement_attributes [OF i]
  have u: "unhexlify ''0100000100000000000000000000000000000000000000000000000000000000000000000000000000000000000000000000000000e610000005000600'' = Inr [1, 0, 0, 1, 0, 0, 0, 0, 0, 0, 0, 0, 0, 0, 0, 0, 0, 0, 0, 0, 0, 0, 0, 0,
        0, 0, 0, 0, 0, 0, 0, 0, 0, 0, 0, 0, 0, 0, 0, 0, 0, 0, 0, 0, 0, 0, 0, 0,
        0, 0, 0, 0, 0, 230, 16, 0, 0, 5, 0, 6, 0]"
    unfolding pydata.case SpatialElement.select_convs by (elim conjE)
  have s: "sint (word_of_int (uint (230 :: byte) + 256 * uint (16 :: byte) + 65536 * uint (0 :: byte)
            + 16777216 * uint (0 :: byte)) :: 32 word) = 4326"
    by simp
  from i s u show ?thesis by (intro conjI)
qed

text \<open>
  C3 as stated fails for a text input with capital letters: the same header written as
  \<open>...E6100000...\<close> is accepted and kept as it is, so \<open>data\<close> is not lowercase.
\<close>

theorem RasterElement_attributes_counterexample:
  "RasterElement_init (Str ''0100000100000000000000000000000000000000000000000000000000000000000000000000000000000000000000000000000000E610000005000600'')
     = Inr \<lparr>srid = 4326, data = ''0100000100000000000000000000000000000000000000000000000000000000000000000000000000000000000000000000000000E610000005000600'', extended = Some True\<rparr>
   \<and> py_lower ''0100000100000000000000000000000000000000000000000000000000000000000000000000000000000000000000000000000000E610000005000600'' \<noteq> ''0100000100000000000000000000000000000000000000000000000000000000000000000000000000000000000000000000000000E610000005000600''"
  by (simp add: RasterElement_init_def raster_parse_def index0_def slice_def Let_def
        unpack_sint_def unpack_uint_def unhexlify_def hex_val_def
        py_lower_def lower_char_def char_of_eq_iff)

text \<open>
  C5. A binary input of fewer than 61 bytes is refused with the \<open>ValueError\<close> that names
  the number of bytes and the 61 needed; a binary input of at least 61 bytes whose first
  byte is neither 0 nor 1 is refused with the \<open>ValueError\<close> that names the byte order; so
  every binary input whose first byte is neither 0 nor 1 is refused with a \<open>ValueError\<close>.
\<close>

theorem RasterElement_malformed:
  "(length bs < 61 \<longrightarrow>
      RasterElement_init (Buffer k bs)
        = Inl (ValueError (''Raster binary data too short: '' @ str_nat (length bs)
                            @ '' bytes, need at least 61'')))
   \<and> (61 \<le> length bs \<and> hd bs \<noteq> 0 \<and> hd bs \<noteq> 1 \<longrightarrow>
      RasterElement_init (Buffer k bs)
        = Inl (ValueError (''Invalid byte order in raster: '' @ str_nat (unat (hd bs))
                            @ '', must be 0 or 1'')))
   \<and> (bs \<noteq> [] \<and> hd bs \<noteq> 0 \<and> hd bs \<noteq> 1 \<longrightarrow>
      (\<exists>m. RasterElement_init (Buffer k bs) = Inl (ValueError m)))"
proof -
  have short: "RasterElement_init (Buffer k bs)
        = Inl (ValueError (''Raster binary data too short: '' @ str_nat (length bs)
                            @ '' bytes, need at least 61''))" if "length bs < 61"
    using that by (simp add: RasterElement_init_def str_nat_61)
  have order: "RasterElement_init (Buffer k bs)
        = Inl (ValueError (''Invalid byte order in raster: '' @ str_nat (unat (hd bs))
                            @ '', must be 0 or 1''))"
    if "61 \<le> length bs" "hd bs \<noteq> 0" "hd bs \<noteq> 1"
  proof -
    from that(1) obtain b r where bs: "bs = b # r" by (cases bs) auto
    with that show ?thesis
      by (simp add: RasterElement_init_def raster_parse_def index0_def)
  qed
  have any: "\<exists>m. RasterElement_init (Buffer k bs) = Inl (ValueError m)"
    if "hd bs \<noteq> 0" "hd bs \<noteq> 1"
  proof (cases "length bs < 61")
    case True
    then show ?thesis using short by blast
  next
    case False
    then show ?thesis using order that by force
  qed
  from short order any show ?thesis by blast
qed

text \<open>
  C5 on 40 zero bytes and on a 61-byte header whose first byte is 2.
\<close>

theorem RasterElement_malformed_witness:
  "RasterElement_init (Buffer Bytes [0, 0, 0, 0, 0, 0, 0, 0, 0, 0, 0, 0, 0, 0, 0, 0, 0, 0, 0, 0, 0, 0, 0, 0,
        0, 0, 0, 0, 0, 0, 0, 0, 0, 0, 0, 0, 0, 0, 0, 0])
     = Inl (ValueError ''Raster binary data too short: 40 bytes, need at least 61'')
   \<and> RasterElement_init (Buffer Bytes [2, 0, 0, 1, 0, 0, 0, 0, 0, 0, 0, 0, 0, 0, 0, 0, 0, 0, 0, 0, 0, 0, 0, 0,
         0, 0, 0, 0, 0, 0, 0, 0, 0, 0, 0, 0, 0, 0, 0, 0, 0, 0, 0, 0, 0, 0, 0, 0,
         0, 0, 0, 0, 0, 230, 16, 0, 0, 5, 0, 6, 0])
     = Inl (ValueError ''Invalid byte order in raster: 2, must be 0 or 1'')"
proof -
  have a: "RasterElement_init (Buffer Bytes [0, 0, 0, 0, 0, 0, 0, 0, 0, 0, 0, 0, 0, 0, 0, 0, 0, 0, 0, 0, 0, 0, 0, 0,
        0, 0, 0, 0, 0, 0, 0, 0, 0, 0, 0, 0, 0, 0, 0, 0])
     = Inl (ValueError ''Raster binary data too short: 40 bytes, need at least 61'')"
    using RasterElement_malformed [of "[0, 0, 0, 0, 0, 0, 0, 0, 0, 0, 0, 0, 0, 0, 0, 0, 0, 0, 0, 0, 0, 0, 0, 0,
          0, 0, 0, 0, 0, 0, 0, 0, 0, 0, 0, 0, 0, 0, 0, 0]"]
    by (simp add: str_nat.simps digit_char_def char_of_eq_iff)
  have b: "RasterElement_init (Buffer Bytes [2, 0, 0, 1, 0, 0, 0, 0, 0, 0, 0, 0, 0, 0, 0, 0, 0, 0, 0, 0, 0, 0, 0, 0,
        0, 0, 0, 0, 0, 0, 0, 0, 0, 0, 0, 0, 0, 0, 0, 0, 0, 0, 0, 0, 0, 0, 0, 0,
        0, 0, 0, 0, 0, 230, 16, 0, 0, 5, 0, 6, 0])
     = Inl (ValueError ''Invalid byte order in raster: 2, must be 0 or 1'')"
    using RasterElement_malformed [of "[2, 0, 0, 1, 0, 0, 0, 0, 0, 0, 0, 0, 0, 0, 0, 0, 0, 0, 0, 0, 0, 0, 0, 0,
          0, 0, 0, 0, 0, 0, 0, 0, 0, 0, 0, 0, 0, 0, 0, 0, 0, 0, 0, 0, 0, 0, 0, 0,
          0, 0, 0, 0, 0, 230, 16, 0, 0, 5, 0, 6, 0]"]
    by (simp add: str_nat.simps digit_char_def char_of_eq_iff)
  from a b show ?thesis by simp
qed

lemma isl_raster_hex_short: "length s < 122 \<Longrightarrow> isl (RasterElement_init (Str s))"
  by (simp add: RasterElement_init_def)

lemma isl_raster_hex_bad:
  "isl (unhexlify (take 122 s)) \<Longrightarrow> isl (RasterElement_init (Str s))"
  by (auto simp: RasterElement_init_def sum.isl_def split: py_error.splits)

text \<open>
  C9, as amended. Construction checks the header it reads and nothing else.
  \<open>RasterElement\<close> raises for a text input of fewer than 122 characters or whose first 122
  characters do not decode, and for a binary input of fewer than 61 bytes. \<open>WKBElement\<close>
  raises, when it reads the header (\<open>srid = -1\<close>, or \<open>extended\<close> not \<open>False\<close>), for a text
  input whose first 18 characters do not decode and for an empty buffer; with an explicit
  SRID and \<open>extended=False\<close> it reads nothing and accepts any payload. Whatever follows
  the first 122 characters of a text raster is not looked at. The description decodes
  nothing either: it is the payload of a text or raster element, the lowercase of the text
  of a binary element, and the hexadecimal text of its buffer.
\<close>

theorem construction_checks_header_only:
  "(length s < 122 \<or> isl (unhexlify (take 122 s)) \<longrightarrow> isl (RasterElement_init (Str s)))
   \<and> (length b < 61 \<longrightarrow> isl (RasterElement_init (Buffer k b)))
   \<and> ((sr = - 1 \<or> ext \<noteq> Some False) \<and> unhexlify (take 18 s) = Inl err \<longrightarrow>
        WKBElement_init (Str s) sr ext = Inl err)
   \<and> ((sr = - 1 \<or> ext \<noteq> Some False) \<and> d = Buffer k [] \<longrightarrow>
        WKBElement_init d sr ext = Inl (IndexError (index_error k)))
   \<and> (sr \<noteq> - 1 \<longrightarrow>
        WKBElement_init d sr (Some False) = Inr \<lparr>srid = sr, data = d, extended = Some False\<rparr>)
   \<and> (\<forall>e. RasterElement_init (Str s) = Inr e \<longrightarrow>
        RasterElement_init (Str (s @ t)) = Inr (e\<lparr>data := s @ t\<rparr>))
   \<and> WKB_desc \<lparr>srid = sr, data = Str s, extended = ext\<rparr> = py_lower s
   \<and> WKB_desc \<lparr>srid = sr, data = Buffer k b, extended = ext\<rparr> = hexlify b
   \<and> WKT_desc w = data w
   \<and> Raster_desc w = data w"
proof (intro conjI impI allI)
  show "WKB_desc \<lparr>srid = sr, data = Str s, extended = ext\<rparr> = py_lower s"
    by (simp add: WKB_desc_def wkb_to_hex_def)
  show "WKB_desc \<lparr>srid = sr, data = Buffer k b, extended = ext\<rparr> = hexlify b"
    by (simp add: WKB_desc_def wkb_to_hex_def py_lower_hexlify)
  show "WKT_desc w = data w" by (simp add: WKT_desc_def)
  show "Raster_desc w = data w" by (simp add: Raster_desc_def)
next
  assume "length s < 122 \<or> isl (unhexlify (take 122 s))"
  then show "isl (RasterElement_init (Str s))"
    using isl_raster_hex_short isl_raster_hex_bad by blast
next
  assume "length b < 61"
  then show "isl (RasterElement_init (Buffer k b))"
    by (simp add: RasterElement_init_def)
next
  assume "(sr = - 1 \<or> ext \<noteq> Some False) \<and> unhexlify (take 18 s) = Inl err"
  then show "WKBElement_init (Str s) sr ext = Inl err"
    by (cases ext) (auto simp: WKBElement_init_def wkb_header_def)
next
  assume "(sr = - 1 \<or> ext \<noteq> Some False) \<and> d = Buffer k []"
  then show "WKBElement_init d sr ext = Inl (IndexError (index_error k))"
    by (cases ext)
      (auto simp: WKBElement_init_def wkb_header_def header_kind_def WKBElement_read_def index0_def)
next
  assume "sr \<noteq> - 1"
  then show "WKBElement_init d sr (Some False) = Inr \<lparr>srid = sr, data = d, extended = Some False\<rparr>"
    by (simp add: WKBElement_init_def)
next
  fix e
  assume a: "RasterElement_init (Str s) = Inr e"
  then have len: "122 \<le> length s"
    by (auto simp: RasterElement_init_def split: if_splits)
  then have tk: "take 122 (s @ t) = take 122 s" by simp
  from a len obtain bin where u: "unhexlify (take 122 s) = Inr bin"
    and p: "raster_parse Bytes bin s = Inr e"
    by (auto simp: RasterElement_init_def split: if_splits sum.splits py_error.splits)
  have "raster_parse Bytes bin (s @ t) = Inr (e\<lparr>data := s @ t\<rparr>)"
    using p by (auto simp: raster_parse_def Let_def split: sum.splits if_splits)
  then show "RasterElement_init (Str (s @ t)) = Inr (e\<lparr>data := s @ t\<rparr>)"
    using len u by (simp add: RasterElement_init_def tk del: take_append)
qed

text \<open>
  The cases of C9 on the text \<open>zz\<close>, on short bytes, on an empty \<open>bytes\<close> and an empty
  \<open>memoryview\<close>, and on a valid raster header followed by \<open>zz\<close>.
\<close>

theorem construction_checks_header_only_witness:
  "isl (RasterElement_init (Str ''zz''))
   \<and> isl (RasterElement_init (Buffer Bytes [1, 2]))
   \<and> WKBElement_init (Str ''zz'') (- 1) None = Inl (BinasciiError ''Non-hexadecimal digit found'')
   \<and> WKBElement_init (Buffer Bytes []) (- 1) None = Inl (IndexError ''index out of range'')
   \<and> WKBElement_init (Buffer Memoryview []) (- 1) None
       = Inl (IndexError ''index out of bounds on dimension 1'')
   \<and> WKBElement_init (Str ''zz'') 4326 (Some False)
       = Inr \<lparr>srid = 4326, data = Str ''zz'', extended = Some False\<rparr>
   \<and> RasterElement_init (Str (''0100000100000000000000000000000000000000000000000000000000000000000000000000000000000000000000000000000000E610000005000600'' @ ''zz''))
       = Inr \<lparr>srid = 4326, data = ''0100000100000000000000000000000000000000000000000000000000000000000000000000000000000000000000000000000000E610000005000600'' @ ''zz'', extended = Some True\<rparr>"
proof -
  have u: "unhexlify (take 18 ''zz'') = Inl (BinasciiError ''Non-hexadecimal digit found'')"
    by (simp add: unhexlify_def hex_val_def)
  have r: "RasterElement_init (Str ''0100000100000000000000000000000000000000000000000000000000000000000000000000000000000000000000000000000000E610000005000600'')
     = Inr \<lparr>srid = 4326, data = ''0100000100000000000000000000000000000000000000000000000000000000000000000000000000000000000000000000000000E610000005000600'', extended = Some True\<rparr>"
    by (simp add: RasterElement_init_def raster_parse_def index0_def slice_def Let_def
        unpack_sint_def unpack_uint_def unhexlify_def hex_val_def)
  show ?thesis
    using construction_checks_header_only
      [where s = "''zz''" and b = "[1, 2]" and k = Bytes and sr = "- 1" and ext = None
        and err = "BinasciiError ''Non-hexadecimal digit found''" and d = "Buffer Bytes []"
        and t = "''zz''"]
      construction_checks_header_only
      [where s = "''zz''" and b = "[1, 2]" and k = Memoryview and sr = "- 1" and ext = None
        and err = "BinasciiError ''Non-hexadecimal digit found''" and d = "Buffer Memoryview []"
        and t = "''zz''"]
      construction_checks_header_only
      [where s = "''0100000100000000000000000000000000000000000000000000000000000000000000000000000000000000000000000000000000E610000005000600''"
        and b = "[1, 2]" and k = Bytes and sr = 4326 and ext = "Some False" and err = AttributeError
        and d = "Str ''zz''" and t = "''zz''"]
      u r
    by simp
qed

text \<open>
  C9 as stated fails: \<open>WKBElement("zz", srid=4326, extended=False)\<close> is constructed although
  \<open>zz\<close> is no hexadecimal text, and its description is \<open>zz\<close>.
\<close>

theorem construction_checks_header_only_counterexample:
  "WKBElement_init (Str ''zz'') 4326 (Some False)
       = Inr \<lparr>srid = 4326, data = Str ''zz'', extended = Some False\<rparr>
   \<and> unhexlify ''zz'' = Inl (BinasciiError ''Non-hexadecimal digit found'')
   \<and> WKB_desc \<lparr>srid = 4326, data = Str ''zz'', extended = Some False\<rparr> = ''zz''"
  by (simp add: WKBElement_init_def unhexlify_def hex_val_def WKB_desc_def wkb_to_hex_def
      py_lower_def lower_char_def)

section \<open>Binary geometries\<close>

lemma wkb_type_of_range:
  "0 \<le> wkb_type_of little ty \<and> wkb_type_of little ty < 4294967296"
  using unpack_uint_range [of ty little] by (simp add: wkb_type_of_def)

lemma wkb_head_bytes:
  "length ty = 4 \<Longrightarrow> wkb_head (Buffer k (ob # ty @ rest)) = Inr (ob, ty)"
  by (simp add: wkb_head_def index0_def slice_def)

lemma wkb_header_bytes9:
  "length ty = 4 \<Longrightarrow> length sb = 4 \<Longrightarrow> wkb_header (Buffer k (ob # ty @ sb @ rest)) = Inr (ob # ty @ sb)"
  by (simp add: wkb_header_def)

lemma WKBElement_read_explicit:
  "sr \<noteq> - 1 \<Longrightarrow> WKBElement_read hk (ob # r) d sr (Some x) = Inr \<lparr>srid = sr, data = d, extended = Some x\<rparr>"
  by (simp add: WKBElement_read_def index0_def Let_def)

lemma WKBElement_init_explicit:
  assumes "sr \<noteq> - 1" "wkb_header d = Inr (ob # r)"
  shows "WKBElement_init d sr (Some x) = Inr \<lparr>srid = sr, data = d, extended = Some x\<rparr>"
  using assms by (cases x) (simp_all add: WKBElement_init_def WKBElement_read_explicit)

lemma as_ewkb_bytes:
  assumes "length ty = 4" "0 \<le> s" "s < 4294967296" "x \<noteq> Some True"
  shows "as_ewkb \<lparr>srid = s, data = Buffer k (ob # ty @ rest), extended = x\<rparr>
           = Inr \<lparr>srid = s,
                  data = Buffer Memoryview
                           (ob # uint_bytes (ob \<noteq> 0) (unpack_uint (ob \<noteq> 0) ty OR 536870912)
                              @ uint_bytes (ob \<noteq> 0) s @ rest),
                  extended = Some True\<rparr>"
proof -
  let ?l = "ob \<noteq> 0"
  let ?t = "unpack_uint ?l ty"
  have r: "0 \<le> ?t \<and> ?t < 4294967296" using assms(1) by (rule unpack_uint_range)
  have ob: "0 \<le> ?t OR 536870912 \<and> ?t OR 536870912 < 4294967296"
    using or_bound [of ?t] r by simp
  have p1: "pack_I ?l (?t OR 536870912) = Inr (uint_bytes ?l (?t OR 536870912))"
    using ob by (simp add: pack_I_def)
  have p2: "pack_I ?l s = Inr (uint_bytes ?l s)"
    using assms(2,3) by (simp add: pack_I_def)
  have s1: "s \<noteq> - 1" using assms(2) by simp
  have hd: "wkb_header (Buffer Memoryview (ob # uint_bytes ?l (?t OR 536870912) @ uint_bytes ?l s @ rest))
      = Inr (ob # uint_bytes ?l (?t OR 536870912) @ uint_bytes ?l s)"
    by (rule wkb_header_bytes9) (simp_all add: length_uint_bytes)
  have i: "WKBElement_init (Buffer Memoryview (ob # uint_bytes ?l (?t OR 536870912) @ uint_bytes ?l s @ rest)) s (Some True)
      = Inr \<lparr>srid = s, data = Buffer Memoryview (ob # uint_bytes ?l (?t OR 536870912) @ uint_bytes ?l s @ rest),
             extended = Some True\<rparr>"
    using s1 hd by (rule WKBElement_init_explicit)
  show ?thesis
    unfolding as_ewkb_def
    using assms(1,4) s1 p1 p2 i
    by (simp add: wkb_head_bytes wkb_type_of_def Let_def)
qed

lemma as_wkb_bytes:
  assumes "length ty = 4" "length sb = 4" "s \<noteq> - 1"
  shows "as_wkb \<lparr>srid = s, data = Buffer k (ob # ty @ sb @ rest), extended = Some True\<rparr>
           = Inr \<lparr>srid = s,
                  data = Buffer Memoryview
                           (ob # uint_bytes (ob \<noteq> 0) (unpack_uint (ob \<noteq> 0) ty AND 3758096383) @ rest),
                  extended = Some False\<rparr>"
proof -
  let ?l = "ob \<noteq> 0"
  let ?t = "unpack_uint ?l ty"
  have r: "0 \<le> ?t \<and> ?t < 4294967296" using assms(1) by (rule unpack_uint_range)
  have ab: "0 \<le> ?t AND 3758096383 \<and> ?t AND 3758096383 < 4294967296"
    using and_bound [of ?t] r by simp
  have n1: "\<not> ?t AND 3758096383 < 0" "\<not> 4294967296 \<le> ?t AND 3758096383"
    using ab by linarith+
  have p1: "pack_I ?l (?t AND 3758096383) = Inr (uint_bytes ?l (?t AND 3758096383))"
    unfolding pack_I_def using n1 by (simp only: if_False)
  have i: "WKBElement_init (Buffer Memoryview (ob # uint_bytes ?l (?t AND 3758096383) @ rest)) s (Some False)
      = Inr \<lparr>srid = s, data = Buffer Memoryview (ob # uint_bytes ?l (?t AND 3758096383) @ rest),
             extended = Some False\<rparr>"
    using assms(3) by (simp add: WKBElement_init_def)
  show ?thesis
    unfolding as_wkb_def
    using assms p1 i wkb_head_bytes [where ty = ty and ob = ob and rest = "sb @ rest" and k = k]
    by (simp add: wkb_type_of_def Let_def)
qed

text \<open>
  The result of a conversion is a \<open>memoryview\<close> whatever the kind of the buffer converted,
  so a round trip gives back the content of the buffer, in a \<open>memoryview\<close>.
\<close>

lemma round_trip_inject_bytes:
  assumes "length ty = 4" "0 \<le> s" "s < 4294967296"
    and "unpack_uint (ob \<noteq> 0) ty AND 536870912 = 0"
  shows "\<exists>e1. as_ewkb \<lparr>srid = s, data = Buffer k (ob # ty @ rest), extended = Some False\<rparr> = Inr e1
           \<and> extended e1 = Some True \<and> srid e1 = s
           \<and> as_wkb e1 = Inr \<lparr>srid = s, data = Buffer Memoryview (ob # ty @ rest),
                                extended = Some False\<rparr>"
proof -
  let ?l = "ob \<noteq> 0"
  let ?t = "unpack_uint ?l ty"
  have r: "0 \<le> ?t \<and> ?t < 4294967296" using assms(1) by (rule unpack_uint_range)
  have ob: "0 \<le> ?t OR 536870912 \<and> ?t OR 536870912 < 4294967296"
    using or_bound [of ?t] r by simp
  have u: "unpack_uint ?l (uint_bytes ?l (?t OR 536870912)) = ?t OR 536870912"
    using ob by (simp add: unpack_uint_uint_bytes)
  have c: "(?t OR 536870912) AND 3758096383 = ?t"
    using r assms(4) by (simp add: set_clear)
  have b: "uint_bytes ?l ?t = ty" using assms(1) by (rule uint_bytes_unpack_uint)
  have s1: "s \<noteq> - 1" using assms(2) by simp
  have w: "as_wkb \<lparr>srid = s,
        data = Buffer Memoryview (ob # uint_bytes ?l (?t OR 536870912) @ uint_bytes ?l s @ rest),
        extended = Some True\<rparr>
      = Inr \<lparr>srid = s, data = Buffer Memoryview (ob # ty @ rest), extended = Some False\<rparr>"
    using as_wkb_bytes [where ty = "uint_bytes ?l (?t OR 536870912)" and sb = "uint_bytes ?l s"
        and s = s and ob = ob and rest = rest and k = Memoryview] s1
    by (simp add: length_uint_bytes u c b)
  show ?thesis
    using as_ewkb_bytes [OF assms(1,2,3), where x = "Some False" and ob = ob and rest = rest and k = k] w
    by simp
qed

lemma round_trip_strip_bytes:
  assumes "length ty = 4" "length sb = 4"
    and "unpack_uint (ob \<noteq> 0) ty AND 536870912 \<noteq> 0"
    and "s = unpack_uint (ob \<noteq> 0) sb"
  shows "\<exists>e1. as_wkb \<lparr>srid = s, data = Buffer k (ob # ty @ sb @ rest), extended = Some True\<rparr> = Inr e1
           \<and> extended e1 = Some False
           \<and> as_ewkb e1 = Inr \<lparr>srid = s, data = Buffer Memoryview (ob # ty @ sb @ rest),
                                 extended = Some True\<rparr>"
proof -
  let ?l = "ob \<noteq> 0"
  let ?t = "unpack_uint ?l ty"
  have r: "0 \<le> ?t \<and> ?t < 4294967296" using assms(1) by (rule unpack_uint_range)
  have sr: "0 \<le> s \<and> s < 4294967296" unfolding assms(4) using assms(2) by (rule unpack_uint_range)
  have ab: "0 \<le> ?t AND 3758096383 \<and> ?t AND 3758096383 < 4294967296"
    using and_bound [of ?t] r by simp
  have u: "unpack_uint ?l (uint_bytes ?l (?t AND 3758096383)) = ?t AND 3758096383"
    using ab by (simp add: unpack_uint_uint_bytes)
  have c: "(?t AND 3758096383) OR 536870912 = ?t"
    using r assms(3) by (simp add: clear_set)
  have b: "uint_bytes ?l ?t = ty" using assms(1) by (rule uint_bytes_unpack_uint)
  have b2: "uint_bytes ?l s = sb" unfolding assms(4) using assms(2) by (rule uint_bytes_unpack_uint)
  have s1: "s \<noteq> - 1" using sr by simp
  have e: "as_ewkb \<lparr>srid = s, data = Buffer Memoryview (ob # uint_bytes ?l (?t AND 3758096383) @ rest),
        extended = Some False\<rparr>
      = Inr \<lparr>srid = s, data = Buffer Memoryview (ob # ty @ sb @ rest), extended = Some True\<rparr>"
    using as_ewkb_bytes [where ty = "uint_bytes ?l (?t AND 3758096383)" and s = s
        and x = "Some False" and ob = ob and rest = rest and k = Memoryview] sr
    by (simp add: length_uint_bytes u c b b2)
  show ?thesis
    using as_wkb_bytes [OF assms(1,2) s1, where ob = ob and rest = rest and k = k] e by simp
qed

text \<open>The same conversions on hexadecimal text.\<close>

lemma unhexlify_length: "unhexlify s = Inr bs \<Longrightarrow> length s = 2 * length bs"
  by (simp add: unhexlify_lower)

lemma wkb_head_str:
  "unhexlify (take 10 h) = Inr (ob # ty) \<Longrightarrow> length ty = 4 \<Longrightarrow> wkb_head (Str h) = Inr (ob, ty)"
  by (simp add: wkb_head_def index0_def slice_def)

lemma hex_prefix2:
  assumes "unhexlify (take 10 h) = Inr (ob # ty)"
  shows "unhexlify (take 2 h) = Inr [ob]"
  using unhexlify_take [OF assms, of 1] by simp

lemma as_wkb_str:
  assumes "unhexlify (take 10 h) = Inr (ob # ty)" "length ty = 4" "s \<noteq> - 1"
  shows "as_wkb \<lparr>srid = s, data = Str h, extended = Some True\<rparr>
           = Inr \<lparr>srid = s,
                  data = Str (take 2 h @ hexlify (uint_bytes (ob \<noteq> 0) (unpack_uint (ob \<noteq> 0) ty AND 3758096383))
                               @ drop 18 h),
                  extended = Some False\<rparr>"
proof -
  let ?l = "ob \<noteq> 0"
  let ?t = "unpack_uint ?l ty"
  have r: "0 \<le> ?t \<and> ?t < 4294967296" using assms(2) by (rule unpack_uint_range)
  have ab: "0 \<le> ?t AND 3758096383 \<and> ?t AND 3758096383 < 4294967296"
    using and_bound [of ?t] r by simp
  have n1: "\<not> ?t AND 3758096383 < 0" "\<not> 4294967296 \<le> ?t AND 3758096383"
    using ab by linarith+
  have p1: "to_bytes4 ?l (?t AND 3758096383) = Inr (uint_bytes ?l (?t AND 3758096383))"
    unfolding to_bytes4_def using n1 by (simp only: if_False)
  show ?thesis
    unfolding as_wkb_def
    using assms(2,3) p1 wkb_head_str [OF assms(1,2)]
    by (simp add: wkb_type_of_def Let_def WKBElement_init_def)
qed

lemma as_ewkb_str:
  assumes "unhexlify (take 10 h) = Inr (ob # ty)" "length ty = 4"
    and "0 \<le> s" "s < 4294967296" "x \<noteq> Some True"
  shows "as_ewkb \<lparr>srid = s, data = Str h, extended = x\<rparr>
           = Inr \<lparr>srid = s,
                  data = Str (take 2 h @ hexlify (uint_bytes (ob \<noteq> 0) (unpack_uint (ob \<noteq> 0) ty OR 536870912))
                               @ hexlify (uint_bytes (ob \<noteq> 0) s) @ drop 10 h),
                  extended = Some True\<rparr>"
proof -
  let ?l = "ob \<noteq> 0"
  let ?t = "unpack_uint ?l ty"
  let ?tb = "uint_bytes ?l (?t OR 536870912)"
  let ?sb = "uint_bytes ?l s"
  let ?d = "take 2 h @ hexlify ?tb @ hexlify ?sb @ drop 10 h"
  have r: "0 \<le> ?t \<and> ?t < 4294967296" using assms(2) by (rule unpack_uint_range)
  have ob: "0 \<le> ?t OR 536870912 \<and> ?t OR 536870912 < 4294967296"
    using or_bound [of ?t] r by simp
  have p1: "to_bytes4 ?l (?t OR 536870912) = Inr ?tb"
    using ob by (simp add: to_bytes4_def)
  have p2: "to_bytes4 ?l s = Inr ?sb"
    using assms(3,4) by (simp add: to_bytes4_def)
  have s1: "s \<noteq> - 1" using assms(3) by simp
  have len: "length (take 10 h) = 10"
    using unhexlify_length [OF assms(1)] assms(2) by simp
  then have l2: "length (take 2 h) = 2" by simp
  have tk: "take 18 ?d = take 2 h @ hexlify ?tb @ hexlify ?sb"
    using l2 by (simp add: length_hexlify length_uint_bytes)
  have "unhexlify (take 2 h @ hexlify ?tb @ hexlify ?sb) = Inr ([ob] @ ?tb @ ?sb)"
    by (intro unhexlify_append hex_prefix2 [OF assms(1)] unhexlify_hexlify)
  then have hd: "wkb_header (Str ?d) = Inr (ob # ?tb @ ?sb)"
    unfolding wkb_header_def pydata.case tk by simp
  have i: "WKBElement_init (Str ?d) s (Some True)
      = Inr \<lparr>srid = s, data = Str ?d, extended = Some True\<rparr>"
    using s1 hd by (rule WKBElement_init_explicit)
  show ?thesis
    unfolding as_ewkb_def
    using assms(2,5) s1 p1 p2 i wkb_head_str [OF assms(1,2)]
    by (simp add: wkb_type_of_def Let_def)
qed

lemma py_lower_append: "py_lower (a @ b) = py_lower a @ py_lower b"
  by (simp add: py_lower_def)

lemma round_trip_inject_str:
  assumes "unhexlify (take 10 h) = Inr (ob # ty)" "length ty = 4"
    and "0 \<le> s" "s < 4294967296"
    and "unpack_uint (ob \<noteq> 0) ty AND 536870912 = 0"
  shows "\<exists>e1 e2. as_ewkb \<lparr>srid = s, data = Str h, extended = Some False\<rparr> = Inr e1
           \<and> extended e1 = Some True \<and> srid e1 = s
           \<and> as_wkb e1 = Inr e2 \<and> extended e2 = Some False \<and> srid e2 = s
           \<and> WKB_desc e2 = py_lower h"
proof -
  let ?l = "ob \<noteq> 0"
  let ?t = "unpack_uint ?l ty"
  let ?tb = "uint_bytes ?l (?t OR 536870912)"
  let ?sb = "uint_bytes ?l s"
  let ?d = "take 2 h @ hexlify ?tb @ hexlify ?sb @ drop 10 h"
  have r: "0 \<le> ?t \<and> ?t < 4294967296" using assms(2) by (rule unpack_uint_range)
  have ob: "0 \<le> ?t OR 536870912 \<and> ?t OR 536870912 < 4294967296"
    using or_bound [of ?t] r by simp
  have u: "unpack_uint ?l ?tb = ?t OR 536870912"
    using ob by (simp add: unpack_uint_uint_bytes)
  have c: "(?t OR 536870912) AND 3758096383 = ?t"
    using r assms(5) by (simp add: set_clear)
  have b: "uint_bytes ?l ?t = ty" using assms(2) by (rule uint_bytes_unpack_uint)
  have s1: "s \<noteq> - 1" using assms(3) by simp
  have len: "length (take 10 h) = 10"
    using unhexlify_length [OF assms(1)] assms(2) by simp
  then have l2: "length (take 2 h) = 2" by simp
  have t10: "take 10 ?d = take 2 h @ hexlify ?tb"
    using l2 by (simp add: length_hexlify length_uint_bytes)
  have t2: "take 2 ?d = take 2 h" using l2 by simp
  have d18: "drop 18 ?d = drop 10 h"
    using l2 by (simp add: length_hexlify length_uint_bytes)
  have "unhexlify (take 2 h @ hexlify ?tb) = Inr ([ob] @ ?tb)"
    by (intro unhexlify_append hex_prefix2 [OF assms(1)] unhexlify_hexlify)
  then have h10: "unhexlify (take 10 ?d) = Inr (ob # ?tb)"
    unfolding t10 by simp
  have w: "as_wkb \<lparr>srid = s, data = Str ?d, extended = Some True\<rparr>
      = Inr \<lparr>srid = s, data = Str (take 2 h @ hexlify ty @ drop 10 h), extended = Some False\<rparr>"
    using as_wkb_str [OF h10 _ s1] unfolding t2 d18 u c b
    by (simp add: length_uint_bytes)
  have lo2: "py_lower (take 2 h) = hexlify [ob]"
    using unhexlify_lower [OF hex_prefix2 [OF assms(1)]] by simp
  have lo10: "py_lower (take 10 h) = hexlify (ob # ty)"
    using unhexlify_lower [OF assms(1)] by simp
  have "py_lower h = py_lower (take 10 h) @ py_lower (drop 10 h)"
    unfolding py_lower_append [symmetric] by simp
  also have "\<dots> = hexlify [ob] @ hexlify ty @ py_lower (drop 10 h)"
    unfolding lo10 by simp
  finally have lo: "py_lower h = py_lower (take 2 h) @ hexlify ty @ py_lower (drop 10 h)"
    unfolding lo2 .
  have desc: "WKB_desc \<lparr>srid = s, data = Str (take 2 h @ hexlify ty @ drop 10 h), extended = Some False\<rparr>
      = py_lower h"
    unfolding lo by (simp add: WKB_desc_def wkb_to_hex_def py_lower_append py_lower_hexlify)
  show ?thesis
    using as_ewkb_str [OF assms(1,2,3,4), of "Some False"] w desc by simp
qed

lemma round_trip_strip_str:
  assumes "unhexlify (take 18 h) = Inr (ob # ty @ sb)" "length ty = 4" "length sb = 4"
    and "unpack_uint (ob \<noteq> 0) ty AND 536870912 \<noteq> 0"
    and "s = unpack_uint (ob \<noteq> 0) sb"
  shows "\<exists>e1 e2. as_wkb \<lparr>srid = s, data = Str h, extended = Some True\<rparr> = Inr e1
           \<and> extended e1 = Some False
           \<and> as_ewkb e1 = Inr e2 \<and> extended e2 = Some True \<and> srid e2 = s
           \<and> WKB_desc e2 = py_lower h"
proof -
  let ?l = "ob \<noteq> 0"
  let ?t = "unpack_uint ?l ty"
  let ?tb = "uint_bytes ?l (?t AND 3758096383)"
  let ?d = "take 2 h @ hexlify ?tb @ drop 18 h"
  have r: "0 \<le> ?t \<and> ?t < 4294967296" using assms(2) by (rule unpack_uint_range)
  have sr: "0 \<le> s \<and> s < 4294967296" unfolding assms(5) using assms(3) by (rule unpack_uint_range)
  have ab: "0 \<le> ?t AND 3758096383 \<and> ?t AND 3758096383 < 4294967296"
    using and_bound [of ?t] r by simp
  have u: "unpack_uint ?l ?tb = ?t AND 3758096383"
    using ab by (simp add: unpack_uint_uint_bytes)
  have c: "(?t AND 3758096383) OR 536870912 = ?t"
    using r assms(4) by (simp add: clear_set)
  have b: "uint_bytes ?l ?t = ty" using assms(2) by (rule uint_bytes_unpack_uint)
  have b2: "uint_bytes ?l s = sb" unfolding assms(5) using assms(3) by (rule uint_bytes_unpack_uint)
  have s1: "s \<noteq> - 1" using sr by simp
  have h10: "unhexlify (take 10 h) = Inr (ob # ty)"
    using unhexlify_take [OF assms(1), of 5] assms(2) by simp
  have len: "length (take 18 h) = 18"
    using unhexlify_length [OF assms(1)] assms(2,3) by simp
  then have l2: "length (take 2 h) = 2" by simp
  have t10: "take 10 ?d = take 2 h @ hexlify ?tb"
    using l2 by (simp add: length_hexlify length_uint_bytes)
  have t2: "take 2 ?d = take 2 h" using l2 by simp
  have d10: "drop 10 ?d = drop 18 h"
    using l2 by (simp add: length_hexlify length_uint_bytes)
  have "unhexlify (take 2 h @ hexlify ?tb) = Inr ([ob] @ ?tb)"
    by (intro unhexlify_append hex_prefix2 [OF h10] unhexlify_hexlify)
  then have g10: "unhexlify (take 10 ?d) = Inr (ob # ?tb)"
    unfolding t10 by simp
  have e: "as_ewkb \<lparr>srid = s, data = Str ?d, extended = Some False\<rparr>
      = Inr \<lparr>srid = s, data = Str (take 2 h @ hexlify ty @ hexlify sb @ drop 18 h),
             extended = Some True\<rparr>"
    using as_ewkb_str [OF g10 _ _ _, of s "Some False"] sr unfolding t2 d10 u c b b2
    by (simp add: length_uint_bytes)
  have lo2: "py_lower (take 2 h) = hexlify [ob]"
    using unhexlify_lower [OF hex_prefix2 [OF h10]] by simp
  have lo18: "py_lower (take 18 h) = hexlify (ob # ty @ sb)"
    using unhexlify_lower [OF assms(1)] by simp
  have "py_lower h = py_lower (take 18 h) @ py_lower (drop 18 h)"
    unfolding py_lower_append [symmetric] by simp
  also have "\<dots> = hexlify [ob] @ hexlify ty @ hexlify sb @ py_lower (drop 18 h)"
    unfolding lo18 by (simp add: hexlify_append)
  finally have lo: "py_lower h = py_lower (take 2 h) @ hexlify ty @ hexlify sb @ py_lower (drop 18 h)"
    unfolding lo2 .
  have desc: "WKB_desc \<lparr>srid = s, data = Str (take 2 h @ hexlify ty @ hexlify sb @ drop 18 h),
        extended = Some True\<rparr> = py_lower h"
    unfolding lo by (simp add: WKB_desc_def wkb_to_hex_def py_lower_append py_lower_hexlify)
  show ?thesis
    using as_wkb_str [OF h10 assms(2) s1] e desc by simp
qed

lemma WKBElement_init_None:
  assumes "WKBElement_init b s None = Inr e"
  shows "\<exists>ob r. wkb_header b = Inr (ob # r) \<and> data e = b
           \<and> extended e = Some (wkb_type_of (ob \<noteq> 0) (slice (ob # r) 1 5) AND 536870912 \<noteq> 0)
           \<and> (extended e = Some True \<and> s = - 1 \<longrightarrow>
                 length (drop 5 (ob # r)) = 4 \<and> srid e = unpack_uint (ob \<noteq> 0) (drop 5 (ob # r)))
           \<and> (\<not> (extended e = Some True \<and> s = - 1) \<longrightarrow> srid e = s)"
proof -
  from assms obtain hdr where hdr: "wkb_header b = Inr hdr"
    and rd: "WKBElement_read (header_kind b) hdr b s None = Inr e"
    by (auto simp: WKBElement_init_def split: sum.splits)
  from rd obtain ob r where c: "hdr = ob # r"
    by (cases hdr) (auto simp: WKBElement_read_def index0_def)
  show ?thesis
    using rd hdr unfolding c
    by (auto simp: WKBElement_read_def index0_def Let_def split: if_splits)
qed

lemma element_eqI:
  "srid e = s \<Longrightarrow> data e = d \<Longrightarrow> extended e = x \<Longrightarrow> e = \<lparr>srid = s, data = d, extended = x\<rparr>"
  by (cases e) simp

lemma bytes_split5:
  assumes "take 9 bs = ob # r" "5 \<le> length (ob # r)"
  shows "bs = ob # take 4 r @ drop 5 bs"
proof -
  have "take 5 bs = take 5 (take 9 bs)" by simp
  also have "\<dots> = ob # take 4 r" unfolding assms(1) by simp
  finally have "take 5 bs @ drop 5 bs = (ob # take 4 r) @ drop 5 bs" by simp
  then show ?thesis by simp
qed

lemma bytes_split9:
  assumes "take 9 bs = ob # r" "length r = 8"
  shows "bs = ob # take 4 r @ drop 4 r @ drop 9 bs"
proof -
  have "ob # take 4 r @ drop 4 r @ drop 9 bs = (ob # (take 4 r @ drop 4 r)) @ drop 9 bs"
    by (simp only: append_assoc append_Cons)
  also have "\<dots> = (ob # r) @ drop 9 bs" by (simp only: append_take_drop_id)
  also have "\<dots> = take 9 bs @ drop 9 bs" unfolding assms(1) ..
  also have "\<dots> = bs" by (rule append_take_drop_id)
  finally show ?thesis by (rule sym)
qed

text \<open>
  C1, as amended. Let \<open>s\<close> be an SRID that fits the unsigned 32-bit field,
  \<open>0 \<le> s < 4294967296\<close>, and \<open>b\<close> a buffer (bytes or hexadecimal text) whose header has
  the byte order and a complete type word and from which \<open>WKBElement(b, s)\<close> is built
  with \<open>extended = False\<close>. Then \<open>as_ewkb\<close> gives an extended element with SRID \<open>s\<close>, and
  \<open>as_wkb\<close> of that gives an element whose description is the description of \<open>b\<close>.
  And when \<open>WKBElement(b)\<close> is built with \<open>extended = True\<close>, so that its SRID is the one
  embedded in \<open>b\<close>, \<open>as_wkb\<close> followed by \<open>as_ewkb\<close> gives an extended element with the
  same SRID whose description is the description of \<open>b\<close>.
\<close>

theorem wkb_srid_round_trip:
  "(0 \<le> s \<and> s < 4294967296 \<and> WKBElement_init b s None = Inr e \<and> extended e = Some False
      \<and> wkb_header b = Inr hdr \<and> 5 \<le> length hdr \<longrightarrow>
      (\<exists>e1 e2. as_ewkb e = Inr e1 \<and> extended e1 = Some True \<and> srid e1 = s
          \<and> as_wkb e1 = Inr e2 \<and> extended e2 = Some False \<and> WKB_desc e2 = wkb_to_hex b))
   \<and> (WKBElement_init b (- 1) None = Inr e' \<and> extended e' = Some True \<longrightarrow>
      (\<exists>e1 e2. as_wkb e' = Inr e1 \<and> extended e1 = Some False
          \<and> as_ewkb e1 = Inr e2 \<and> extended e2 = Some True \<and> srid e2 = srid e'
          \<and> WKB_desc e2 = wkb_to_hex b))"
proof (intro conjI impI)
  assume a: "0 \<le> s \<and> s < 4294967296 \<and> WKBElement_init b s None = Inr e \<and> extended e = Some False
      \<and> wkb_header b = Inr hdr \<and> 5 \<le> length hdr"
  then have s: "0 \<le> s" "s < 4294967296" and i: "WKBElement_init b s None = Inr e"
    and x: "extended e = Some False" and h: "wkb_header b = Inr hdr" and l: "5 \<le> length hdr"
    by simp_all
  from WKBElement_init_None [OF i] h x obtain ob r where
    hdr: "hdr = ob # r" and d: "data e = b" and sr: "srid e = s"
    and bit: "wkb_type_of (ob \<noteq> 0) (slice (ob # r) 1 5) AND 536870912 = 0"
    by auto
  define ty where "ty = take 4 r"
  have lt: "length ty = 4" using l hdr by (simp add: ty_def)
  have sl: "slice (ob # r) 1 5 = ty" by (simp add: slice_def ty_def)
  have t: "unpack_uint (ob \<noteq> 0) ty AND 536870912 = 0"
    using bit lt unfolding sl by (simp add: wkb_type_of_def)
  have e: "e = \<lparr>srid = s, data = b, extended = Some False\<rparr>"
    using sr d x by (rule element_eqI)
  show "\<exists>e1 e2. as_ewkb e = Inr e1 \<and> extended e1 = Some True \<and> srid e1 = s
          \<and> as_wkb e1 = Inr e2 \<and> extended e2 = Some False \<and> WKB_desc e2 = wkb_to_hex b"
  proof (cases b)
    case (Buffer k bs)
    have tk: "take 9 bs = ob # r" using h hdr Buffer by (simp add: wkb_header_def)
    have bs: "bs = ob # ty @ drop 5 bs"
      unfolding ty_def using tk l hdr by (intro bytes_split5) simp_all
    obtain e1 where
      "as_ewkb \<lparr>srid = s, data = Buffer k (ob # ty @ drop 5 bs), extended = Some False\<rparr> = Inr e1"
      "extended e1 = Some True" "srid e1 = s"
      "as_wkb e1 = Inr \<lparr>srid = s, data = Buffer Memoryview (ob # ty @ drop 5 bs),
                           extended = Some False\<rparr>"
      using round_trip_inject_bytes [OF lt s t, where rest = "drop 5 bs" and k = k] by blast
    then show ?thesis
      unfolding e Buffer using bs by (auto simp: WKB_desc_def wkb_to_hex_def)
  next
    case (Str hx)
    have u18: "unhexlify (take 18 hx) = Inr (ob # r)" using h hdr Str by (simp add: wkb_header_def)
    have u10: "unhexlify (take 10 hx) = Inr (ob # ty)"
      using unhexlify_take [OF u18, of 5] by (simp add: ty_def)
    show ?thesis
      unfolding e Str using round_trip_inject_str [OF u10 lt s t]
      by (auto simp: wkb_to_hex_def)
  qed
next
  assume a: "WKBElement_init b (- 1) None = Inr e' \<and> extended e' = Some True"
  then have i: "WKBElement_init b (- 1) None = Inr e'" and x: "extended e' = Some True"
    by simp_all
  from WKBElement_init_None [OF i] x obtain ob r where
    h: "wkb_header b = Inr (ob # r)" and d: "data e' = b"
    and l: "length (drop 5 (ob # r)) = 4"
    and sr: "srid e' = unpack_uint (ob \<noteq> 0) (drop 5 (ob # r))"
    and bit: "wkb_type_of (ob \<noteq> 0) (slice (ob # r) 1 5) AND 536870912 \<noteq> 0"
    by auto
  define ty where "ty = take 4 r"
  define sb where "sb = drop 4 r"
  have lr: "length r = 8" using l by simp
  have lt: "length ty = 4" and ls: "length sb = 4" using lr by (simp_all add: ty_def sb_def)
  have r: "r = ty @ sb" by (simp add: ty_def sb_def)
  have sl: "slice (ob # r) 1 5 = ty" by (simp add: slice_def ty_def)
  have t: "unpack_uint (ob \<noteq> 0) ty AND 536870912 \<noteq> 0"
    using bit lt unfolding sl by (simp add: wkb_type_of_def)
  define sv where "sv = srid e'"
  have sr': "sv = unpack_uint (ob \<noteq> 0) sb" using sr by (simp add: sb_def sv_def)
  have e: "e' = \<lparr>srid = sv, data = b, extended = Some True\<rparr>"
    using sv_def [symmetric] d x by (rule element_eqI)
  show "\<exists>e1 e2. as_wkb e' = Inr e1 \<and> extended e1 = Some False
          \<and> as_ewkb e1 = Inr e2 \<and> extended e2 = Some True \<and> srid e2 = srid e'
          \<and> WKB_desc e2 = wkb_to_hex b"
  proof (cases b)
    case (Buffer k bs)
    have tk: "take 9 bs = ob # r" using h Buffer by (simp add: wkb_header_def)
    have bs: "bs = ob # ty @ sb @ drop 9 bs"
      unfolding ty_def sb_def using tk lr by (rule bytes_split9)
    obtain e1 where
      "as_wkb \<lparr>srid = sv, data = Buffer k (ob # ty @ sb @ drop 9 bs), extended = Some True\<rparr> = Inr e1"
      "extended e1 = Some False"
      "as_ewkb e1 = Inr \<lparr>srid = sv, data = Buffer Memoryview (ob # ty @ sb @ drop 9 bs),
                            extended = Some True\<rparr>"
      using round_trip_strip_bytes [OF lt ls t sr', where rest = "drop 9 bs" and k = k] by blast
    then show ?thesis
      unfolding e Buffer using bs by (auto simp: WKB_desc_def wkb_to_hex_def)
  next
    case (Str hx)
    have u18: "unhexlify (take 18 hx) = Inr (ob # ty @ sb)"
      using h Str r by (simp add: wkb_header_def)
    show ?thesis
      unfolding e Str using round_trip_strip_str [OF u18 lt ls t sr']
      by (auto simp: wkb_to_hex_def)
  qed
qed

text \<open>
  C1 as stated fails for an SRID below zero other than \<open>-1\<close>: for the point
  \<open>POINT(1 2)\<close> and \<open>s = -2\<close>, \<open>as_ewkb\<close> raises \<open>struct.error\<close>, since
  \<open>struct.pack("<I", -2)\<close> has no unsigned encoding.
\<close>

theorem wkb_srid_round_trip_counterexample:
  "WKBElement_init (Buffer Bytes [1, 1, 0, 0, 0, 0, 0, 0, 0, 0, 0, 240, 63, 0, 0, 0, 0, 0, 0, 0, 64]) (- 2) None
     = Inr \<lparr>srid = - 2, data = Buffer Bytes [1, 1, 0, 0, 0, 0, 0, 0, 0, 0, 0, 240, 63, 0, 0, 0, 0, 0, 0, 0, 64], extended = Some False\<rparr>
   \<and> as_ewkb \<lparr>srid = - 2, data = Buffer Bytes [1, 1, 0, 0, 0, 0, 0, 0, 0, 0, 0, 240, 63, 0, 0, 0, 0, 0, 0, 0, 64], extended = Some False\<rparr>
     = Inl (StructError ''argument out of range'')"
  by (simp add: WKBElement_init_def wkb_header_def WKBElement_read_def index0_def slice_def
      wkb_type_of_def unpack_uint_def Let_def as_ewkb_def wkb_head_def pack_I_def
      uint_bytes_def numeral_eq_Suc)

text \<open>
  C1 on the bytes of \<open>POINT(1 2)\<close> with SRID 4326, and on the hexadecimal text, in capital
  letters, of the same point with SRID 4326 embedded.
\<close>

theorem wkb_srid_round_trip_witness:
  "WKBElement_init (Buffer Bytes [1, 1, 0, 0, 0, 0, 0, 0, 0, 0, 0, 240, 63, 0, 0, 0, 0, 0, 0, 0, 64]) 4326 None
     = Inr \<lparr>srid = 4326, data = Buffer Bytes [1, 1, 0, 0, 0, 0, 0, 0, 0, 0, 0, 240, 63, 0, 0, 0, 0, 0, 0, 0, 64], extended = Some False\<rparr>
   \<and> (\<exists>e1 e2. as_ewkb \<lparr>srid = 4326, data = Buffer Bytes [1, 1, 0, 0, 0, 0, 0, 0, 0, 0, 0, 240, 63, 0, 0, 0, 0, 0, 0, 0, 64], extended = Some False\<rparr> = Inr e1
          \<and> extended e1 = Some True \<and> srid e1 = 4326
          \<and> as_wkb e1 = Inr e2 \<and> extended e2 = Some False \<and> WKB_desc e2 = wkb_to_hex (Buffer Bytes [1, 1, 0, 0, 0, 0, 0, 0, 0, 0, 0, 240, 63, 0, 0, 0, 0, 0, 0, 0, 64]))
   \<and> WKBElement_init (Str ''0101000020E6100000000000000000F03F0000000000000040'') (- 1) None
     = Inr \<lparr>srid = 4326, data = Str ''0101000020E6100000000000000000F03F0000000000000040'', extended = Some True\<rparr>
   \<and> (\<exists>e1 e2. as_wkb \<lparr>srid = 4326, data = Str ''0101000020E6100000000000000000F03F0000000000000040'', extended = Some True\<rparr> = Inr e1
          \<and> extended e1 = Some False
          \<and> as_ewkb e1 = Inr e2 \<and> extended e2 = Some True \<and> srid e2 = 4326
          \<and> WKB_desc e2 = wkb_to_hex (Str ''0101000020E6100000000000000000F03F0000000000000040''))"
proof -
  have i1: "WKBElement_init (Buffer Bytes [1, 1, 0, 0, 0, 0, 0, 0, 0, 0, 0, 240, 63, 0, 0, 0, 0, 0, 0, 0, 64]) 4326 None
     = Inr \<lparr>srid = 4326, data = Buffer Bytes [1, 1, 0, 0, 0, 0, 0, 0, 0, 0, 0, 240, 63, 0, 0, 0, 0, 0, 0, 0, 64], extended = Some False\<rparr>"
    by (simp add: WKBElement_init_def wkb_header_def WKBElement_read_def index0_def slice_def
        wkb_type_of_def unpack_uint_def Let_def)
  have h1: "wkb_header (Buffer Bytes [1, 1, 0, 0, 0, 0, 0, 0, 0, 0, 0, 240, 63, 0, 0, 0, 0, 0, 0, 0, 64]) = Inr [1, 1, 0, 0, 0, 0, 0, 0, 0]"
    by (simp add: wkb_header_def)
  have hyp1: "(0::int) \<le> 4326 \<and> (4326::int) < 4294967296
      \<and> WKBElement_init (Buffer Bytes [1, 1, 0, 0, 0, 0, 0, 0, 0, 0, 0, 240, 63, 0, 0, 0, 0, 0, 0, 0, 64]) 4326 None
          = Inr \<lparr>srid = 4326, data = Buffer Bytes [1, 1, 0, 0, 0, 0, 0, 0, 0, 0, 0, 240, 63, 0, 0, 0, 0, 0, 0, 0, 64], extended = Some False\<rparr>
      \<and> extended \<lparr>srid = 4326, data = Buffer Bytes [1, 1, 0, 0, 0, 0, 0, 0, 0, 0, 0, 240, 63, 0, 0, 0, 0, 0, 0, 0, 64], extended = Some False\<rparr> = Some False
      \<and> wkb_header (Buffer Bytes [1, 1, 0, 0, 0, 0, 0, 0, 0, 0, 0, 240, 63, 0, 0, 0, 0, 0, 0, 0, 64]) = Inr [1, 1, 0, 0, 0, 0, 0, 0, 0] \<and> 5 \<le> length ([1, 1, 0, 0, 0, 0, 0, 0, 0] :: byte list)"
    using i1 h1 by simp
  have i2: "WKBElement_init (Str ''0101000020E6100000000000000000F03F0000000000000040'') (- 1) None
     = Inr \<lparr>srid = 4326, data = Str ''0101000020E6100000000000000000F03F0000000000000040'', extended = Some True\<rparr>"
    by (simp add: WKBElement_init_def wkb_header_def WKBElement_read_def index0_def slice_def
        wkb_type_of_def unpack_uint_def Let_def unhexlify_def hex_val_def)
  have hyp2: "WKBElement_init (Str ''0101000020E6100000000000000000F03F0000000000000040'') (- 1) None
       = Inr \<lparr>srid = 4326, data = Str ''0101000020E6100000000000000000F03F0000000000000040'', extended = Some True\<rparr>
     \<and> extended \<lparr>srid = 4326, data = Str ''0101000020E6100000000000000000F03F0000000000000040'', extended = Some True\<rparr> = Some True"
    using i2 by simp
  note r1 = wkb_srid_round_trip [THEN conjunct1, THEN mp, OF hyp1]
  note r2 = wkb_srid_round_trip [THEN conjunct2, THEN mp, OF hyp2]
  from r2 have r2': "\<exists>e1 e2. as_wkb \<lparr>srid = 4326, data = Str ''0101000020E6100000000000000000F03F0000000000000040'', extended = Some True\<rparr> = Inr e1
          \<and> extended e1 = Some False
          \<and> as_ewkb e1 = Inr e2 \<and> extended e2 = Some True \<and> srid e2 = 4326
          \<and> WKB_desc e2 = wkb_to_hex (Str ''0101000020E6100000000000000000F03F0000000000000040'')"
    by (simp only: SpatialElement.select_convs)
  from i1 r1 i2 r2' show ?thesis by (intro conjI)
qed

section \<open>Raster bands\<close>

lemma length_slice: "j \<le> length xs \<Longrightarrow> length (slice xs i j) = j - i"
  by (simp add: slice_def)

lemma slice1: "i < length xs \<Longrightarrow> slice xs i (i + 1) = [xs ! i]"
proof -
  assume a: "i < length xs"
  then have "drop i xs = xs ! i # drop (Suc i) xs"
    by (rule Cons_nth_drop_Suc [symmetric])
  then show ?thesis by (simp add: slice_def)
qed

lemma unpack_sint_byte: "unpack_sint little [b] = sint b"
proof -
  have u: "unpack_uint little [b] = uint b" by (simp add: unpack_uint_def)
  have r: "0 \<le> uint b" "uint b < 2 * 128" using uint_lt2p [of b] by simp_all
  have a: "(2::int) ^ (LENGTH(8) - 1) = 128" by simp
  have b2: "(2::int) ^ LENGTH(8) = 2 * 128" by simp
  have "sint b = sint (word_of_int (uint b) :: byte)" by simp
  also have "\<dots> = (uint b + 128) mod (2 * 128) - 128"
    unfolding int_word_sint a b2 ..
  also have "\<dots> = (if 128 \<le> uint b then uint b - 2 * 128 else uint b)"
    using r by (rule sint_general)
  finally show ?thesis by (simp add: unpack_sint_def u Let_def)
qed

lemma PTYPE_supported:
  "map_of PTYPE p \<noteq> None \<longleftrightarrow> p \<in> {0, 1, 2, 3, 4, 5, 6, 7, 8, 10, 11}"
  by (simp add: PTYPE_def)

lemma PTYPE_size: "map_of PTYPE p = Some (f, d, n) \<Longrightarrow> n = fmt_size f \<and> 0 < n"
  by (auto simp: PTYPE_def split: if_splits)

lemma struct_unpack_ok:
  "length bs = fmt_size f \<Longrightarrow> \<exists>v. struct_unpack little f bs = Inr v"
  by (simp add: struct_unpack_def)

lemma unpack_e_ok:
  "e = 0 \<or> e = 1 \<Longrightarrow> length bs = fmt_size f \<Longrightarrow> \<exists>v. unpack_e e f bs = Inr v"
  by (auto simp: unpack_e_def format_e_def struct_unpack_def)

lemma sequence_sum_ok:
  "\<forall>x \<in> set xs. \<exists>v. f x = Inr v \<Longrightarrow>
   \<exists>vs. sequence_sum (map f xs) = Inr vs \<and> length vs = length xs"
  by (induction xs) auto

lemma sequence_sum_all:
  "\<forall>x \<in> set xs. \<exists>v. f x = Inr v \<and> P v \<Longrightarrow>
   \<exists>vs. sequence_sum (map f xs) = Inr vs \<and> length vs = length xs \<and> (\<forall>v \<in> set vs. P v)"
  by (induction xs) auto

lemma length_slice_cell:
  assumes "(k + 1) * n \<le> length xs"
  shows "length (slice xs (k * n) ((k + 1) * n)) = n"
proof -
  have "(k + 1) * n - k * n = n" by (simp add: add_mult_distrib)
  then show ?thesis using assms by (simp only: length_slice)
qed

lemma cell_bound:
  assumes "i < h" "j < w"
  shows "(i * w + j + 1) * n \<le> w * h * (n::nat)"
proof -
  have "i * w + j + 1 \<le> i * w + w" using assms(2) by simp
  also have "\<dots> = (i + 1) * w" by simp
  also have "\<dots> \<le> h * w" using assms(1) by (intro mult_le_mono1) simp
  finally have "i * w + j + 1 \<le> w * h" by (simp add: mult.commute)
  then show ?thesis by (rule mult_le_mono1)
qed

lemma read_band_ok:
  assumes p: "map_of PTYPE pixtype = Some (ptype, dtype, psize)"
    and e: "e = 0 \<or> e = 1"
    and len: "offset + 1 + width * height * psize \<le> length dat"
  shows "\<exists>band. read_band dat offset pixtype height width e = Inr band
           \<and> length band = height \<and> (\<forall>row \<in> set band. length row = width)"
proof -
  let ?pix = "slice dat (offset + 1) (offset + 1 + width * height * psize)"
  let ?cell = "\<lambda>i j. unpack_e e ptype (slice ?pix ((i * width + j) * psize) ((i * width + j + 1) * psize))"
  have sz: "psize = fmt_size ptype" using PTYPE_size [OF p] by simp
  have lp: "length ?pix = width * height * psize" using len by (simp add: length_slice)
  have cell: "\<exists>v. ?cell i j = Inr v" if "i < height" "j < width" for i j
  proof -
    have "(i * width + j + 1) * psize \<le> length ?pix"
      unfolding lp using that by (rule cell_bound)
    then have "length (slice ?pix ((i * width + j) * psize) ((i * width + j + 1) * psize)) = psize"
      by (rule length_slice_cell)
    then show ?thesis using e sz by (intro unpack_e_ok) simp_all
  qed
  have row: "\<exists>r. sequence_sum (map (?cell i) [0..<width]) = Inr r \<and> length r = width"
    if "i < height" for i
    using sequence_sum_ok [of "[0..<width]" "?cell i"] cell [OF that] by simp
  have "\<exists>vs. sequence_sum (map (\<lambda>i. sequence_sum (map (?cell i) [0..<width])) [0..<height]) = Inr vs
          \<and> length vs = length [0..<height] \<and> (\<forall>v \<in> set vs. length v = width)"
    by (rule sequence_sum_all) (use row in auto)
  then obtain band where
    b: "sequence_sum (map (\<lambda>i. sequence_sum (map (?cell i) [0..<width])) [0..<height]) = Inr band"
    and lb: "length band = height" and rows: "\<forall>v \<in> set band. length v = width"
    by auto
  have "read_band dat offset pixtype height width e = Inr band"
    unfolding read_band_def p option.case prod.case Let_def b using len by simp
  with lb rows show ?thesis by blast
qed

lemma header_fields_ok:
  assumes "61 \<le> length raw" "e = 0 \<or> e = 1"
  shows "\<exists>h. header_fields raw e = Inr h \<and> h_endianness h = e
           \<and> h_nbands h = nat (unpack_uint (e = 1) (slice raw 3 5))
           \<and> h_width h = nat (unpack_uint (e = 1) (slice raw 57 59))
           \<and> h_height h = nat (unpack_uint (e = 1) (slice raw 59 61))"
proof -
  have f: "format_e e = Inr (e = 1)" using assms(2) by (auto simp: format_e_def)
  show ?thesis
    using assms(1)
    by (simp add: header_fields_def and_then_def unpack_e_def f struct_unpack_def length_slice)
qed

lemma wkbHeader_ok:
  assumes "61 \<le> length raw" "raw ! 0 = 0 \<or> raw ! 0 = 1"
    and "unpack_uint (raw ! 0 = 1) (slice raw 3 5) = int n"
    and "unpack_uint (raw ! 0 = 1) (slice raw 57 59) = int W"
    and "unpack_uint (raw ! 0 = 1) (slice raw 59 61) = int H"
    and "0 < n" "0 < W" "0 < H"
  shows "\<exists>h. wkbHeader raw = Inr h \<and> (h_endianness h = 0 \<or> h_endianness h = 1)
           \<and> h_nbands h = n \<and> h_width h = W \<and> h_height h = H"
proof -
  let ?e = "sint (raw ! 0)"
  have "raw \<noteq> []" using assms(1) by auto
  then have s0: "slice raw 0 1 = [raw ! 0]" using slice1 [of 0 raw] by simp
  have u: "struct_unpack True Fmt_b (slice raw 0 1) = Inr (SInt ?e)"
    unfolding s0 by (simp add: struct_unpack_def unpack_sint_byte)
  have e: "?e = 0 \<or> ?e = 1" using assms(2) by auto
  have e1: "(?e = 1) = (raw ! 0 = 1)" using assms(2) by auto
  from header_fields_ok [OF assms(1) e] obtain h where
    h: "header_fields raw ?e = Inr h" "h_endianness h = ?e"
       "h_nbands h = n" "h_width h = W" "h_height h = H"
    unfolding e1 assms(3,4,5) by auto
  have "wkbHeader raw = Inr h"
    using assms(1,6,7,8) e h
    unfolding wkbHeader_def u by (auto simp: and_then_def Let_def)
  with h e show ?thesis by auto
qed

lemma band_type_read:
  assumes "offset < length raw" "e = 0 \<or> e = 1"
  shows "unpack_e e Fmt_b (slice raw offset (offset + 1)) = Inr (SInt (sint (raw ! offset)))"
proof -
  have f: "format_e e = Inr (e = 1)" using assms(2) by (auto simp: format_e_def)
  show ?thesis
    unfolding slice1 [OF assms(1)] unpack_e_def f
    by (simp add: struct_unpack_def unpack_sint_byte)
qed

lemma sint_small: "uint (b :: byte) < 128 \<Longrightarrow> sint b = uint b"
  using unpack_sint_byte [of True b] by (simp add: unpack_sint_def unpack_uint_def Let_def)

lemma wkbImage_loop_step:
  assumes "h_endianness h = 0 \<or> h_endianness h = 1"
    and "offset + 1 < length raw"
    and "map_of PTYPE (sint (raw ! offset) - 64) = Some (f, dt, sz)"
    and "read_band raw offset (sint (raw ! offset) - 64) (h_height h) (h_width h) (h_endianness h)
           = Inr band"
  shows "wkbImage_loop raw h (Suc k) i offset img
           = wkbImage_loop raw h k (i + 1) (offset + 1 + h_width h * h_height h * sz) (img @ [band])"
proof -
  have l: "offset < length raw" using assms(2) by simp
  show ?thesis
    using assms(2,3,4) by (simp add: band_type_read [OF l assms(1)] Let_def del: One_nat_def)
qed

text \<open>
  C2. Let the payload (bytes, or the bytes of hexadecimal text) have byte order 0 or 1 in
  byte 0, band count 1 in bytes 3 to 4, width \<open>W \<ge> 1\<close> in bytes 57 to 58 and height
  \<open>H \<ge> 1\<close> in bytes 59 to 60, let byte 61 be \<open>64 + T\<close> for a pixel type \<open>T\<close> of \<open>_PTYPE\<close>
  with sample size \<open>sz\<close>, and let at least \<open>61 + 1 + W * H * sz\<close> bytes be there. Then
  \<open>wkbImage\<close> returns one band, of \<open>H\<close> rows of \<open>W\<close> elements each, and the offset after the
  band is \<open>61 + 1 + W * H * sz\<close>.
\<close>

theorem wkbImage_single_band:
  assumes "wkbImage_raw d = Inr raw"
    and "raw ! 0 = 0 \<or> raw ! 0 = 1"
    and "unpack_uint (raw ! 0 = 1) (slice raw 3 5) = 1"
    and "unpack_uint (raw ! 0 = 1) (slice raw 57 59) = int W"
    and "unpack_uint (raw ! 0 = 1) (slice raw 59 61) = int H"
    and "1 \<le> W" and "1 \<le> H"
    and "uint (raw ! 61) = 64 + T"
    and "map_of PTYPE T = Some (f, dt, sz)"
    and "61 + 1 + W * H * sz \<le> length raw"
  shows "\<exists>band. wkbImage_run d = Inr ([band], 61 + 1 + W * H * sz)
           \<and> wkbImage d = Inr [band]
           \<and> length band = H \<and> (\<forall>row \<in> set band. length row = W)"
proof -
  have l61: "61 \<le> length raw" using assms(10) by simp
  from wkbHeader_ok [OF l61 assms(2), of 1 W H] assms(3,4,5,6,7)
  obtain h where h: "wkbHeader raw = Inr h" "h_endianness h = 0 \<or> h_endianness h = 1"
    "h_nbands h = 1" "h_width h = W" "h_height h = H"
    by auto
  have sz: "0 < sz" using PTYPE_size [OF assms(9)] by simp
  have "0 < W * H * sz" using assms(6,7) sz by simp
  then have l63: "\<not> length raw \<le> 61 + 1" using assms(10) by linarith
  have l62: "61 < length raw" using assms(10) by simp
  have "T \<in> {0, 1, 2, 3, 4, 5, 6, 7, 8, 10, 11}"
    using PTYPE_supported [of T] assms(9) by simp
  then have "uint (raw ! 61) < 128" using assms(8) by auto
  then have bt: "sint (raw ! 61) - 64 = T" using assms(8) by (simp add: sint_small)
  from read_band_ok [OF assms(9) h(2), of 61 W H raw] assms(10)
  obtain band where b: "read_band raw 61 T H W (h_endianness h) = Inr band"
    and lb: "length band = H" and rows: "\<forall>row \<in> set band. length row = W"
    by auto
  have l63': "61 + 1 < length raw" using l63 by simp
  have "wkbImage_loop raw h (Suc 0) 0 61 []
      = wkbImage_loop raw h 0 (0 + 1) (61 + 1 + h_width h * h_height h * sz) ([] @ [band])"
    using h(2) l63' by (rule wkbImage_loop_step) (simp_all add: bt assms(9) b h(4,5))
  then have loop: "wkbImage_loop raw h (Suc 0) 0 61 [] = Inr ([band], 61 + 1 + W * H * sz)"
    by (simp add: h(4,5))
  have run: "wkbImage_run d = Inr ([band], 61 + 1 + W * H * sz)"
    using loop by (simp add: wkbImage_run_def and_then_def assms(1) h(1,3))
  then have "wkbImage d = Inr [band]"
    by (simp add: wkbImage_def and_then_def)
  with run lb rows show ?thesis by blast
qed

text \<open>
  C2 on a little-endian raster of width 5 and height 6 with one band of pixel type 0: the
  30 bytes after the band byte come back as a grid of 6 rows of 5 booleans, and the offset
  reached is 92.
\<close>

theorem wkbImage_single_band_witness:
  "wkbImage_raw (Buffer Bytes [1, 0, 0, 1, 0, 0, 0, 0, 0, 0, 0, 0, 0, 0, 0, 0, 0, 0, 0, 0, 0, 0, 0, 0,
        0, 0, 0, 0, 0, 0, 0, 0, 0, 0, 0, 0, 0, 0, 0, 0, 0, 0, 0, 0, 0, 0, 0, 0,
        0, 0, 0, 0, 0, 230, 16, 0, 0, 5, 0, 6, 0, 64, 0, 1, 1, 1, 1, 1, 1, 1, 1, 1,
        0, 1, 1, 1, 0, 0, 1, 1, 0, 0, 0, 1, 0, 0, 0, 0, 0, 0, 0, 0]) = Inr [1, 0, 0, 1, 0, 0, 0, 0, 0, 0, 0, 0, 0, 0, 0, 0, 0, 0, 0, 0, 0, 0, 0, 0,
        0, 0, 0, 0, 0, 0, 0, 0, 0, 0, 0, 0, 0, 0, 0, 0, 0, 0, 0, 0, 0, 0, 0, 0,
        0, 0, 0, 0, 0, 230, 16, 0, 0, 5, 0, 6, 0, 64, 0, 1, 1, 1, 1, 1, 1, 1, 1, 1,
        0, 1, 1, 1, 0, 0, 1, 1, 0, 0, 0, 1, 0, 0, 0, 0, 0, 0, 0, 0]
   \<and> (\<exists>band. wkbImage_run (Buffer Bytes [1, 0, 0, 1, 0, 0, 0, 0, 0, 0, 0, 0, 0, 0, 0, 0, 0, 0, 0, 0, 0, 0, 0, 0,
         0, 0, 0, 0, 0, 0, 0, 0, 0, 0, 0, 0, 0, 0, 0, 0, 0, 0, 0, 0, 0, 0, 0, 0,
         0, 0, 0, 0, 0, 230, 16, 0, 0, 5, 0, 6, 0, 64, 0, 1, 1, 1, 1, 1, 1, 1, 1, 1,
         0, 1, 1, 1, 0, 0, 1, 1, 0, 0, 0, 1, 0, 0, 0, 0, 0, 0, 0, 0]) = Inr ([band], 92)
          \<and> wkbImage (Buffer Bytes [1, 0, 0, 1, 0, 0, 0, 0, 0, 0, 0, 0, 0, 0, 0, 0, 0, 0, 0, 0, 0, 0, 0, 0,
                0, 0, 0, 0, 0, 0, 0, 0, 0, 0, 0, 0, 0, 0, 0, 0, 0, 0, 0, 0, 0, 0, 0, 0,
                0, 0, 0, 0, 0, 230, 16, 0, 0, 5, 0, 6, 0, 64, 0, 1, 1, 1, 1, 1, 1, 1, 1, 1,
                0, 1, 1, 1, 0, 0, 1, 1, 0, 0, 0, 1, 0, 0, 0, 0, 0, 0, 0, 0]) = Inr [band]
          \<and> length band = 6 \<and> (\<forall>row \<in> set band. length row = 5))
   \<and> wkbImage_run (Buffer Bytes [1, 0, 0, 1, 0, 0, 0, 0, 0, 0, 0, 0, 0, 0, 0, 0, 0, 0, 0, 0, 0, 0, 0, 0,
         0, 0, 0, 0, 0, 0, 0, 0, 0, 0, 0, 0, 0, 0, 0, 0, 0, 0, 0, 0, 0, 0, 0, 0,
         0, 0, 0, 0, 0, 230, 16, 0, 0, 5, 0, 6, 0, 64, 0, 1, 1, 1, 1, 1, 1, 1, 1, 1,
         0, 1, 1, 1, 0, 0, 1, 1, 0, 0, 0, 1, 0, 0, 0, 0, 0, 0, 0, 0]) = Inr ([[[SBool False, SBool True, SBool True, SBool True, SBool True], [SBool True, SBool True, SBool True, SBool True, SBool True], [SBool False, SBool True, SBool True, SBool True, SBool False], [SBool False, SBool True, SBool True, SBool False, SBool False], [SBool False, SBool True, SBool False, SBool False, SBool False], [SBool False, SBool False, SBool False, SBool False, SBool False]]], 92)"
proof -
  let ?raw = "[1, 0, 0, 1, 0, 0, 0, 0, 0, 0, 0, 0, 0, 0, 0, 0, 0, 0, 0, 0, 0, 0, 0, 0,
        0, 0, 0, 0, 0, 0, 0, 0, 0, 0, 0, 0, 0, 0, 0, 0, 0, 0, 0, 0, 0, 0, 0, 0,
        0, 0, 0, 0, 0, 230, 16, 0, 0, 5, 0, 6, 0, 64, 0, 1, 1, 1, 1, 1, 1, 1, 1, 1,
        0, 1, 1, 1, 0, 0, 1, 1, 0, 0, 0, 1, 0, 0, 0, 0, 0, 0, 0, 0] :: byte list"
  have r: "wkbImage_raw (Buffer Bytes ?raw) = Inr ?raw" by (simp add: wkbImage_raw_def)
  have a: "?raw ! 0 = 0 \<or> ?raw ! 0 = 1" by simp
  have n: "unpack_uint (?raw ! 0 = 1) (slice ?raw 3 5) = 1"
    by (simp add: slice_def unpack_uint_def)
  have w: "unpack_uint (?raw ! 0 = 1) (slice ?raw 57 59) = int 5"
    by (simp add: slice_def unpack_uint_def)
  have h: "unpack_uint (?raw ! 0 = 1) (slice ?raw 59 61) = int 6"
    by (simp add: slice_def unpack_uint_def)
  have t: "uint (?raw ! 61) = 64 + 0" by simp
  have p: "map_of PTYPE 0 = Some (Fmt_bool, ''?'', 1)" by (simp add: PTYPE_def)
  have l: "61 + 1 + 5 * 6 * 1 \<le> length ?raw" by simp
  have ev: "wkbImage_run (Buffer Bytes [1, 0, 0, 1, 0, 0, 0, 0, 0, 0, 0, 0, 0, 0, 0, 0, 0, 0, 0, 0, 0, 0, 0, 0,
        0, 0, 0, 0, 0, 0, 0, 0, 0, 0, 0, 0, 0, 0, 0, 0, 0, 0, 0, 0, 0, 0, 0, 0,
        0, 0, 0, 0, 0, 230, 16, 0, 0, 5, 0, 6, 0, 64, 0, 1, 1, 1, 1, 1, 1, 1, 1, 1,
        0, 1, 1, 1, 0, 0, 1, 1, 0, 0, 0, 1, 0, 0, 0, 0, 0, 0, 0, 0]) = Inr ([[[SBool False, SBool True, SBool True, SBool True, SBool True], [SBool True, SBool True, SBool True, SBool True, SBool True], [SBool False, SBool True, SBool True, SBool True, SBool False], [SBool False, SBool True, SBool True, SBool False, SBool False], [SBool False, SBool True, SBool False, SBool False, SBool False], [SBool False, SBool False, SBool False, SBool False, SBool False]]], 92)"
    by (simp add: wkbImage_run_def wkbImage_raw_def and_then_def wkbHeader_def header_fields_def
        unpack_e_def format_e_def struct_unpack_def slice_def unpack_sint_def unpack_uint_def
        Let_def read_band_def PTYPE_def upt_rec)
  from wkbImage_single_band [OF r a n w h _ _ t p l]
  have ex: "\<exists>band. wkbImage_run (Buffer Bytes ?raw) = Inr ([band], 92)
          \<and> wkbImage (Buffer Bytes ?raw) = Inr [band]
          \<and> length band = 6 \<and> (\<forall>row \<in> set band. length row = 5)"
    by simp
  from r ex ev show ?thesis by (intro conjI)
qed











end
